theory Spec2Isabelle
  imports Complex_Main "HOL-Library.Sublist" "HOL-Library.Log_Nat"
begin

section \<open>JavaScript values\<close>

text \<open>
  The Hyperliquid facilitator (\<^verbatim>\<open>schemes/exact/hyperliquid/facilitator/verify.ts\<close> and
  \<^verbatim>\<open>settle.ts\<close>) reads fields of type \<^verbatim>\<open>unknown\<close> out of the signed action and out of
  the explorer's answers, so the model carries JavaScript values as a datatype and writes
  out every \<^verbatim>\<open>typeof\<close> test, truthiness test and optional chaining of the source.

  A JavaScript number is a finite value, an infinity or NaN; a BigInt is an integer. A
  finite value is modelled by its exact rational value, and the sum and the product that
  the code computes on numbers are rounded to the nearest binary64 value as IEEE 754 does.
  Strings are lists of 8-bit characters; the strings compared by the code are hex
  addresses and token ids, which are ASCII.
\<close>

datatype jsnum = Fin rat | PosInf | NegInf | NaN

datatype json =
    JUndefined
  | JNull
  | JBool bool
  | JNumber jsnum
  | JString string
  | JBigInt int
  | JArray "json list"
  | JObject "(string \<times> json) list"

text \<open>\<^verbatim>\<open>v?.k\<close> for the fixed property names the code reads: an object gives the value stored
  under the key, everything else (arrays and primitives have none of these names, and the
  optional chaining covers null and undefined) gives undefined.\<close>

fun get_prop :: "string \<Rightarrow> json \<Rightarrow> json" where
  "get_prop k (JObject kvs) = (case map_of kvs k of Some v \<Rightarrow> v | None \<Rightarrow> JUndefined)"
| "get_prop k v = JUndefined"

fun truthy :: "json \<Rightarrow> bool" where
  "truthy JUndefined = False"
| "truthy JNull = False"
| "truthy (JBool b) = b"
| "truthy (JNumber n) = (n \<noteq> NaN \<and> n \<noteq> Fin 0)"
| "truthy (JString s) = (s \<noteq> [])"
| "truthy (JBigInt n) = (n \<noteq> 0)"
| "truthy (JArray xs) = True"
| "truthy (JObject kvs) = True"

text \<open>\<^verbatim>\<open>typeof v === "object"\<close>\<close>

fun typeof_object :: "json \<Rightarrow> bool" where
  "typeof_object JNull = True"
| "typeof_object (JArray xs) = True"
| "typeof_object (JObject kvs) = True"
| "typeof_object v = False"

text \<open>\<^verbatim>\<open>typeof v === "string" ? v : undefined\<close>\<close>

fun as_string :: "json \<Rightarrow> string option" where
  "as_string (JString s) = Some s"
| "as_string v = None"

text \<open>\<^verbatim>\<open>v == null\<close>\<close>

fun nullish :: "json \<Rightarrow> bool" where
  "nullish JUndefined = True"
| "nullish JNull = True"
| "nullish v = False"

subsection \<open>Strings\<close>

definition lower_char :: "char \<Rightarrow> char" where
  "lower_char c = (let n = (of_char c :: int) in
     if (65 \<le> n \<and> n \<le> 90) \<or> (192 \<le> n \<and> n \<le> 222 \<and> n \<noteq> 215)
     then char_of (n + 32) else c)"

definition toLowerCase :: "string \<Rightarrow> string" where
  "toLowerCase s = map lower_char s"

definition is_space :: "char \<Rightarrow> bool" where
  "is_space c = ((of_char c :: int) \<in> {9, 10, 11, 12, 13, 32, 160})"

definition trim :: "string \<Rightarrow> string" where
  "trim s = rev (dropWhile is_space (rev (dropWhile is_space s)))"

definition is_digit :: "char \<Rightarrow> bool" where
  "is_digit c = (let n = (of_char c :: int) in 48 \<le> n \<and> n \<le> 57)"

definition is_hex_digit :: "char \<Rightarrow> bool" where
  "is_hex_digit c = (let n = (of_char c :: int) in
     (48 \<le> n \<and> n \<le> 57) \<or> (65 \<le> n \<and> n \<le> 70) \<or> (97 \<le> n \<and> n \<le> 102))"

definition digit_val :: "char \<Rightarrow> int" where
  "digit_val c = (let n = (of_char c :: int) in
     if 97 \<le> n then n - 87 else if 65 \<le> n then n - 55 else n - 48)"

text \<open>The value of a digit string in a radix, most significant digit first.\<close>

definition radix_value :: "int \<Rightarrow> string \<Rightarrow> int" where
  "radix_value b s = foldl (\<lambda>acc c. b * acc + digit_val c) 0 s"

text \<open>\<^verbatim>\<open>s.split(sep)\<close> for a one-character separator: always at least one part.\<close>

fun split_str :: "char \<Rightarrow> string \<Rightarrow> string list" where
  "split_str sep [] = [[]]"
| "split_str sep (c # cs) =
     (if c = sep then [] # split_str sep cs
      else (case split_str sep cs of
              [] \<Rightarrow> [[c]]
            | p # ps \<Rightarrow> (c # p) # ps))"

text \<open>\<^verbatim>\<open>s.includes(t)\<close>\<close>

fun str_includes :: "string \<Rightarrow> string \<Rightarrow> bool" where
  "str_includes [] t = (t = [])"
| "str_includes (c # cs) t = (prefix t (c # cs) \<or> str_includes cs t)"

subsection \<open>BigInt\<close>

text \<open>\<^verbatim>\<open>BigInt(s)\<close> on a string (StringToBigInt of ECMA-262): surrounding white space is
  dropped, the empty string is zero, a decimal literal may carry a sign, a hexadecimal,
  octal or binary literal may not, and anything else is a SyntaxError (None).\<close>

definition BigInt_of_string :: "string \<Rightarrow> int option" where
  "BigInt_of_string s =
     (let t = trim s in
      if t = [] then Some 0
      else if list_all is_digit t then Some (radix_value 10 t)
      else (case t of
              [] \<Rightarrow> None
            | c # r \<Rightarrow>
                if c = CHR ''+'' \<and> r \<noteq> [] \<and> list_all is_digit r
                  then Some (radix_value 10 r)
                else if c = CHR ''-'' \<and> r \<noteq> [] \<and> list_all is_digit r
                  then Some (- radix_value 10 r)
                else if c = CHR ''0'' then
                  (case r of
                     [] \<Rightarrow> None
                   | x # h \<Rightarrow>
                       if (x = CHR ''x'' \<or> x = CHR ''X'') \<and> h \<noteq> [] \<and> list_all is_hex_digit h
                         then Some (radix_value 16 h)
                       else if (x = CHR ''o'' \<or> x = CHR ''O'') \<and> h \<noteq> []
                               \<and> list_all (\<lambda>d. d \<in> set ''01234567'') h
                         then Some (radix_value 8 h)
                       else if (x = CHR ''b'' \<or> x = CHR ''B'') \<and> h \<noteq> []
                               \<and> list_all (\<lambda>d. d \<in> set ''01'') h
                         then Some (radix_value 2 h)
                       else None)
                else None))"

section \<open>Requirements, payloads and responses\<close>

text \<open>The scheme literal and the Hyperliquid network family. \<^verbatim>\<open>SCHEME\<close> is declared in
  \<^verbatim>\<open>schemes/exact/index.ts\<close>, a file that is not among the sources; its value is the one the
  tests of verify and settle pass (\<^verbatim>\<open>scheme: "exact"\<close>). \<^verbatim>\<open>SupportedHLNetworks\<close> is as
  the integration plan declares it.\<close>

definition SCHEME :: string where
  "SCHEME = ''exact''"

definition SupportedHLNetworks :: "string list" where
  "SupportedHLNetworks = [''hyperliquid-testnet'', ''hyperliquid'']"

text \<open>The fields of the requirements that verify and settle read (\<^verbatim>\<open>resource\<close>,
  \<^verbatim>\<open>description\<close> and \<^verbatim>\<open>mimeType\<close> are informational and never read).\<close>

record PaymentRequirements =
  pr_scheme :: string
  pr_network :: string
  maxAmountRequired :: string
  payTo :: string
  maxTimeoutSeconds :: rat
  asset :: string
  extra :: "(string \<times> json) list option"

text \<open>The envelope. Its \<^verbatim>\<open>payload\<close> is one of the object types of the union, so it is an
  object; which fields it has is what the code tests.\<close>

record PaymentPayload =
  x402Version :: nat
  pp_scheme :: string
  pp_network :: string
  pp_payload :: "(string \<times> json) list"

datatype ErrorReason =
    invalid_exact_hl_network
  | invalid_exact_hl_payload
  | invalid_exact_hl_payload_recipient_mismatch
  | invalid_exact_hl_payload_asset_mismatch
  | invalid_exact_hl_payload_amount_mismatch
  | payment_expired
  | hl_exchange_error
  | hl_tx_not_found
  | hl_tx_unconfirmed

record VerifyResponse =
  isValid :: bool
  invalidReason :: "ErrorReason option"
  vr_payer :: "string option"

definition rejected :: "ErrorReason \<Rightarrow> VerifyResponse" where
  "rejected r = \<lparr>isValid = False, invalidReason = Some r, vr_payer = None\<rparr>"

section \<open>The world outside the facilitator\<close>

datatype exn = Error string

record TokenDetailsResponse =
  weiDecimals :: jsnum
  td_name :: string

record HyperliquidTokenInfo =
  ti_decimals :: jsnum
  ti_symbol :: string
  ti_name :: string
  ti_tokenId :: string

text \<open>What the exchange endpoint answers to the POST: \<^verbatim>\<open>fetch\<close> rejects, or resolves to a
  response with its \<^verbatim>\<open>ok\<close> flag and the body that \<^verbatim>\<open>response.json().catch(() => null)\<close>
  gives, typed as the source types it (\<^verbatim>\<open>HyperliquidSettleResponse | null\<close>).\<close>

record HyperliquidSettleResponse =
  hs_status :: "string option"
  hs_response_txHash :: "string option"
  hs_txHash :: "string option"
  hs_hash :: "string option"

datatype fetch_result =
    FetchRejects
  | FetchResponse bool "HyperliquidSettleResponse option"

text \<open>Everything the code calls and does not define: the two number conversions of the
  language that are floating point (\<^verbatim>\<open>Number(s)\<close> on a string, \<^verbatim>\<open>n.toString()\<close> on a finite
  number), and the network. The info client is identified by its \<^verbatim>\<open>isTestnet\<close> flag. An
  answer of \<open>None\<close> is a rejected promise. \<^verbatim>\<open>txDetails\<close> is asked once per attempt, so its
  answer depends on the attempt; it resolves (\<open>None\<close>) or throws an error whose
  \<^verbatim>\<open>String(error?.toString())\<close> is the string given.\<close>

record env =
  NumberOfString :: "string \<Rightarrow> jsnum"
  NumberToString :: "rat \<Rightarrow> string"
  tokenDetails :: "bool \<Rightarrow> string \<Rightarrow> TokenDetailsResponse option"
  exchangePost :: "string \<Rightarrow> json \<Rightarrow> json \<Rightarrow> json \<Rightarrow> fetch_result"
  userDetails :: "bool \<Rightarrow> string \<Rightarrow> json option"
  txDetails :: "bool \<Rightarrow> string \<Rightarrow> nat \<Rightarrow> string option"

text \<open>What the code does to the outside, in order.\<close>

datatype effect =
    TokenInfoLookup string string
  | TokenDetailsRequest bool string
  | ExchangePost string json json json
  | UserDetailsRequest bool string
  | TxDetailsRequest bool string
  | Delay nat

text \<open>The module-level token-info cache of \<^verbatim>\<open>shared/hyperliquid/index.ts\<close> and the log of
  effects.\<close>

record world =
  tokenInfoCache :: "string \<rightharpoonup> HyperliquidTokenInfo"
  effects :: "effect list"

definition emit :: "effect \<Rightarrow> world \<Rightarrow> world" where
  "emit e w = w\<lparr>effects := effects w @ [e]\<rparr>"

section \<open>shared/hyperliquid\<close>

definition assertHyperliquidNetwork :: "string \<Rightarrow> exn + unit" where
  "assertHyperliquidNetwork network =
     (if network \<in> set SupportedHLNetworks then Inr ()
      else Inl (Error (''Unsupported Hyperliquid network: '' @ network)))"

definition createInfoClient :: "string \<Rightarrow> exn + bool" where
  "createInfoClient network =
     (case assertHyperliquidNetwork network of
        Inl e \<Rightarrow> Inl e
      | Inr u \<Rightarrow> Inr (network = ''hyperliquid-testnet''))"

definition getExchangeBaseUrl :: "string \<Rightarrow> exn + string" where
  "getExchangeBaseUrl network =
     (case assertHyperliquidNetwork network of
        Inl e \<Rightarrow> Inl e
      | Inr u \<Rightarrow> Inr (if network = ''hyperliquid-testnet''
                       then ''https://api.hyperliquid-testnet.xyz/exchange''
                       else ''https://api.hyperliquid.xyz/exchange''))"

definition fetchHyperliquidTokenInfo ::
  "env \<Rightarrow> world \<Rightarrow> string \<Rightarrow> string \<Rightarrow> (exn + HyperliquidTokenInfo) \<times> world" where
  "fetchHyperliquidTokenInfo en w0 network tokenId =
     (let w = emit (TokenInfoLookup network tokenId) w0 in
      case assertHyperliquidNetwork network of
        Inl e \<Rightarrow> (Inl e, w)
      | Inr u \<Rightarrow>
          let cacheKey = network @ '':'' @ toLowerCase tokenId in
          (case tokenInfoCache w cacheKey of
             Some cached \<Rightarrow> (Inr cached, w)
           | None \<Rightarrow>
               (case createInfoClient network of
                  Inl e \<Rightarrow> (Inl e, w)
                | Inr client \<Rightarrow>
                    let w1 = emit (TokenDetailsRequest client tokenId) w in
                    (case tokenDetails en client tokenId of
                       None \<Rightarrow> (Inl (Error ''tokenDetails''), w1)
                     | Some response \<Rightarrow>
                         let info = \<lparr>ti_decimals = weiDecimals response,
                                     ti_symbol = td_name response,
                                     ti_name = td_name response,
                                     ti_tokenId = tokenId\<rparr>
                         in (Inr info,
                             w1\<lparr>tokenInfoCache := (tokenInfoCache w1)(cacheKey \<mapsto> info)\<rparr>)))))"

section \<open>facilitator/verify.ts\<close>

text \<open>\<^verbatim>\<open>/^\d+(\.\d+)?$/\<close>\<close>

definition valid_decimal :: "string \<Rightarrow> bool" where
  "valid_decimal s =
     (takeWhile is_digit s \<noteq> [] \<and>
      (case dropWhile is_digit s of
         [] \<Rightarrow> True
       | c # f \<Rightarrow> c = CHR ''.'' \<and> f \<noteq> [] \<and> list_all is_digit f))"

text \<open>\<^verbatim>\<open>decimalToAtomic\<close>; \<open>None\<close> is a throw. \<^verbatim>\<open>slice(0, decimals)\<close> and
  \<^verbatim>\<open>padEnd(decimals, "0")\<close> truncate a fractional \<^verbatim>\<open>decimals\<close>, and \<^verbatim>\<open>BigInt(decimals)\<close>
  throws a RangeError unless \<^verbatim>\<open>decimals\<close> is an integer; \<^verbatim>\<open>10n ** n\<close> throws for a
  negative \<open>n\<close>. The engine's limits on the length of a string and the size of a BigInt
  are not modelled.\<close>

definition decimalToAtomic :: "string \<Rightarrow> jsnum \<Rightarrow> int option" where
  "decimalToAtomic val decimals =
     (let sanitized = trim val in
      if \<not> valid_decimal sanitized then None
      else
        (case split_str CHR ''.'' sanitized of
           [] \<Rightarrow> None
         | whole # rest \<Rightarrow>
             let fraction = (case rest of [] \<Rightarrow> [] | f # fs \<Rightarrow> f) in
             (case decimals of
                Fin d \<Rightarrow>
                  if d \<noteq> of_int \<lfloor>d\<rfloor> \<or> d < 0 then None
                  else
                    let n = nat \<lfloor>d\<rfloor>;
                        normalizedFraction =
                          (if of_nat (length fraction) > d then take n fraction
                           else fraction @ replicate (n - length fraction) CHR ''0'')
                    in (case BigInt_of_string (if whole = [] then ''0'' else whole) of
                          None \<Rightarrow> None
                        | Some wholeBig \<Rightarrow>
                            (case BigInt_of_string
                                    (if normalizedFraction = [] then ''0''
                                     else normalizedFraction) of
                               None \<Rightarrow> None
                             | Some fractionalUnits \<Rightarrow>
                                 Some (wholeBig * 10 ^ n + fractionalUnits)))
              | PosInf \<Rightarrow> None
              | NegInf \<Rightarrow> None
              | NaN \<Rightarrow> None)))"

text \<open>\<^verbatim>\<open>a >= b\<close> and \<^verbatim>\<open>a < 0\<close> on numbers.\<close>

fun js_ge :: "jsnum \<Rightarrow> jsnum \<Rightarrow> bool" where
  "js_ge NaN b = False"
| "js_ge a NaN = False"
| "js_ge PosInf b = True"
| "js_ge a NegInf = True"
| "js_ge NegInf b = False"
| "js_ge a PosInf = False"
| "js_ge (Fin x) (Fin y) = (x \<ge> y)"

fun js_negative :: "jsnum \<Rightarrow> bool" where
  "js_negative (Fin x) = (x < 0)"
| "js_negative NegInf = True"
| "js_negative PosInf = False"
| "js_negative NaN = False"

definition ensureAmountMeetsRequirement ::
  "env \<Rightarrow> string \<Rightarrow> string \<Rightarrow> jsnum option \<Rightarrow> bool" where
  "ensureAmountMeetsRequirement en payloadAmount requiredAtomicAmount decimals =
     (case decimals of
        None \<Rightarrow> js_ge (NumberOfString en payloadAmount) (NumberOfString en requiredAtomicAmount)
      | Some d \<Rightarrow>
          if js_negative d
          then js_ge (NumberOfString en payloadAmount) (NumberOfString en requiredAtomicAmount)
          else (case decimalToAtomic payloadAmount d of
                  None \<Rightarrow> False
                | Some payloadAtomic \<Rightarrow>
                    (case BigInt_of_string requiredAtomicAmount of
                       None \<Rightarrow> False
                     | Some required \<Rightarrow> payloadAtomic \<ge> required)))"

subsection \<open>Arithmetic on numbers\<close>

text \<open>The binary exponent of a positive rational \<open>x\<close>: the \<open>e\<close> with \<open>2^e \<le> x < 2^(e+1)\<close>,
  found from the bit lengths of numerator and denominator.\<close>

definition exponent_of :: "rat \<Rightarrow> int" where
  "exponent_of x =
     (let d = bitlen (fst (quotient_of x)) - bitlen (snd (quotient_of x))
      in if power_int 2 d \<le> x then d else d - 1)"

text \<open>The nearest integer, the even one of two that are equally near.\<close>

definition round_half_even :: "rat \<Rightarrow> int" where
  "round_half_even x =
     (let f = \<lfloor>x\<rfloor>; r = x - of_int f
      in if r < 1 / 2 then f
         else if 1 / 2 < r then f + 1
         else if even f then f else f + 1)"

text \<open>The binary64 value of an exact result (IEEE 754, round to nearest, ties to even): 53
  significant bits, the spacing of the subnormal numbers below \<open>2^-1022\<close>, and an infinity
  for what rounds to \<open>2^1024\<close> or more. The sign of a zero is not modelled.\<close>

definition round_double :: "rat \<Rightarrow> jsnum" where
  "round_double x =
     (if x = 0 then Fin 0
      else
        let q = power_int 2 (max (exponent_of \<bar>x\<bar> - 52) (- 1074));
            y = of_int (round_half_even (\<bar>x\<bar> / q)) * q
        in if 2 ^ 1024 \<le> y then (if 0 < x then PosInf else NegInf)
           else Fin (if 0 < x then y else - y))"

text \<open>\<^verbatim>\<open>a + b\<close> and \<^verbatim>\<open>a * b\<close> on numbers.\<close>

definition js_add :: "jsnum \<Rightarrow> jsnum \<Rightarrow> jsnum" where
  "js_add a b =
     (case (a, b) of
        (Fin x, Fin y) \<Rightarrow> round_double (x + y)
      | (Fin x, _) \<Rightarrow> b
      | (_, Fin y) \<Rightarrow> a
      | _ \<Rightarrow> if a = b then a else NaN)"

definition js_mul :: "jsnum \<Rightarrow> jsnum \<Rightarrow> jsnum" where
  "js_mul a b =
     (case (a, b) of
        (Fin x, Fin y) \<Rightarrow> round_double (x * y)
      | _ \<Rightarrow>
          if a = NaN \<or> b = NaN \<or> a = Fin 0 \<or> b = Fin 0 then NaN
          else if js_negative a = js_negative b then PosInf else NegInf)"

text \<open>\<^verbatim>\<open>withinTtl\<close>, with \<^verbatim>\<open>Date.now()\<close> passed in:
  \<^verbatim>\<open>Date.now() <= actionTime + maxTimeoutSeconds * 1000\<close> for a finite \<^verbatim>\<open>actionTime\<close>.\<close>

definition withinTtl :: "rat \<Rightarrow> json \<Rightarrow> rat \<Rightarrow> bool" where
  "withinTtl now actionTime maxTimeout =
     (case actionTime of
        JNumber (Fin t) \<Rightarrow>
          js_ge (js_add (Fin t) (js_mul (Fin maxTimeout) (Fin 1000))) (Fin now)
      | _ \<Rightarrow> False)"

definition extractHyperliquidTokenId :: "string \<Rightarrow> string option" where
  "extractHyperliquidTokenId a =
     (if a = [] then None
      else
        (case split_str CHR '':'' a of
           [] \<Rightarrow> None
         | p0 # ps \<Rightarrow>
             if length (p0 # ps) = 2 then Some (hd ps)
             else if prefix ''0x'' p0 then Some p0
             else None))"

definition resolveDecimals ::
  "env \<Rightarrow> world \<Rightarrow> PaymentRequirements \<Rightarrow> jsnum option \<times> world" where
  "resolveDecimals en w paymentRequirements =
     (let provided = (case extra paymentRequirements of
                        None \<Rightarrow> JUndefined
                      | Some e \<Rightarrow> get_prop ''decimals'' (JObject e))
      in case provided of
           JNumber n \<Rightarrow> (Some n, w)
         | _ \<Rightarrow>
             (case extractHyperliquidTokenId (asset paymentRequirements) of
                None \<Rightarrow> (None, w)
              | Some tokenId \<Rightarrow>
                  if tokenId = [] then (None, w)
                  else
                    (case fetchHyperliquidTokenInfo en w (pr_network paymentRequirements) tokenId of
                       (Inl e, w') \<Rightarrow> (None, w')
                     | (Inr info, w') \<Rightarrow> (Some (ti_decimals info), w'))))"

text \<open>\<^verbatim>\<open>extractPayer\<close> of verify.ts: the payload's \<^verbatim>\<open>user\<close> if it is a string, else the
  action's. It is called only once the action is known to be an object.\<close>

definition extractPayer_verify :: "(string \<times> json) list \<Rightarrow> string option" where
  "extractPayer_verify p =
     (case get_prop ''user'' (JObject p) of
        JString u \<Rightarrow> Some u
      | _ \<Rightarrow> as_string (get_prop ''user'' (get_prop ''action'' (JObject p))))"

definition verify ::
  "env \<Rightarrow> rat \<Rightarrow> world \<Rightarrow> PaymentPayload \<Rightarrow> PaymentRequirements \<Rightarrow> VerifyResponse \<times> world" where
  "verify en now w paymentPayload paymentRequirements =
     (if pp_scheme paymentPayload \<noteq> SCHEME
         \<or> pr_scheme paymentRequirements \<noteq> SCHEME
         \<or> pp_network paymentPayload \<noteq> pr_network paymentRequirements
         \<or> pr_network paymentRequirements \<notin> set SupportedHLNetworks
      then (rejected invalid_exact_hl_network, w)
      else
        let rawAction = get_prop ''action'' (JObject (pp_payload paymentPayload)) in
        if \<not> truthy rawAction \<or> \<not> typeof_object rawAction
        then (rejected invalid_exact_hl_payload, w)
        else
          (case (as_string (get_prop ''destination'' rawAction),
                 as_string (get_prop ''token'' rawAction),
                 as_string (get_prop ''amount'' rawAction)) of
             (Some destination, Some token, Some amount) \<Rightarrow>
               if destination = [] \<or> token = [] \<or> amount = []
               then (rejected invalid_exact_hl_payload, w)
               else if toLowerCase destination \<noteq> toLowerCase (payTo paymentRequirements)
               then (rejected invalid_exact_hl_payload_recipient_mismatch, w)
               else if token \<noteq> asset paymentRequirements
               then (rejected invalid_exact_hl_payload_asset_mismatch, w)
               else
                 (case resolveDecimals en w paymentRequirements of
                    (decimals, w') \<Rightarrow>
                      if \<not> ensureAmountMeetsRequirement en amount
                             (maxAmountRequired paymentRequirements) decimals
                      then (rejected invalid_exact_hl_payload_amount_mismatch, w')
                      else if \<not> withinTtl now (get_prop ''time'' rawAction)
                                  (maxTimeoutSeconds paymentRequirements)
                      then (rejected payment_expired, w')
                      else (\<lparr>isValid = True, invalidReason = None,
                              vr_payer = extractPayer_verify (pp_payload paymentPayload)\<rparr>, w'))
           | _ \<Rightarrow> (rejected invalid_exact_hl_payload, w)))"

section \<open>facilitator/settle.ts\<close>

text \<open>Settle reads nothing of the world but the answers of the network, so its functions
  return their result together with the effects they had, in order.\<close>

definition CONFIRMATION_RETRIES :: nat where
  "CONFIRMATION_RETRIES = 3"

definition CONFIRMATION_DELAY_MS :: nat where
  "CONFIRMATION_DELAY_MS = 250"

record SettleResponse =
  success :: bool
  errorReason :: "ErrorReason option"
  transaction :: string
  sr_network :: string
  sr_payer :: "string option"

text \<open>\<^verbatim>\<open>/^0x[0-9a-fA-F]{64}$/\<close>\<close>

definition isHexHash :: "string \<Rightarrow> bool" where
  "isHexHash s =
     (case s of
        c0 # c1 # h \<Rightarrow> c0 = CHR ''0'' \<and> c1 = CHR ''x'' \<and> length h = 64 \<and> list_all is_hex_digit h
      | _ \<Rightarrow> False)"

text \<open>\<^verbatim>\<open>extractPayer\<close> of settle.ts. The payload is an object, so the first two tests of
  the source pass; \<^verbatim>\<open>"action" in payload\<close> asks for the key. Reading \<^verbatim>\<open>action.user\<close> of an
  action that is null or undefined is a TypeError.\<close>

definition extractPayer_settle :: "(string \<times> json) list \<Rightarrow> exn + string option" where
  "extractPayer_settle p =
     (if map_of p ''action'' = None then Inr None
      else
        (case get_prop ''user'' (JObject p) of
           JString u \<Rightarrow> Inr (Some u)
         | _ \<Rightarrow>
             let action = get_prop ''action'' (JObject p) in
             if nullish action then Inl (Error ''TypeError'')
             else Inr (as_string (get_prop ''user'' action))))"

definition extractFallbackTransaction :: "PaymentRequirements \<Rightarrow> string" where
  "extractFallbackTransaction paymentRequirements = payTo paymentRequirements"

definition failureResponse ::
  "ErrorReason \<Rightarrow> PaymentRequirements \<Rightarrow> PaymentPayload \<Rightarrow> string option \<Rightarrow> string option
     \<Rightarrow> exn + SettleResponse" where
  "failureResponse reason paymentRequirements p txHash payer =
     (let tx = (case txHash of
                  Some h \<Rightarrow> h
                | None \<Rightarrow> extractFallbackTransaction paymentRequirements)
      in case payer of
           Some u \<Rightarrow>
             Inr \<lparr>success = False, errorReason = Some reason, transaction = tx,
                  sr_network = pr_network paymentRequirements, sr_payer = Some u\<rparr>
         | None \<Rightarrow>
             (case extractPayer_settle (pp_payload p) of
                Inl e \<Rightarrow> Inl e
              | Inr u \<Rightarrow>
                  Inr \<lparr>success = False, errorReason = Some reason, transaction = tx,
                       sr_network = pr_network paymentRequirements, sr_payer = u\<rparr>))"

datatype ConfirmationResult = conf_confirmed | conf_not_found | conf_timeout

text \<open>The loop of \<^verbatim>\<open>confirmTransaction\<close>, from a given attempt on.\<close>

function confirmTransaction_from ::
  "env \<Rightarrow> bool \<Rightarrow> string \<Rightarrow> nat \<Rightarrow> ConfirmationResult \<times> effect list" where
  "confirmTransaction_from en infoClient hash attempt =
     (if attempt < CONFIRMATION_RETRIES then
        (case txDetails en infoClient hash attempt of
           None \<Rightarrow> (conf_confirmed, [TxDetailsRequest infoClient hash])
         | Some err \<Rightarrow>
             if str_includes (toLowerCase err) ''not found''
             then (conf_not_found, [TxDetailsRequest infoClient hash])
             else
               (case confirmTransaction_from en infoClient hash (Suc attempt) of
                  (res, tr) \<Rightarrow>
                    (res, TxDetailsRequest infoClient hash # Delay CONFIRMATION_DELAY_MS # tr)))
      else (conf_timeout, []))"
  by pat_completeness auto
termination
  by (relation "measure (\<lambda>(en, infoClient, hash, attempt). CONFIRMATION_RETRIES - attempt)") auto

declare confirmTransaction_from.simps [simp del]

definition confirmTransaction :: "env \<Rightarrow> bool \<Rightarrow> string \<Rightarrow> ConfirmationResult \<times> effect list" where
  "confirmTransaction en infoClient hash = confirmTransaction_from en infoClient hash 0"

definition submitExchange ::
  "env \<Rightarrow> string \<Rightarrow> (string \<times> json) list
     \<Rightarrow> (exn + HyperliquidSettleResponse) \<times> effect list" where
  "submitExchange en endpoint p =
     (let action = get_prop ''action'' (JObject p);
          signature = get_prop ''signature'' (JObject p);
          nonce = get_prop ''nonce'' (JObject p);
          tr = [ExchangePost endpoint action signature nonce]
      in case exchangePost en endpoint action signature nonce of
           FetchRejects \<Rightarrow> (Inl (Error ''fetch''), tr)
         | FetchResponse ok body \<Rightarrow>
             if \<not> ok then (Inl (Error ''hyperliquid_exchange_failed''), tr)
             else
               (case body of
                  None \<Rightarrow> (Inl (Error ''hyperliquid_exchange_failed''), tr)
                | Some b \<Rightarrow>
                    if hs_status b \<noteq> Some ''ok''
                    then (Inl (Error ''hyperliquid_exchange_failed''), tr)
                    else (Inr b, tr)))"

text \<open>\<^verbatim>\<open>response.response?.txHash ?? response.txHash ?? response.hash\<close>\<close>

definition extractExchangeTxHash :: "HyperliquidSettleResponse \<Rightarrow> string option" where
  "extractExchangeTxHash response =
     (case hs_response_txHash response of
        Some h \<Rightarrow> Some h
      | None \<Rightarrow> (case hs_txHash response of Some h \<Rightarrow> Some h | None \<Rightarrow> hs_hash response))"

definition extractUserTransactions :: "json \<Rightarrow> json list" where
  "extractUserTransactions details =
     (case List.find (\<lambda>v. case v of JArray xs \<Rightarrow> True | _ \<Rightarrow> False)
             [get_prop ''txs'' details, get_prop ''userFlow'' details,
              get_prop ''actions'' details, get_prop ''transactions'' details] of
        Some (JArray xs) \<Rightarrow> xs
      | _ \<Rightarrow> [])"

definition getTxAction :: "json \<Rightarrow> json" where
  "getTxAction tx =
     (let a = get_prop ''action'' tx;
          candidate = (if nullish a then tx else a)
      in if truthy candidate \<and> typeof_object candidate then candidate else JUndefined)"

definition toNumber :: "json \<Rightarrow> rat option" where
  "toNumber v = (case v of JNumber (Fin x) \<Rightarrow> Some x | _ \<Rightarrow> None)"

definition coerceAmountToNumber :: "env \<Rightarrow> json \<Rightarrow> jsnum option" where
  "coerceAmountToNumber en v =
     (case v of
        JNumber (Fin x) \<Rightarrow> Some (Fin x)
      | JString s \<Rightarrow>
          (let parsed = NumberOfString en s in if parsed \<noteq> NaN then Some parsed else None)
      | _ \<Rightarrow> None)"

definition stringify :: "env \<Rightarrow> json \<Rightarrow> string option" where
  "stringify en v =
     (case v of
        JString s \<Rightarrow> Some s
      | JNumber (Fin x) \<Rightarrow> Some (NumberToString en x)
      | _ \<Rightarrow> None)"

definition toLower :: "env \<Rightarrow> json \<Rightarrow> string option" where
  "toLower en v = map_option toLowerCase (stringify en v)"

definition equalsIgnoreCase :: "env \<Rightarrow> json \<Rightarrow> json \<Rightarrow> bool" where
  "equalsIgnoreCase en a b =
     (case (toLower en a, toLower en b) of
        (Some left, Some right) \<Rightarrow> left = right
      | _ \<Rightarrow> False)"

definition valuesMatch :: "env \<Rightarrow> json \<Rightarrow> json \<Rightarrow> bool" where
  "valuesMatch en candidate expected =
     (if nullish expected then True else equalsIgnoreCase en candidate expected)"

text \<open>\<^verbatim>\<open>transactionMatchesPayment\<close>. Its one throw is \<^verbatim>\<open>tx.time\<close> on a history entry that is
  null or undefined, which is read when the entry's action has no finite \<^verbatim>\<open>time\<close>.\<close>

definition transactionMatchesPayment ::
  "env \<Rightarrow> json \<Rightarrow> (string \<times> json) list \<Rightarrow> PaymentRequirements \<Rightarrow> exn + bool" where
  "transactionMatchesPayment en tx p paymentRequirements =
     (let action = getTxAction tx;
          payloadAction = get_prop ''action'' (JObject p);
          destinationMatches =
            equalsIgnoreCase en (get_prop ''destination'' action)
              (JString (payTo paymentRequirements));
          tokenMatches =
            equalsIgnoreCase en (get_prop ''token'' action) (JString (asset paymentRequirements));
          payloadAmount = coerceAmountToNumber en (get_prop ''amount'' payloadAction);
          txAmount = coerceAmountToNumber en (get_prop ''amount'' action);
          amountMatches = (payloadAmount \<noteq> None \<and> txAmount \<noteq> None \<and> txAmount = payloadAmount);
          signatureChainMatches =
            valuesMatch en (get_prop ''signatureChainId'' action)
              (get_prop ''signatureChainId'' payloadAction);
          hyperliquidChainMatches =
            valuesMatch en (get_prop ''hyperliquidChain'' action)
              (get_prop ''hyperliquidChain'' payloadAction);
          typeMatches = valuesMatch en (get_prop ''type'' action) (get_prop ''type'' payloadAction)
      in if toNumber (get_prop ''time'' action) = None \<and> nullish tx then Inl (Error ''TypeError'')
         else
           let txTime = (case toNumber (get_prop ''time'' action) of
                           Some t \<Rightarrow> Some t
                         | None \<Rightarrow> toNumber (get_prop ''time'' tx));
               payloadTime = toNumber (get_prop ''time'' payloadAction);
               nonce = (case get_prop ''nonce'' (JObject p) of
                          JNumber n \<Rightarrow> Some n
                        | _ \<Rightarrow> None);
               timeOrNonceMatches =
                 (if payloadTime = None \<and> nonce = None then True
                  else (case txTime of
                          None \<Rightarrow> False
                        | Some t \<Rightarrow> Some t = payloadTime \<or> Some (Fin t) = nonce))
           in Inr (destinationMatches \<and> tokenMatches \<and> amountMatches \<and> signatureChainMatches
                   \<and> hyperliquidChainMatches \<and> typeMatches \<and> timeOrNonceMatches))"

definition getTxTimestamp :: "json \<Rightarrow> rat" where
  "getTxTimestamp tx =
     (case toNumber (get_prop ''time'' (get_prop ''action'' tx)) of
        Some actionTime \<Rightarrow> actionTime
      | None \<Rightarrow> (case toNumber (get_prop ''time'' tx) of Some t \<Rightarrow> t | None \<Rightarrow> 0))"

text \<open>\<^verbatim>\<open>userTxs.filter(tx => transactionMatchesPayment(...))\<close>: a throw of the predicate ends
  the filter.\<close>

fun filter_matches ::
  "env \<Rightarrow> (string \<times> json) list \<Rightarrow> PaymentRequirements \<Rightarrow> json list \<Rightarrow> exn + json list" where
  "filter_matches en p paymentRequirements [] = Inr []"
| "filter_matches en p paymentRequirements (tx # txs) =
     (case transactionMatchesPayment en tx p paymentRequirements of
        Inl e \<Rightarrow> Inl e
      | Inr b \<Rightarrow>
          (case filter_matches en p paymentRequirements txs of
             Inl e \<Rightarrow> Inl e
           | Inr ms \<Rightarrow> Inr (if b then tx # ms else ms)))"

text \<open>\<^verbatim>\<open>findMatchingTransactionHash\<close>: the matches, the most recent first (the sort of the
  language is stable, as \<open>sort_key\<close> is), and of their \<^verbatim>\<open>hash\<close> fields the first that is a
  string of the form of a hash. A rejected \<^verbatim>\<open>userDetails\<close> and a throw of the filter are
  caught and give undefined.\<close>

definition findMatchingTransactionHash ::
  "env \<Rightarrow> bool \<Rightarrow> string \<Rightarrow> (string \<times> json) list \<Rightarrow> PaymentRequirements
     \<Rightarrow> string option \<times> effect list" where
  "findMatchingTransactionHash en infoClient payer p paymentRequirements =
     (let tr = [UserDetailsRequest infoClient payer] in
      case userDetails en infoClient payer of
        None \<Rightarrow> (None, tr)
      | Some details \<Rightarrow>
          (case filter_matches en p paymentRequirements (extractUserTransactions details) of
             Inl e \<Rightarrow> (None, tr)
           | Inr ms \<Rightarrow>
               let matches = sort_key (\<lambda>tx. - getTxTimestamp tx) ms in
               (case List.find (\<lambda>h. case h of JString s \<Rightarrow> isHexHash s | _ \<Rightarrow> False)
                       (map (get_prop ''hash'') matches) of
                  Some (JString s) \<Rightarrow> (Some s, tr)
                | _ \<Rightarrow> (None, tr))))"

text \<open>The body of the \<^verbatim>\<open>try\<close> block of \<^verbatim>\<open>settle\<close>.\<close>

definition settle_try ::
  "env \<Rightarrow> string \<Rightarrow> bool \<Rightarrow> string option \<Rightarrow> PaymentPayload \<Rightarrow> PaymentRequirements
     \<Rightarrow> (exn + SettleResponse) \<times> effect list" where
  "settle_try en endpoint infoClient payer paymentPayload paymentRequirements =
     (case submitExchange en endpoint (pp_payload paymentPayload) of
        (Inl e, tr1) \<Rightarrow> (Inl e, tr1)
      | (Inr exchangeResponse, tr1) \<Rightarrow>
          let exchangeTxHash = extractExchangeTxHash exchangeResponse;
              payerKnown = (case payer of Some u \<Rightarrow> u \<noteq> [] | None \<Rightarrow> False);
              (matchedHash, tr2) =
                (case payer of
                   Some u \<Rightarrow>
                     if u \<noteq> []
                     then findMatchingTransactionHash en infoClient u (pp_payload paymentPayload)
                            paymentRequirements
                     else (None, [])
                 | None \<Rightarrow> (None, []))
          in if payerKnown \<and> (case matchedHash of None \<Rightarrow> True | Some h \<Rightarrow> h = [])
             then (failureResponse hl_tx_not_found paymentRequirements paymentPayload
                     exchangeTxHash payer, tr1 @ tr2)
             else
               let txHash = (case matchedHash of Some h \<Rightarrow> Some h | None \<Rightarrow> exchangeTxHash) in
               (case txHash of
                  None \<Rightarrow>
                    (failureResponse hl_tx_not_found paymentRequirements paymentPayload
                       exchangeTxHash payer, tr1 @ tr2)
                | Some h \<Rightarrow>
                    if h = [] \<or> \<not> isHexHash h
                    then (failureResponse hl_tx_not_found paymentRequirements paymentPayload
                            exchangeTxHash payer, tr1 @ tr2)
                    else
                      (case confirmTransaction en infoClient h of
                         (conf_not_found, tr3) \<Rightarrow>
                           (failureResponse hl_tx_not_found paymentRequirements paymentPayload
                              (Some h) payer, tr1 @ tr2 @ tr3)
                       | (conf_timeout, tr3) \<Rightarrow>
                           (failureResponse hl_tx_unconfirmed paymentRequirements paymentPayload
                              (Some h) payer, tr1 @ tr2 @ tr3)
                       | (conf_confirmed, tr3) \<Rightarrow>
                           (Inr \<lparr>success = True, errorReason = None, transaction = h,
                                 sr_network = pr_network paymentRequirements,
                                 sr_payer = payer\<rparr>, tr1 @ tr2 @ tr3))))"

text \<open>\<^verbatim>\<open>settle\<close>: \<open>Inl\<close> is an exception that leaves the function. The two guards, the
  payer, the endpoint and the info client are computed before the \<^verbatim>\<open>try\<close>; what the block
  throws is caught and answered with \<^verbatim>\<open>hl_exchange_error\<close>.\<close>

definition settle ::
  "env \<Rightarrow> PaymentPayload \<Rightarrow> PaymentRequirements \<Rightarrow> (exn + SettleResponse) \<times> effect list" where
  "settle en paymentPayload paymentRequirements =
     (if pp_scheme paymentPayload \<noteq> SCHEME
         \<or> pr_scheme paymentRequirements \<noteq> SCHEME
         \<or> pp_network paymentPayload \<noteq> pr_network paymentRequirements
         \<or> pr_network paymentRequirements \<notin> set SupportedHLNetworks
      then (failureResponse invalid_exact_hl_network paymentRequirements paymentPayload
              None None, [])
      else
        let action = get_prop ''action'' (JObject (pp_payload paymentPayload)) in
        if \<not> truthy action \<or> \<not> typeof_object action
        then (failureResponse invalid_exact_hl_payload paymentRequirements paymentPayload
                None None, [])
        else
          (case extractPayer_settle (pp_payload paymentPayload) of
             Inl e \<Rightarrow> (Inl e, [])
           | Inr payer \<Rightarrow>
               (case getExchangeBaseUrl (pr_network paymentRequirements) of
                  Inl e \<Rightarrow> (Inl e, [])
                | Inr endpoint \<Rightarrow>
                    (case createInfoClient (pr_network paymentRequirements) of
                       Inl e \<Rightarrow> (Inl e, [])
                     | Inr infoClient \<Rightarrow>
                         (case settle_try en endpoint infoClient payer paymentPayload
                                 paymentRequirements of
                            (Inl e, tr) \<Rightarrow>
                              (failureResponse hl_exchange_error paymentRequirements
                                 paymentPayload None None, tr)
                          | (Inr response, tr) \<Rightarrow> (Inr response, tr))))))"

section \<open>The payload codec\<close>

text \<open>
  \<^verbatim>\<open>encodePayment\<close> and \<^verbatim>\<open>decodePayment\<close> of \<^verbatim>\<open>schemes/exact/evm/utils/paymentUtils.ts\<close>,
  as the integration plan of the Hyperliquid family gives them, with the envelope schema
  \<^verbatim>\<open>PaymentPayloadSchema\<close>, the payload schema \<^verbatim>\<open>ExactHlPayloadSchema\<close> and the networks of
  \<^verbatim>\<open>NetworkSchema\<close> of the same plan. What they
  use beyond that is kept open: \<^verbatim>\<open>safeBase64Encode\<close> and \<^verbatim>\<open>safeBase64Decode\<close>, the lists of the
  EVM and SVM networks, the versions and schemes of the envelope, and the schemas of the
  EVM and SVM payloads.
\<close>

subsection \<open>\<^verbatim>\<open>JSON.stringify\<close> and \<^verbatim>\<open>JSON.parse\<close> on values\<close>

text \<open>What \<^verbatim>\<open>JSON.parse(JSON.stringify(v))\<close> is, for a value made of the constructors above:
  \<^verbatim>\<open>JSON.stringify\<close> throws a TypeError on a BigInt, writes \<^verbatim>\<open>null\<close> for a number that is not
  finite and for an undefined element of an array, and leaves out a property whose value
  is undefined.\<close>

primrec has_bigint :: "json \<Rightarrow> bool" where
  "has_bigint JUndefined = False"
| "has_bigint JNull = False"
| "has_bigint (JBool b) = False"
| "has_bigint (JNumber n) = False"
| "has_bigint (JString s) = False"
| "has_bigint (JBigInt n) = True"
| "has_bigint (JArray xs) = list_ex id (map has_bigint xs)"
| "has_bigint (JObject kvs) = list_ex snd (map (map_prod id has_bigint) kvs)"

definition undefined_to_null :: "json \<Rightarrow> json" where
  "undefined_to_null v = (if v = JUndefined then JNull else v)"

primrec json_norm :: "json \<Rightarrow> json" where
  "json_norm JUndefined = JUndefined"
| "json_norm JNull = JNull"
| "json_norm (JBool b) = JBool b"
| "json_norm (JNumber n) = (case n of Fin x \<Rightarrow> JNumber (Fin x) | _ \<Rightarrow> JNull)"
| "json_norm (JString s) = JString s"
| "json_norm (JBigInt n) = JBigInt n"
| "json_norm (JArray xs) = JArray (map undefined_to_null (map json_norm xs))"
| "json_norm (JObject kvs) =
     JObject (filter (\<lambda>kv. snd kv \<noteq> JUndefined) (map (map_prod id json_norm) kvs))"

definition JSON_parse_stringify :: "json \<Rightarrow> exn + json" where
  "JSON_parse_stringify v =
     (if has_bigint v then Inl (Error ''TypeError'') else Inr (json_norm v))"

subsection \<open>The transport string\<close>

text \<open>Modelled from the spec: the transport string is the base64 encoding of the JSON text
  of the envelope, and is decoded by decoding the base64 and parsing the JSON. The text
  itself is not modelled: a header is represented by the value that
  \<^verbatim>\<open>JSON.parse(safeBase64Decode(header))\<close> reads from it, or is a string that is not the
  base64 of a JSON text.\<close>

datatype header = Header json | Unreadable

subsection \<open>The envelope and its schema\<close>

text \<open>The networks of \<^verbatim>\<open>NetworkSchema\<close>, as the plan lists them.\<close>

definition NetworkSchema :: "string list" where
  "NetworkSchema =
     [''abstract'', ''abstract-testnet'', ''base-sepolia'', ''base'', ''avalanche-fuji'',
      ''avalanche'', ''iotex'', ''solana-devnet'', ''solana'', ''sei'', ''sei-testnet'',
      ''polygon'', ''polygon-amoy'', ''peaq'', ''story'', ''educhain'', ''skale-base-sepolia'',
      ''hyperliquid-testnet'', ''hyperliquid'']"

text \<open>The parameters of the codec: the network families of EVM and SVM, the versions and
  the schemes that the envelope's schema admits, and the schemas of the EVM and SVM
  payloads, each of which answers the parsed payload of an object or rejects it (\<open>None\<close>).\<close>

record codec_env =
  SupportedEVMNetworks :: "string list"
  SupportedSVMNetworks :: "string list"
  x402Versions :: "nat list"
  schemes :: "string list"
  ExactEvmPayloadSchema :: "(string \<times> json) list \<Rightarrow> (string \<times> json) list option"
  ExactSvmPayloadSchema :: "(string \<times> json) list \<Rightarrow> (string \<times> json) list option"

text \<open>\<^verbatim>\<open>ExactHlPayloadSchema\<close>, as the plan declares it:
  \<^verbatim>\<open>z.object({ action: z.record(z.any()), signature: z.union([z.string().min(1),
  z.object({ r: z.string(), s: z.string(), v: z.number() })]), nonce:
  z.number().int().positive() })\<close>. An object schema answers an object of the keys it
  declares, in the order it declares them, and leaves every other key of its input out.\<close>

definition signature_schema :: "json \<Rightarrow> json option" where
  "signature_schema v =
     (case v of
        JString s \<Rightarrow> if s \<noteq> [] then Some (JString s) else None
      | JObject kvs \<Rightarrow>
          (case (get_prop ''r'' v, get_prop ''s'' v, get_prop ''v'' v) of
             (JString r, JString s, JNumber n) \<Rightarrow>
               if n \<noteq> NaN
               then Some (JObject [(''r'', JString r), (''s'', JString s), (''v'', JNumber n)])
               else None
           | _ \<Rightarrow> None)
      | _ \<Rightarrow> None)"

definition nonce_schema :: "json \<Rightarrow> json option" where
  "nonce_schema v =
     (case v of
        JNumber (Fin x) \<Rightarrow> if x = of_int \<lfloor>x\<rfloor> \<and> 0 < x then Some v else None
      | _ \<Rightarrow> None)"

definition ExactHlPayloadSchema :: "(string \<times> json) list \<Rightarrow> (string \<times> json) list option" where
  "ExactHlPayloadSchema pl =
     (case get_prop ''action'' (JObject pl) of
        JObject action \<Rightarrow>
          (case signature_schema (get_prop ''signature'' (JObject pl)) of
             None \<Rightarrow> None
           | Some sg \<Rightarrow>
               (case nonce_schema (get_prop ''nonce'' (JObject pl)) of
                  None \<Rightarrow> None
                | Some nonce \<Rightarrow>
                    Some [(''action'', JObject action), (''signature'', sg), (''nonce'', nonce)]))
      | _ \<Rightarrow> None)"

text \<open>\<^verbatim>\<open>z.union([ExactEvmPayloadSchema, ExactSvmPayloadSchema, ExactHlPayloadSchema])\<close>: the
  answer of the first schema that accepts.\<close>

definition payloadSchema :: "codec_env \<Rightarrow> (string \<times> json) list \<Rightarrow> (string \<times> json) list option" where
  "payloadSchema ce pl =
     (case ExactEvmPayloadSchema ce pl of
        Some parsed \<Rightarrow> Some parsed
      | None \<Rightarrow>
          (case ExactSvmPayloadSchema ce pl of
             Some parsed \<Rightarrow> Some parsed
           | None \<Rightarrow> ExactHlPayloadSchema pl))"

text \<open>\<^verbatim>\<open>JSON.stringify\<close> sees the envelope as the object of its four fields.\<close>

definition envelope :: "PaymentPayload \<Rightarrow> (string \<times> json) list \<Rightarrow> json" where
  "envelope payment pl =
     JObject [(''x402Version'', JNumber (Fin (of_nat (x402Version payment)))),
              (''scheme'', JString (pp_scheme payment)),
              (''network'', JString (pp_network payment)),
              (''payload'', JObject pl)]"

text \<open>\<^verbatim>\<open>PaymentPayloadSchema.parse\<close>: the version is a number among the versions, the scheme
  and the network are among the enumerated ones, and the payload is an object that the
  union of the payload schemas accepts; anything else is a ZodError.\<close>

definition PaymentPayloadSchema_parse :: "codec_env \<Rightarrow> json \<Rightarrow> exn + PaymentPayload" where
  "PaymentPayloadSchema_parse ce obj =
     (case (get_prop ''x402Version'' obj, get_prop ''scheme'' obj, get_prop ''network'' obj,
            get_prop ''payload'' obj) of
        (JNumber (Fin v), JString s, JString n, JObject pl) \<Rightarrow>
          if v = of_int \<lfloor>v\<rfloor> \<and> 0 \<le> v \<and> nat \<lfloor>v\<rfloor> \<in> set (x402Versions ce)
             \<and> s \<in> set (schemes ce) \<and> n \<in> set NetworkSchema
          then (case payloadSchema ce pl of
                  None \<Rightarrow> Inl (Error ''ZodError'')
                | Some parsed \<Rightarrow>
                    Inr \<lparr>x402Version = nat \<lfloor>v\<rfloor>, pp_scheme = s, pp_network = n,
                         pp_payload = parsed\<rparr>)
          else Inl (Error ''ZodError'')
      | _ \<Rightarrow> Inl (Error ''ZodError''))"

subsection \<open>\<^verbatim>\<open>encodePayment\<close> and \<^verbatim>\<open>decodePayment\<close>\<close>

text \<open>\<^verbatim>\<open>n.toString()\<close> of a BigInt: its decimal digits, after a minus sign when it is
  negative.\<close>

definition digit_char :: "int \<Rightarrow> char" where
  "digit_char d = char_of (48 + d)"

function digits10 :: "int \<Rightarrow> string" where
  "digits10 n = (if n < 10 then [digit_char n] else digits10 (n div 10) @ [digit_char (n mod 10)])"
  by pat_completeness auto
termination
  by (relation "measure nat") auto

declare digits10.simps [simp del]

definition bigint_toString :: "int \<Rightarrow> string" where
  "bigint_toString n = (if n < 0 then CHR ''-'' # digits10 (- n) else digits10 n)"

text \<open>\<^verbatim>\<open>Object.fromEntries(Object.entries(authorization).map(([k, v]) =>
  [k, typeof v === "bigint" ? v.toString() : v]))\<close>\<close>

definition stringify_bigints :: "(string \<times> json) list \<Rightarrow> (string \<times> json) list" where
  "stringify_bigints kvs =
     map (\<lambda>(k, v). (k, case v of JBigInt n \<Rightarrow> JString (bigint_toString n) | _ \<Rightarrow> v)) kvs"

text \<open>\<^verbatim>\<open>{...o, k: v}\<close>: the property keeps its place when the object has it and comes last
  when it has not.\<close>

fun set_prop :: "string \<Rightarrow> json \<Rightarrow> (string \<times> json) list \<Rightarrow> (string \<times> json) list" where
  "set_prop k v [] = [(k, v)]"
| "set_prop k v ((k', v') # kvs) =
     (if k' = k then (k, v) # kvs else (k', v') # set_prop k v kvs)"

text \<open>The header of a value: \<^verbatim>\<open>safeBase64Encode(JSON.stringify(v))\<close>, as it is read back.\<close>

definition to_header :: "json \<Rightarrow> exn + header" where
  "to_header v =
     (case JSON_parse_stringify v of
        Inl e \<Rightarrow> Inl e
      | Inr j \<Rightarrow> Inr (Header j))"

text \<open>\<^verbatim>\<open>Object.entries(v)\<close>: the properties of an object, the elements of an array and the
  characters of a string under their indices, nothing for the other primitives, and a
  TypeError (\<open>None\<close>) for null and undefined.\<close>

definition index_keys :: "nat \<Rightarrow> string list" where
  "index_keys n = map (\<lambda>i. digits10 (int i)) [0..<n]"

fun Object_entries :: "json \<Rightarrow> (string \<times> json) list option" where
  "Object_entries JUndefined = None"
| "Object_entries JNull = None"
| "Object_entries (JObject kvs) = Some kvs"
| "Object_entries (JArray xs) = Some (zip (index_keys (length xs)) xs)"
| "Object_entries (JString s) = Some (zip (index_keys (length s)) (map (\<lambda>c. JString [c]) s))"
| "Object_entries v = Some []"

text \<open>\<^verbatim>\<open>encodePayment\<close>\<close>

definition encodePayment :: "codec_env \<Rightarrow> PaymentPayload \<Rightarrow> exn + header" where
  "encodePayment ce payment =
     (if pp_network payment \<in> set (SupportedEVMNetworks ce) then
        (case Object_entries (get_prop ''authorization'' (JObject (pp_payload payment))) of
           None \<Rightarrow> Inl (Error ''TypeError'')
         | Some authorization \<Rightarrow>
             to_header (envelope payment
               (set_prop ''authorization'' (JObject (stringify_bigints authorization))
                  (pp_payload payment))))
      else if pp_network payment \<in> set (SupportedSVMNetworks ce) then
        to_header (envelope payment (pp_payload payment))
      else if pp_network payment \<in> set SupportedHLNetworks then
        to_header (envelope payment (pp_payload payment))
      else Inl (Error ''Invalid network''))"

text \<open>\<^verbatim>\<open>decodePayment\<close>. \<^verbatim>\<open>parsed.network\<close> of a parsed \<^verbatim>\<open>null\<close> is a TypeError; the three
  branches call the same schema on \<^verbatim>\<open>{...parsed, payload: parsed.payload}\<close>.\<close>

definition decodePayment :: "codec_env \<Rightarrow> header \<Rightarrow> exn + PaymentPayload" where
  "decodePayment ce payment =
     (case payment of
        Unreadable \<Rightarrow> Inl (Error ''SyntaxError'')
      | Header parsed \<Rightarrow>
          if nullish parsed then Inl (Error ''TypeError'')
          else
            let obj = (case parsed of
                         JObject kvs \<Rightarrow> JObject (set_prop ''payload'' (get_prop ''payload'' parsed) kvs)
                       | _ \<Rightarrow> JObject [(''payload'', JUndefined)])
            in (case get_prop ''network'' parsed of
                  JString network \<Rightarrow>
                    if network \<in> set (SupportedEVMNetworks ce)
                    then PaymentPayloadSchema_parse ce obj
                    else if network \<in> set (SupportedSVMNetworks ce)
                    then PaymentPayloadSchema_parse ce obj
                    else if network \<in> set SupportedHLNetworks
                    then PaymentPayloadSchema_parse ce obj
                    else Inl (Error ''Invalid network'')
                | _ \<Rightarrow> Inl (Error ''Invalid network'')))"

section \<open>Notions used to state the properties\<close>

text \<open>The condition under which the first \<^verbatim>\<open>if\<close> of \<^verbatim>\<open>verify\<close> and of \<^verbatim>\<open>settle\<close> lets a
  call through.\<close>

definition network_guard :: "PaymentPayload \<Rightarrow> PaymentRequirements \<Rightarrow> bool" where
  "network_guard p r =
     (pp_scheme p = SCHEME \<and> pr_scheme r = SCHEME \<and> pp_network p = pr_network r
      \<and> pr_network r \<in> set SupportedHLNetworks)"

text \<open>The action of a payload with its \<^verbatim>\<open>destination\<close>, \<^verbatim>\<open>token\<close> and \<^verbatim>\<open>amount\<close>, when the
  action is an object and the three are non-empty strings: what the second and third
  \<^verbatim>\<open>if\<close> of \<^verbatim>\<open>verify\<close> ask for.\<close>

definition action_fields :: "PaymentPayload \<Rightarrow> (json \<times> string \<times> string \<times> string) option" where
  "action_fields p =
     (let a = get_prop ''action'' (JObject (pp_payload p)) in
      if truthy a \<and> typeof_object a then
        (case (as_string (get_prop ''destination'' a), as_string (get_prop ''token'' a),
               as_string (get_prop ''amount'' a)) of
           (Some d, Some t, Some m) \<Rightarrow>
             if d = [] \<or> t = [] \<or> m = [] then None else Some (a, d, t, m)
         | _ \<Rightarrow> None)
      else None)"

definition accepted :: "PaymentPayload \<Rightarrow> VerifyResponse" where
  "accepted p =
     \<lparr>isValid = True, invalidReason = None, vr_payer = extractPayer_verify (pp_payload p)\<rparr>"

text \<open>The conversion of a decimal string as the specification words it: split on the
  point, truncate or zero-pad the fractional part to exactly \<open>n\<close> digits, concatenate,
  and read the digits as an integer.\<close>

definition atomic_by_concatenation :: "string \<Rightarrow> nat \<Rightarrow> int" where
  "atomic_by_concatenation s n =
     (let parts = split_str CHR ''.'' s;
          whole = hd parts;
          fraction = (if length parts > 1 then parts ! 1 else [])
      in radix_value 10 (whole @ take n (fraction @ replicate n CHR ''0'')))"

text \<open>The token id that \<^verbatim>\<open>resolveDecimals\<close> asks the token-info lookup for, empty when the
  asset string gives none: the part after the colon when the asset splits on \<^verbatim>\<open>:\<close> into
  exactly two parts, else the first part when it starts with \<^verbatim>\<open>0x\<close>.\<close>

definition asset_token_id :: "string \<Rightarrow> string" where
  "asset_token_id a =
     (let parts = split_str CHR '':'' a in
      if length parts = 2 then parts ! 1
      else if prefix ''0x'' (hd parts) then hd parts
      else [])"

text \<open>The calls of \<^verbatim>\<open>fetchHyperliquidTokenInfo\<close> in a log of effects.\<close>

definition token_info_lookups :: "effect list \<Rightarrow> (string \<times> string) list" where
  "token_info_lookups es =
     concat (map (\<lambda>e. case e of TokenInfoLookup n t \<Rightarrow> [(n, t)] | _ \<Rightarrow> []) es)"

subsection \<open>Concrete inputs\<close>

text \<open>The requirements and the payload of the tests of verify and settle.\<close>

definition sample_requirements :: PaymentRequirements where
  "sample_requirements =
     \<lparr>pr_scheme = ''exact'', pr_network = ''hyperliquid'', maxAmountRequired = ''1000000'',
      payTo = ''0xaaaaaaaaaaaaaaaaaaaaaaaaaaaaaaaaaaaaaaaa'', maxTimeoutSeconds = 300,
      asset = ''USDC:0xeb62eee3685fc4c43992febcd9e75443'',
      extra = Some [(''decimals'', JNumber (Fin 6))]\<rparr>"

definition sample_action :: "string \<Rightarrow> string \<Rightarrow> string \<Rightarrow> json \<Rightarrow> json" where
  "sample_action destination token amount time =
     JObject [(''type'', JString ''spotSend''), (''destination'', JString destination),
              (''token'', JString token), (''amount'', JString amount), (''time'', time)]"

definition sample_payload :: "json \<Rightarrow> PaymentPayload" where
  "sample_payload action =
     \<lparr>x402Version = 1, pp_scheme = ''exact'', pp_network = ''hyperliquid'',
      pp_payload = [(''action'', action), (''signature'', JString ''0x1111''),
                    (''nonce'', JNumber (Fin 1700000000000)),
                    (''user'', JString ''0xbbbbbbbbbbbbbbbbbbbbbbbbbbbbbbbbbbbbbbbb'')]\<rparr>"

definition sample_ack :: HyperliquidSettleResponse where
  "sample_ack = \<lparr>hs_status = Some ''ok'', hs_response_txHash = None,
                 hs_txHash = Some (''0x'' @ replicate 64 CHR ''3''), hs_hash = None\<rparr>"

definition sample_env :: env where
  "sample_env =
     \<lparr>NumberOfString = (\<lambda>s. if s \<noteq> [] \<and> list_all is_digit s
                             then Fin (of_int (radix_value 10 s)) else NaN),
      NumberToString = (\<lambda>x. []),
      tokenDetails = (\<lambda>testnet tokenId. Some \<lparr>weiDecimals = Fin 6, td_name = ''USDC''\<rparr>),
      exchangePost = (\<lambda>url action signature nonce. FetchResponse True (Some sample_ack)),
      userDetails = (\<lambda>client user. None),
      txDetails = (\<lambda>client hash attempt. None)\<rparr>"

definition empty_world :: world where
  "empty_world = \<lparr>tokenInfoCache = Map.empty, effects = []\<rparr>"

text \<open>A number that is an integer, and a time and a time to live whose sum in milliseconds
  binary64 arithmetic computes exactly: the product and the sum are integers below \<open>2^53\<close>
  in magnitude. Timestamps in milliseconds and times to live in seconds are such.\<close>

definition is_integer :: "rat \<Rightarrow> bool" where
  "is_integer x = (x = of_int \<lfloor>x\<rfloor>)"

definition whole_milliseconds :: "rat \<Rightarrow> rat \<Rightarrow> bool" where
  "whole_milliseconds tm ttl =
     (is_integer tm \<and> is_integer (ttl * 1000) \<and> \<bar>ttl * 1000\<bar> < 2 ^ 53
      \<and> \<bar>tm + ttl * 1000\<bar> < 2 ^ 53)"

text \<open>The expiry time that the code computes, \<^verbatim>\<open>actionTime + maxTimeoutSeconds * 1000\<close>.\<close>

definition expiresAt :: "rat \<Rightarrow> rat \<Rightarrow> jsnum" where
  "expiresAt tm ttl = js_add (Fin tm) (js_mul (Fin ttl) (Fin 1000))"

subsection \<open>Notions used to state the properties of settle\<close>

text \<open>What the second \<^verbatim>\<open>if\<close> of \<^verbatim>\<open>settle\<close> asks of the payload: an action that is an object.\<close>

definition settle_shape :: "PaymentPayload \<Rightarrow> bool" where
  "settle_shape p =
     (let a = get_prop ''action'' (JObject (pp_payload p)) in truthy a \<and> typeof_object a)"

text \<open>The endpoint and the info client of the network of the requirements.\<close>

definition exchange_url :: "PaymentRequirements \<Rightarrow> string" where
  "exchange_url r =
     (if pr_network r = ''hyperliquid-testnet''
      then ''https://api.hyperliquid-testnet.xyz/exchange''
      else ''https://api.hyperliquid.xyz/exchange'')"

definition is_testnet :: "PaymentRequirements \<Rightarrow> bool" where
  "is_testnet r = (pr_network r = ''hyperliquid-testnet'')"

text \<open>The payer of a payload, and whether \<^verbatim>\<open>settle\<close> takes it as known (\<^verbatim>\<open>payer ? ... : ...\<close>
  tests its truthiness, so an empty string is no payer).\<close>

definition payer_of :: "PaymentPayload \<Rightarrow> string option" where
  "payer_of p = (case extractPayer_settle (pp_payload p) of Inl e \<Rightarrow> None | Inr u \<Rightarrow> u)"

definition payer_known :: "PaymentPayload \<Rightarrow> bool" where
  "payer_known p = (case payer_of p of None \<Rightarrow> False | Some u \<Rightarrow> u \<noteq> [])"

text \<open>What the exchange answers to the submission of a payload, and whether
  \<^verbatim>\<open>submitExchange\<close> takes the answer as a failure.\<close>

definition submission :: "env \<Rightarrow> PaymentPayload \<Rightarrow> PaymentRequirements \<Rightarrow> fetch_result" where
  "submission en p r =
     exchangePost en (exchange_url r)
       (get_prop ''action'' (JObject (pp_payload p)))
       (get_prop ''signature'' (JObject (pp_payload p)))
       (get_prop ''nonce'' (JObject (pp_payload p)))"

definition submission_failed :: "fetch_result \<Rightarrow> bool" where
  "submission_failed f =
     (case f of
        FetchRejects \<Rightarrow> True
      | FetchResponse ok body \<Rightarrow>
          \<not> ok \<or> (case body of None \<Rightarrow> True | Some b \<Rightarrow> hs_status b \<noteq> Some ''ok''))"

text \<open>The transaction id that \<^verbatim>\<open>settle\<close> finds in the history of a known payer
  (\<^verbatim>\<open>matchedHash\<close>), and the id it resolves (\<^verbatim>\<open>matchedHash ?? exchangeTxHash\<close>).\<close>

definition matched_hash :: "env \<Rightarrow> PaymentPayload \<Rightarrow> PaymentRequirements \<Rightarrow> string option" where
  "matched_hash en p r =
     (case payer_of p of
        None \<Rightarrow> None
      | Some u \<Rightarrow>
          if u \<noteq> [] then fst (findMatchingTransactionHash en (is_testnet r) u (pp_payload p) r)
          else None)"

definition resolved_hash ::
  "env \<Rightarrow> PaymentPayload \<Rightarrow> PaymentRequirements \<Rightarrow> HyperliquidSettleResponse \<Rightarrow> string option" where
  "resolved_hash en p r ack =
     (case matched_hash en p r of
        Some h \<Rightarrow> Some h
      | None \<Rightarrow> extractExchangeTxHash ack)"

text \<open>The two responses of \<^verbatim>\<open>settle\<close>.\<close>

definition failed ::
  "ErrorReason \<Rightarrow> PaymentRequirements \<Rightarrow> string option \<Rightarrow> string option \<Rightarrow> SettleResponse" where
  "failed reason r txHash payer =
     \<lparr>success = False, errorReason = Some reason,
      transaction = (case txHash of Some h \<Rightarrow> h | None \<Rightarrow> payTo r),
      sr_network = pr_network r, sr_payer = payer\<rparr>"

definition settled :: "PaymentRequirements \<Rightarrow> string \<Rightarrow> string option \<Rightarrow> SettleResponse" where
  "settled r h payer =
     \<lparr>success = True, errorReason = None, transaction = h, sr_network = pr_network r,
      sr_payer = payer\<rparr>"

text \<open>The lookups of transaction details and the delays in a log of effects.\<close>

definition tx_lookups :: "effect list \<Rightarrow> string list" where
  "tx_lookups es = concat (map (\<lambda>e. case e of TxDetailsRequest c h \<Rightarrow> [h] | _ \<Rightarrow> []) es)"

definition delays :: "effect list \<Rightarrow> nat list" where
  "delays es = concat (map (\<lambda>e. case e of Delay ms \<Rightarrow> [ms] | _ \<Rightarrow> []) es)"

definition submissions :: "effect list \<Rightarrow> string list" where
  "submissions es =
     concat (map (\<lambda>e. case e of ExchangePost url a s n \<Rightarrow> [url] | _ \<Rightarrow> []) es)"

text \<open>The answers of the transaction-detail lookup that the poll tells apart.\<close>

definition lookup_not_found :: "env \<Rightarrow> bool \<Rightarrow> string \<Rightarrow> nat \<Rightarrow> bool" where
  "lookup_not_found en c h i =
     (case txDetails en c h i of
        None \<Rightarrow> False
      | Some err \<Rightarrow> str_includes (toLowerCase err) ''not found'')"

definition lookup_other_error :: "env \<Rightarrow> bool \<Rightarrow> string \<Rightarrow> nat \<Rightarrow> bool" where
  "lookup_other_error en c h i =
     (case txDetails en c h i of
        None \<Rightarrow> False
      | Some err \<Rightarrow> \<not> str_includes (toLowerCase err) ''not found'')"

text \<open>The effects of the submission and of the look into the history, and the response
  that \<^verbatim>\<open>settle\<close> gives to each result of the confirmation poll.\<close>

definition post_effect :: "PaymentPayload \<Rightarrow> PaymentRequirements \<Rightarrow> effect" where
  "post_effect p r =
     ExchangePost (exchange_url r)
       (get_prop ''action'' (JObject (pp_payload p)))
       (get_prop ''signature'' (JObject (pp_payload p)))
       (get_prop ''nonce'' (JObject (pp_payload p)))"

definition history_effects :: "PaymentPayload \<Rightarrow> PaymentRequirements \<Rightarrow> effect list" where
  "history_effects p r =
     (case payer_of p of
        None \<Rightarrow> []
      | Some u \<Rightarrow> if u \<noteq> [] then [UserDetailsRequest (is_testnet r) u] else [])"

definition outcome ::
  "PaymentRequirements \<Rightarrow> string \<Rightarrow> string option \<Rightarrow> ConfirmationResult \<Rightarrow> SettleResponse" where
  "outcome r h payer c =
     (case c of
        conf_not_found \<Rightarrow> failed hl_tx_not_found r (Some h) payer
      | conf_timeout \<Rightarrow> failed hl_tx_unconfirmed r (Some h) payer
      | conf_confirmed \<Rightarrow> settled r h payer)"


text \<open>A transaction of the history that \<^verbatim>\<open>findMatchingTransactionHash\<close> can return: it
  matches the payment, and its \<^verbatim>\<open>hash\<close> is a string of the form of a hash.\<close>

definition usable_match :: "env \<Rightarrow> PaymentPayload \<Rightarrow> PaymentRequirements \<Rightarrow> json \<Rightarrow> bool" where
  "usable_match en p r tx =
     (transactionMatchesPayment en tx (pp_payload p) r = Inr True
      \<and> (case get_prop ''hash'' tx of JString s \<Rightarrow> isHexHash s | _ \<Rightarrow> False))"

text \<open>The transactions of the payer's history, when the request for it is answered.\<close>

definition history_of :: "env \<Rightarrow> PaymentPayload \<Rightarrow> PaymentRequirements \<Rightarrow> json list option" where
  "history_of en p r =
     (case payer_of p of
        None \<Rightarrow> None
      | Some u \<Rightarrow> map_option extractUserTransactions (userDetails en (is_testnet r) u))"

subsection \<open>Concrete inputs of settle\<close>

text \<open>The payload, the transaction hash and the history entry of the tests of settle, and
  an environment made of an answer of the exchange, an answer of the history request and
  the answers of the detail lookup by attempt.\<close>

definition TX_HASH :: string where
  "TX_HASH = ''0x'' @ replicate 64 CHR ''2''"

definition settle_payload :: PaymentPayload where
  "settle_payload =
     sample_payload (sample_action ''0xaaaaaaaaaaaaaaaaaaaaaaaaaaaaaaaaaaaaaaaa''
        ''USDC:0xeb62eee3685fc4c43992febcd9e75443'' ''1'' (JNumber (Fin 1700000000000)))"

definition anonymous_payload :: PaymentPayload where
  "anonymous_payload =
     \<lparr>x402Version = 1, pp_scheme = ''exact'', pp_network = ''hyperliquid'',
      pp_payload =
        [(''action'', sample_action ''0xaaaaaaaaaaaaaaaaaaaaaaaaaaaaaaaaaaaaaaaa''
            ''USDC:0xeb62eee3685fc4c43992febcd9e75443'' ''1'' (JNumber (Fin 1700000000000))),
         (''signature'', JString ''0x1111''), (''nonce'', JNumber (Fin 1700000000000))]\<rparr>"

definition sample_tx :: "json \<Rightarrow> string \<Rightarrow> rat \<Rightarrow> json" where
  "sample_tx hash destination time =
     JObject [(''hash'', hash), (''time'', JNumber (Fin time)),
              (''action'', sample_action destination
                 ''USDC:0xeb62eee3685fc4c43992febcd9e75443'' ''1'' (JNumber (Fin time)))]"

definition history :: "json list \<Rightarrow> json option" where
  "history txs = Some (JObject [(''type'', JString ''userDetails''), (''txs'', JArray txs)])"

definition settle_env :: "fetch_result \<Rightarrow> json option \<Rightarrow> (nat \<Rightarrow> string option) \<Rightarrow> env" where
  "settle_env post hist details =
     sample_env\<lparr>exchangePost := (\<lambda>url action signature nonce. post),
                userDetails := (\<lambda>client user. hist),
                txDetails := (\<lambda>client hash attempt. details attempt)\<rparr>"

text \<open>The environment of the tests: the submission is acknowledged with an id of its
  own, the history holds the matching transaction under \<open>TX_HASH\<close>, and the detail lookup
  answers as given.\<close>

definition poll_env :: "(nat \<Rightarrow> string option) \<Rightarrow> env" where
  "poll_env details =
     settle_env (FetchResponse True (Some sample_ack))
       (history [sample_tx (JString TX_HASH) ''0xaaaaaaaaaaaaaaaaaaaaaaaaaaaaaaaaaaaaaaaa''
                   1700000000000])
       details"

definition sample_payer :: "string option" where
  "sample_payer = Some ''0xbbbbbbbbbbbbbbbbbbbbbbbbbbbbbbbbbbbbbbbb''"

subsection \<open>The codec\<close>

text \<open>A value that \<^verbatim>\<open>JSON.stringify\<close> writes and \<^verbatim>\<open>JSON.parse\<close> reads back as it is: no
  BigInt, no number that is not finite, nothing undefined below it.\<close>

definition json_value :: "json \<Rightarrow> bool" where
  "json_value v = (\<not> has_bigint v \<and> json_norm v = v)"

definition is_object :: "json \<Rightarrow> bool" where
  "is_object v = (case v of JObject kvs \<Rightarrow> True | _ \<Rightarrow> False)"

text \<open>The payload that \<^verbatim>\<open>encodePayment\<close> serialises: the payload of the payment, with the
  BigInt fields of the authorization as decimal strings when the network is an EVM one.\<close>

definition serialized_payload :: "codec_env \<Rightarrow> PaymentPayload \<Rightarrow> (string \<times> json) list" where
  "serialized_payload ce payment =
     (if pp_network payment \<in> set (SupportedEVMNetworks ce) then
        (case get_prop ''authorization'' (JObject (pp_payload payment)) of
           JObject authorization \<Rightarrow>
             set_prop ''authorization'' (JObject (stringify_bigints authorization))
               (pp_payload payment)
         | _ \<Rightarrow> pp_payload payment)
      else pp_payload payment)"

text \<open>The properties of an object as \<^verbatim>\<open>JSON.parse\<close> reads them back, and the payload that
  \<^verbatim>\<open>decodePayment\<close> hands to the schema.\<close>

definition json_payload :: "(string \<times> json) list \<Rightarrow> (string \<times> json) list" where
  "json_payload pl = filter (\<lambda>kv. snd kv \<noteq> JUndefined) (map (map_prod id json_norm) pl)"

definition wire_payload :: "codec_env \<Rightarrow> PaymentPayload \<Rightarrow> (string \<times> json) list" where
  "wire_payload ce payment = json_payload (serialized_payload ce payment)"

text \<open>\<^verbatim>\<open>decodePayment(encodePayment(payment))\<close>\<close>

definition round_trip :: "codec_env \<Rightarrow> PaymentPayload \<Rightarrow> exn + PaymentPayload" where
  "round_trip ce payment =
     (case encodePayment ce payment of
        Inl e \<Rightarrow> Inl e
      | Inr h \<Rightarrow> decodePayment ce h)"

text \<open>The network belongs to one of the three families.\<close>

definition family_known :: "codec_env \<Rightarrow> string \<Rightarrow> bool" where
  "family_known ce n =
     (n \<in> set (SupportedEVMNetworks ce) \<or> n \<in> set (SupportedSVMNetworks ce)
      \<or> n \<in> set SupportedHLNetworks)"

text \<open>The envelope of a well-formed payment: a network of a family and of the schema, a
  version and a scheme of the schema, and an authorization that is an object when the
  family is EVM.\<close>

definition envelope_ok :: "codec_env \<Rightarrow> PaymentPayload \<Rightarrow> bool" where
  "envelope_ok ce p =
     (family_known ce (pp_network p) \<and> pp_network p \<in> set NetworkSchema
      \<and> x402Version p \<in> set (x402Versions ce) \<and> pp_scheme p \<in> set (schemes ce)
      \<and> (if pp_network p \<in> set (SupportedEVMNetworks ce)
          then is_object (get_prop ''authorization'' (JObject (pp_payload p))) else True))"

text \<open>The authorization that is serialised for an EVM payment.\<close>

definition serialized_authorization :: "codec_env \<Rightarrow> PaymentPayload \<Rightarrow> json" where
  "serialized_authorization ce p =
     get_prop ''authorization'' (JObject (serialized_payload ce p))"

text \<open>Stand-ins for the two schemas that are parameters, for the examples: object schemas
  of string fields, an EVM payload of a signature and an authorization of six fields, an
  SVM payload of a transaction.\<close>

definition string_fields :: "string list \<Rightarrow> (string \<times> json) list \<Rightarrow> (string \<times> json) list option" where
  "string_fields ks obj =
     (if list_all (\<lambda>k. as_string (get_prop k (JObject obj)) \<noteq> None) ks
      then Some (map (\<lambda>k. (k, get_prop k (JObject obj))) ks)
      else None)"

definition sample_evm_schema :: "(string \<times> json) list \<Rightarrow> (string \<times> json) list option" where
  "sample_evm_schema pl =
     (case (get_prop ''signature'' (JObject pl), get_prop ''authorization'' (JObject pl)) of
        (JString sg, JObject a) \<Rightarrow>
          (case string_fields [''from'', ''to'', ''value'', ''validAfter'', ''validBefore'',
                               ''nonce''] a of
             None \<Rightarrow> None
           | Some a' \<Rightarrow> Some [(''signature'', JString sg), (''authorization'', JObject a')])
      | _ \<Rightarrow> None)"

definition sample_svm_schema :: "(string \<times> json) list \<Rightarrow> (string \<times> json) list option" where
  "sample_svm_schema pl = string_fields [''transaction''] pl"

definition sample_codec_env :: codec_env where
  "sample_codec_env =
     \<lparr>SupportedEVMNetworks = [''base-sepolia'', ''base'', ''avalanche-fuji'', ''avalanche'',
                               ''iotex'', ''sei'', ''sei-testnet'', ''polygon'', ''polygon-amoy''],
      SupportedSVMNetworks = [''solana-devnet'', ''solana''],
      x402Versions = [1],
      schemes = [''exact''],
      ExactEvmPayloadSchema = sample_evm_schema,
      ExactSvmPayloadSchema = sample_svm_schema\<rparr>"

text \<open>An EVM payment of \<open>10^30\<close> atomic units, far above \<open>2^53\<close>, with the amount and the
  window as decimal strings, and the same payment with these fields as BigInt.\<close>

definition sample_evm_payment :: PaymentPayload where
  "sample_evm_payment =
     \<lparr>x402Version = 1, pp_scheme = ''exact'', pp_network = ''base'',
      pp_payload =
        [(''signature'', JString ''0x1b''),
         (''authorization'', JObject
            [(''from'', JString ''0xbbbbbbbbbbbbbbbbbbbbbbbbbbbbbbbbbbbbbbbb''),
             (''to'', JString ''0xaaaaaaaaaaaaaaaaaaaaaaaaaaaaaaaaaaaaaaaa''),
             (''value'', JString ''1000000000000000000000000000000''),
             (''validAfter'', JString ''0''),
             (''validBefore'', JString ''1700000300''),
             (''nonce'', JString ''0x01'')])]\<rparr>"

definition sample_bigint_payment :: PaymentPayload where
  "sample_bigint_payment =
     \<lparr>x402Version = 1, pp_scheme = ''exact'', pp_network = ''base'',
      pp_payload =
        [(''signature'', JString ''0x1b''),
         (''authorization'', JObject
            [(''from'', JString ''0xbbbbbbbbbbbbbbbbbbbbbbbbbbbbbbbbbbbbbbbb''),
             (''to'', JString ''0xaaaaaaaaaaaaaaaaaaaaaaaaaaaaaaaaaaaaaaaa''),
             (''value'', JBigInt 1000000000000000000000000000000),
             (''validAfter'', JBigInt 0),
             (''validBefore'', JBigInt 1700000300),
             (''nonce'', JString ''0x01'')])]\<rparr>"

text \<open>An SVM payment, and a Hyperliquid payment of an action, a signature and a nonce.\<close>

definition sample_svm_payment :: PaymentPayload where
  "sample_svm_payment =
     \<lparr>x402Version = 1, pp_scheme = ''exact'', pp_network = ''solana'',
      pp_payload = [(''transaction'', JString ''AQAAAA=='')]\<rparr>"

definition sample_hl_payment :: PaymentPayload where
  "sample_hl_payment =
     \<lparr>x402Version = 1, pp_scheme = ''exact'', pp_network = ''hyperliquid'',
      pp_payload =
        [(''action'', JObject
            [(''type'', JString ''spotSend''),
             (''destination'', JString ''0xaaaaaaaaaaaaaaaaaaaaaaaaaaaaaaaaaaaaaaaa''),
             (''token'', JString ''USDC:0xeb62eee3685fc4c43992febcd9e75443''),
             (''amount'', JString ''123456789012345678901234567890.5''),
             (''time'', JNumber (Fin 1700000000000))]),
         (''signature'', JObject
            [(''r'', JString ''0x01''), (''s'', JString ''0x02''), (''v'', JNumber (Fin 27))]),
         (''nonce'', JNumber (Fin 1700000000000))]\<rparr>"

section \<open>Properties of verify\<close>

subsection \<open>The stages of verify\<close>

lemma verify_network:
  "\<not> network_guard p r \<Longrightarrow> verify en now w p r = (rejected invalid_exact_hl_network, w)"
  by (auto simp: verify_def network_guard_def)

lemma verify_payload:
  "network_guard p r \<Longrightarrow> action_fields p = None
     \<Longrightarrow> verify en now w p r = (rejected invalid_exact_hl_payload, w)"
  by (auto simp: verify_def network_guard_def action_fields_def Let_def
           split: option.splits if_splits)

lemma verify_stages:
  assumes "network_guard p r" "action_fields p = Some (a, d, t, m)"
  shows "verify en now w p r =
     (if toLowerCase d \<noteq> toLowerCase (payTo r)
      then (rejected invalid_exact_hl_payload_recipient_mismatch, w)
      else if t \<noteq> asset r
      then (rejected invalid_exact_hl_payload_asset_mismatch, w)
      else if \<not> ensureAmountMeetsRequirement en m (maxAmountRequired r)
                  (fst (resolveDecimals en w r))
      then (rejected invalid_exact_hl_payload_amount_mismatch, snd (resolveDecimals en w r))
      else if \<not> withinTtl now (get_prop ''time'' a) (maxTimeoutSeconds r)
      then (rejected payment_expired, snd (resolveDecimals en w r))
      else (accepted p, snd (resolveDecimals en w r)))"
proof -
  from assms(2) have a: "get_prop ''action'' (JObject (pp_payload p)) = a"
    and ok: "truthy a" "typeof_object a"
    and f: "as_string (get_prop ''destination'' a) = Some d"
       "as_string (get_prop ''token'' a) = Some t"
       "as_string (get_prop ''amount'' a) = Some m"
    and ne: "d \<noteq> []" "t \<noteq> []" "m \<noteq> []"
    by (auto simp: action_fields_def Let_def split: option.splits if_splits)
  from assms(1) have g: "pp_scheme p = SCHEME" "pr_scheme r = SCHEME"
      "pp_network p = pr_network r" "pr_network r \<in> set SupportedHLNetworks"
    by (auto simp: network_guard_def)
  show ?thesis
    unfolding verify_def
    by (simp add: g a ok f ne accepted_def Let_def split: prod.splits del: get_prop.simps)
qed

lemma rejected_eq [simp]: "rejected x = rejected y \<longleftrightarrow> x = y"
  by (simp add: rejected_def)

lemma rejected_not_accepted [simp]:
  "\<not> isValid (rejected x)" "rejected x \<noteq> accepted p" "accepted p \<noteq> rejected x"
  "isValid (accepted p)"
  by (auto simp: rejected_def accepted_def)

lemma sample_guard: "network_guard (sample_payload a) sample_requirements"
  by (simp add: network_guard_def sample_payload_def sample_requirements_def SCHEME_def
        SupportedHLNetworks_def)

lemma sample_fields:
  "d \<noteq> [] \<Longrightarrow> t \<noteq> [] \<Longrightarrow> m \<noteq> []
     \<Longrightarrow> action_fields (sample_payload (sample_action d t m tm))
           = Some (sample_action d t m tm, d, t, m)"
  by (simp add: action_fields_def sample_payload_def sample_action_def)

lemma sample_time: "get_prop ''time'' (sample_action d t m tm) = tm"
  by (simp add: sample_action_def)

lemma sample_decimals:
  "fst (resolveDecimals sample_env empty_world sample_requirements) = Some (Fin 6)"
  by code_simp

text \<open>
  \<^bold>\<open>C2.\<close> verify checks in the strict order network guard, payload fields, recipient,
  asset, amount, time to live, and the first check that fails gives the reason: a call
  that fails the network guard is answered \<^verbatim>\<open>invalid_exact_hl_network\<close>; one that
  passes it and lacks the action fields, \<^verbatim>\<open>invalid_exact_hl_payload\<close>; and with the action
  fields present, a destination that differs from \<^verbatim>\<open>payTo\<close> is answered with the
  recipient mismatch whatever the token, the amount and the time are, an asset mismatch
  is reported only when the recipient matches, an amount mismatch only when recipient
  and asset match, an expiry only when all three match, and the payload is accepted when
  every check passes.
\<close>

theorem verify_first_failing_check_wins:
  "(\<not> network_guard p r \<longrightarrow> fst (verify en now w p r) = rejected invalid_exact_hl_network)
   \<and> (network_guard p r \<and> action_fields p = None
        \<longrightarrow> fst (verify en now w p r) = rejected invalid_exact_hl_payload)
   \<and> (network_guard p r \<and> action_fields p = Some (a, d, t, m) \<longrightarrow>
        (toLowerCase d \<noteq> toLowerCase (payTo r)
           \<longrightarrow> fst (verify en now w p r) = rejected invalid_exact_hl_payload_recipient_mismatch)
      \<and> (toLowerCase d = toLowerCase (payTo r) \<and> t \<noteq> asset r
           \<longrightarrow> fst (verify en now w p r) = rejected invalid_exact_hl_payload_asset_mismatch)
      \<and> (toLowerCase d = toLowerCase (payTo r) \<and> t = asset r
          \<and> \<not> ensureAmountMeetsRequirement en m (maxAmountRequired r)
                (fst (resolveDecimals en w r))
           \<longrightarrow> fst (verify en now w p r) = rejected invalid_exact_hl_payload_amount_mismatch)
      \<and> (toLowerCase d = toLowerCase (payTo r) \<and> t = asset r
          \<and> ensureAmountMeetsRequirement en m (maxAmountRequired r)
                (fst (resolveDecimals en w r))
          \<and> \<not> withinTtl now (get_prop ''time'' a) (maxTimeoutSeconds r)
           \<longrightarrow> fst (verify en now w p r) = rejected payment_expired)
      \<and> (toLowerCase d = toLowerCase (payTo r) \<and> t = asset r
          \<and> ensureAmountMeetsRequirement en m (maxAmountRequired r)
                (fst (resolveDecimals en w r))
          \<and> withinTtl now (get_prop ''time'' a) (maxTimeoutSeconds r)
           \<longrightarrow> fst (verify en now w p r) = accepted p))"
  by (simp add: verify_network verify_payload verify_stages)

text \<open>The witness: a payload that violates recipient, asset and amount at once is answered
  with the recipient mismatch; one that violates asset and amount, with the asset
  mismatch; one that violates the amount alone, with the amount mismatch; and a wrong
  scheme and a missing amount are answered by the first two stages.\<close>

theorem verify_first_failing_check_wins_witness:
  "toLowerCase ''0xcccccccccccccccccccccccccccccccccccccccc'' \<noteq> toLowerCase (payTo sample_requirements)
   \<and> ''USDT:0xeb62eee3685fc4c43992febcd9e75443'' \<noteq> asset sample_requirements
   \<and> \<not> ensureAmountMeetsRequirement sample_env ''0.5'' (maxAmountRequired sample_requirements)
         (fst (resolveDecimals sample_env empty_world sample_requirements))
   \<and> fst (verify sample_env 1700000000000 empty_world
            (sample_payload (sample_action ''0xcccccccccccccccccccccccccccccccccccccccc''
               ''USDT:0xeb62eee3685fc4c43992febcd9e75443'' ''0.5''
               (JNumber (Fin 1700000000000))))
            sample_requirements)
       = rejected invalid_exact_hl_payload_recipient_mismatch
   \<and> fst (verify sample_env 1700000000000 empty_world
            (sample_payload (sample_action ''0xaaaaaaaaaaaaaaaaaaaaaaaaaaaaaaaaaaaaaaaa''
               ''USDT:0xeb62eee3685fc4c43992febcd9e75443'' ''0.5''
               (JNumber (Fin 1700000000000))))
            sample_requirements)
       = rejected invalid_exact_hl_payload_asset_mismatch
   \<and> fst (verify sample_env 1700000000000 empty_world
            (sample_payload (sample_action ''0xaaaaaaaaaaaaaaaaaaaaaaaaaaaaaaaaaaaaaaaa''
               ''USDC:0xeb62eee3685fc4c43992febcd9e75443'' ''0.5''
               (JNumber (Fin 1700000000000))))
            sample_requirements)
       = rejected invalid_exact_hl_payload_amount_mismatch
   \<and> fst (verify sample_env 1700000000000 empty_world
            ((sample_payload (sample_action ''0xaaaaaaaaaaaaaaaaaaaaaaaaaaaaaaaaaaaaaaaa''
               ''USDC:0xeb62eee3685fc4c43992febcd9e75443'' ''0.5''
               (JNumber (Fin 1700000000000))))\<lparr>pp_scheme := ''upto''\<rparr>)
            sample_requirements)
       = rejected invalid_exact_hl_network
   \<and> fst (verify sample_env 1700000000000 empty_world
            (sample_payload (JObject [(''destination'',
               JString ''0xaaaaaaaaaaaaaaaaaaaaaaaaaaaaaaaaaaaaaaaa'')]))
            sample_requirements)
       = rejected invalid_exact_hl_payload"
proof -
  let ?bad = "''0xcccccccccccccccccccccccccccccccccccccccc''"
  let ?good = "''0xaaaaaaaaaaaaaaaaaaaaaaaaaaaaaaaaaaaaaaaa''"
  let ?usdt = "''USDT:0xeb62eee3685fc4c43992febcd9e75443''"
  let ?usdc = "''USDC:0xeb62eee3685fc4c43992febcd9e75443''"
  let ?tm = "JNumber (Fin 1700000000000)"
  have sel: "payTo sample_requirements = ?good" "asset sample_requirements = ?usdc"
    "maxAmountRequired sample_requirements = ''1000000''"
    by (simp_all add: sample_requirements_def)
  have r1: "toLowerCase ?bad \<noteq> toLowerCase ?good" by code_simp
  have m1: "\<not> ensureAmountMeetsRequirement sample_env ''0.5'' ''1000000''
                (fst (resolveDecimals sample_env empty_world sample_requirements))"
    by code_simp
  have g2: "\<not> network_guard
               ((sample_payload (sample_action ?good ?usdc ''0.5'' ?tm))\<lparr>pp_scheme := ''upto''\<rparr>)
               sample_requirements"
    by (simp add: network_guard_def sample_payload_def SCHEME_def)
  have f2: "action_fields (sample_payload (JObject [(''destination'', JString ?good)])) = None"
    by (simp add: action_fields_def sample_payload_def)
  note f = sample_fields [of _ _ "''0.5''" ?tm, simplified]
  have c1: "toLowerCase ?bad \<noteq> toLowerCase (payTo sample_requirements)"
    using r1 by (simp add: sel)
  have c2: "?usdt \<noteq> asset sample_requirements"
    by (simp add: sel)
  have c3: "\<not> ensureAmountMeetsRequirement sample_env ''0.5''
                (maxAmountRequired sample_requirements)
                (fst (resolveDecimals sample_env empty_world sample_requirements))"
    using m1 by (simp add: sel)
  have i1: "fst (verify sample_env 1700000000000 empty_world
                  (sample_payload (sample_action ?bad ?usdt ''0.5'' ?tm)) sample_requirements)
            = rejected invalid_exact_hl_payload_recipient_mismatch"
    using verify_first_failing_check_wins
        [of "sample_payload (sample_action ?bad ?usdt ''0.5'' ?tm)" sample_requirements
            sample_env 1700000000000 empty_world "sample_action ?bad ?usdt ''0.5'' ?tm"
            ?bad ?usdt "''0.5''"] r1
    by (simp add: sample_guard f sel)
  have i2: "fst (verify sample_env 1700000000000 empty_world
                  (sample_payload (sample_action ?good ?usdt ''0.5'' ?tm)) sample_requirements)
            = rejected invalid_exact_hl_payload_asset_mismatch"
    using verify_first_failing_check_wins
        [of "sample_payload (sample_action ?good ?usdt ''0.5'' ?tm)" sample_requirements
            sample_env 1700000000000 empty_world "sample_action ?good ?usdt ''0.5'' ?tm"
            ?good ?usdt "''0.5''"]
    by (simp add: sample_guard f sel)
  have i3: "fst (verify sample_env 1700000000000 empty_world
                  (sample_payload (sample_action ?good ?usdc ''0.5'' ?tm)) sample_requirements)
            = rejected invalid_exact_hl_payload_amount_mismatch"
    using verify_first_failing_check_wins
        [of "sample_payload (sample_action ?good ?usdc ''0.5'' ?tm)" sample_requirements
            sample_env 1700000000000 empty_world "sample_action ?good ?usdc ''0.5'' ?tm"
            ?good ?usdc "''0.5''"] m1
    by (simp add: sample_guard f sel)
  have i4: "fst (verify sample_env 1700000000000 empty_world
                  ((sample_payload (sample_action ?good ?usdc ''0.5'' ?tm))\<lparr>pp_scheme := ''upto''\<rparr>)
                  sample_requirements)
            = rejected invalid_exact_hl_network"
    using verify_first_failing_check_wins
        [of "(sample_payload (sample_action ?good ?usdc ''0.5'' ?tm))\<lparr>pp_scheme := ''upto''\<rparr>"
            sample_requirements sample_env 1700000000000 empty_world] g2
    by simp
  have i5: "fst (verify sample_env 1700000000000 empty_world
                  (sample_payload (JObject [(''destination'', JString ?good)]))
                  sample_requirements)
            = rejected invalid_exact_hl_payload"
    using verify_first_failing_check_wins
        [of "sample_payload (JObject [(''destination'', JString ?good)])"
            sample_requirements sample_env 1700000000000 empty_world] f2
    by (simp add: sample_guard)
  show ?thesis
    by (intro conjI c1 c2 c3 i1 i2 i3 i4 i5)
qed

subsection \<open>The amount check\<close>

lemma digit_not_space: "is_digit c \<Longrightarrow> \<not> is_space c"
  by (auto simp: is_digit_def is_space_def Let_def)

lemma trim_digits: "list_all is_digit s \<Longrightarrow> trim s = s"
proof (cases s)
  case Nil
  then show ?thesis by (simp add: trim_def)
next
  case (Cons c cs)
  assume a: "list_all is_digit s"
  then have h: "\<not> is_space (hd s)" using Cons by (simp add: digit_not_space)
  have l: "\<not> is_space (last s)"
    using a Cons by (metis digit_not_space last_in_set list.distinct(1) list_all_iff)
  have 1: "dropWhile is_space s = s" using h by (simp add: dropWhile_eq_self_iff)
  have "hd (rev s) = last s" using Cons by (simp add: hd_rev)
  then have 2: "dropWhile is_space (rev s) = rev s" using l by (simp add: dropWhile_eq_self_iff)
  show ?thesis by (simp add: trim_def 1 2)
qed

lemma BigInt_digits:
  "list_all is_digit s \<Longrightarrow> s \<noteq> [] \<Longrightarrow> BigInt_of_string s = Some (radix_value 10 s)"
  by (simp add: BigInt_of_string_def trim_digits)

lemma foldl_radix:
  "foldl (\<lambda>acc c. b * acc + digit_val c) a s
     = a * b ^ length s + foldl (\<lambda>acc c. b * acc + digit_val c) 0 s"
proof (induction s arbitrary: a)
  case Nil
  then show ?case by simp
next
  case (Cons c s)
  let ?f = "\<lambda>acc c. b * acc + digit_val c"
  have "foldl ?f a (c # s) = foldl ?f (b * a + digit_val c) s" by simp
  also have "\<dots> = (b * a + digit_val c) * b ^ length s + foldl ?f 0 s"
    by (rule Cons.IH)
  also have "\<dots> = a * b ^ length (c # s) + (digit_val c * b ^ length s + foldl ?f 0 s)"
    by (simp add: algebra_simps)
  also have "digit_val c * b ^ length s + foldl ?f 0 s = foldl ?f (digit_val c) s"
    by (rule Cons.IH [symmetric])
  also have "foldl ?f (digit_val c) s = foldl ?f 0 (c # s)" by simp
  finally show ?case .
qed

lemma radix_value_append:
  "radix_value b (xs @ ys) = radix_value b xs * b ^ length ys + radix_value b ys"
  unfolding radix_value_def foldl_append by (rule foldl_radix)

lemma split_no_sep: "sep \<notin> set s \<Longrightarrow> split_str sep s = [s]"
  by (induction s) auto

lemma split_at_sep:
  "sep \<notin> set xs \<Longrightarrow> split_str sep (xs @ sep # ys) = xs # split_str sep ys"
  by (induction xs) auto

lemma dot_not_digit: "\<not> is_digit CHR ''.''"
  by (simp add: is_digit_def)

lemma digits_no_dot: "list_all is_digit s \<Longrightarrow> CHR ''.'' \<notin> set s"
  using dot_not_digit by (auto simp: list_all_iff)

lemma split_valid_decimal:
  assumes "valid_decimal s"
  shows "\<exists>whole fraction. list_all is_digit whole \<and> whole \<noteq> [] \<and> list_all is_digit fraction
          \<and> (split_str CHR ''.'' s = [whole] \<and> fraction = []
              \<or> split_str CHR ''.'' s = [whole, fraction] \<and> fraction \<noteq> [])"
proof (cases "dropWhile is_digit s")
  case Nil
  then have all: "list_all is_digit s"
    by (metis dropWhile_eq_Nil_conv list_all_iff)
  moreover have "s \<noteq> []" using assms by (auto simp: valid_decimal_def)
  moreover have "split_str CHR ''.'' s = [s]" using all by (simp add: split_no_sep digits_no_dot)
  ultimately show ?thesis by auto
next
  case (Cons c f)
  with assms have c: "c = CHR ''.''" and f: "f \<noteq> []" "list_all is_digit f"
    and w: "takeWhile is_digit s \<noteq> []"
    by (auto simp: valid_decimal_def)
  let ?w = "takeWhile is_digit s"
  have s: "s = ?w @ CHR ''.'' # f"
    using Cons c by (metis takeWhile_dropWhile_id)
  have wd: "list_all is_digit ?w" by (simp add: list_all_iff) (meson set_takeWhileD)
  have "split_str CHR ''.'' (?w @ CHR ''.'' # f) = ?w # split_str CHR ''.'' f"
    using wd by (intro split_at_sep digits_no_dot)
  also have "split_str CHR ''.'' f = [f]" using f by (simp add: split_no_sep digits_no_dot)
  finally have "split_str CHR ''.'' s = [?w, f]" using s by simp
  with wd w f show ?thesis by blast
qed

lemma radix_zeros: "radix_value b (replicate k CHR ''0'') = 0"
  by (induction k) (simp_all add: radix_value_def digit_val_def)

lemma pad_or_truncate:
  "(if n < length f then take n f else f @ replicate (n - length f) c)
     = take n (f @ replicate n c)"
  by auto

lemma decimalToAtomic_nat:
  "decimalToAtomic v (Fin (of_nat n)) =
     (if \<not> valid_decimal (trim v) then None
      else
        (case split_str CHR ''.'' (trim v) of
           [] \<Rightarrow> None
         | whole # rest \<Rightarrow>
             (case BigInt_of_string (if whole = [] then ''0'' else whole) of
                None \<Rightarrow> None
              | Some wholeBig \<Rightarrow>
                  (case BigInt_of_string
                          (if take n ((case rest of [] \<Rightarrow> [] | f # fs \<Rightarrow> f) @ replicate n CHR ''0'') = []
                           then ''0''
                           else take n ((case rest of [] \<Rightarrow> [] | f # fs \<Rightarrow> f) @ replicate n CHR ''0'')) of
                     None \<Rightarrow> None
                   | Some fractionalUnits \<Rightarrow> Some (wholeBig * 10 ^ n + fractionalUnits)))))"
  unfolding decimalToAtomic_def Let_def
  by (simp only: jsnum.case floor_of_nat nat_int of_int_of_nat_eq of_nat_less_iff
        of_nat_less_0_iff pad_or_truncate simp_thms if_False)

lemma decimalToAtomic_concat:
  assumes "valid_decimal (trim v)"
  shows "decimalToAtomic v (Fin (of_nat n)) = Some (atomic_by_concatenation (trim v) n)"
proof -
  obtain whole fraction where wd: "list_all is_digit whole" "whole \<noteq> []"
    and fd: "list_all is_digit fraction"
    and sp: "split_str CHR ''.'' (trim v) = [whole] \<and> fraction = []
              \<or> split_str CHR ''.'' (trim v) = [whole, fraction] \<and> fraction \<noteq> []"
    using split_valid_decimal [OF assms] by blast
  define nf where "nf = take n (fraction @ replicate n CHR ''0'')"
  have len: "length nf = n" by (simp add: nf_def)
  have nfd: "list_all is_digit nf"
    using fd by (auto simp: nf_def list_all_iff is_digit_def dest: in_set_takeD)
  have bw: "BigInt_of_string (if whole = [] then ''0'' else whole) = Some (radix_value 10 whole)"
    using wd by (simp add: BigInt_digits)
  have zero: "BigInt_of_string ''0'' = Some 0"
    by (simp add: BigInt_of_string_def trim_def is_space_def is_digit_def radix_value_def digit_val_def)
  have bf: "BigInt_of_string (if nf = [] then ''0'' else nf) = Some (radix_value 10 nf)"
  proof (cases "nf = []")
    case True
    then show ?thesis by (simp add: zero radix_value_def)
  next
    case False
    then show ?thesis using nfd by (simp add: BigInt_digits)
  qed
  have fr: "(case tl (split_str CHR ''.'' (trim v)) of [] \<Rightarrow> [] | f # fs \<Rightarrow> f) = fraction"
    and hw: "\<exists>rest. split_str CHR ''.'' (trim v) = whole # rest"
    using sp by auto
  then obtain rest where rest: "split_str CHR ''.'' (trim v) = whole # rest" by blast
  have fr': "(case rest of [] \<Rightarrow> [] | f # fs \<Rightarrow> f) = fraction"
    using fr rest by simp
  have spec: "atomic_by_concatenation (trim v) n = radix_value 10 (whole @ nf)"
    using sp by (auto simp: atomic_by_concatenation_def nf_def)
  have "decimalToAtomic v (Fin (of_nat n))
          = Some (radix_value 10 whole * 10 ^ n + radix_value 10 nf)"
    by (simp only: decimalToAtomic_nat assms rest list.case fr' nf_def [symmetric] bw bf
          option.case simp_thms if_False)
  also have "radix_value 10 whole * 10 ^ n + radix_value 10 nf
               = radix_value 10 (whole @ nf)"
    by (simp add: radix_value_append len)
  finally show ?thesis by (simp add: spec)
qed


lemma ensure_known_decimals:
  "ensureAmountMeetsRequirement en v required (Some (Fin (of_nat n)))
     = (case decimalToAtomic v (Fin (of_nat n)) of
          None \<Rightarrow> False
        | Some payloadAtomic \<Rightarrow>
            (case BigInt_of_string required of
               None \<Rightarrow> False
             | Some q \<Rightarrow> payloadAtomic \<ge> q))"
  by (simp add: ensureAmountMeetsRequirement_def)

lemma decimalToAtomic_invalid: "\<not> valid_decimal (trim v) \<Longrightarrow> decimalToAtomic v d = None"
  by (simp add: decimalToAtomic_def)

lemma resolveDecimals_provided:
  "extra r = Some e \<Longrightarrow> get_prop ''decimals'' (JObject e) = JNumber n
     \<Longrightarrow> resolveDecimals en w r = (Some n, w)"
  by (simp add: resolveDecimals_def del: get_prop.simps)

text \<open>
  \<^bold>\<open>C3.\<close> With \<^verbatim>\<open>maxAmountRequired = "1000000"\<close> and six decimals the amount check accepts
  the payload amounts \<^verbatim>\<open>"1"\<close> and \<^verbatim>\<open>"1.000001"\<close> and rejects \<^verbatim>\<open>"0.999999"\<close>, in the check
  itself and in the answer of verify. In general, for a payload amount that is a decimal
  string and a number \<open>n\<close> of decimals, \<^verbatim>\<open>decimalToAtomic\<close> gives the integer obtained by
  splitting on the point, truncating or zero-padding the fraction to exactly \<open>n\<close> digits
  and concatenating, and the check compares that integer with \<^verbatim>\<open>maxAmountRequired\<close> as
  exact integers; an amount that is no decimal string is rejected.
\<close>

theorem amount_check_decimal_conversion:
  "ensureAmountMeetsRequirement en ''1'' ''1000000'' (Some (Fin 6))
   \<and> ensureAmountMeetsRequirement en ''1.000001'' ''1000000'' (Some (Fin 6))
   \<and> \<not> ensureAmountMeetsRequirement en ''0.999999'' ''1000000'' (Some (Fin 6))
   \<and> (valid_decimal (trim v) \<longrightarrow>
         decimalToAtomic v (Fin (of_nat n)) = Some (atomic_by_concatenation (trim v) n)
         \<and> ensureAmountMeetsRequirement en v required (Some (Fin (of_nat n)))
             = (case BigInt_of_string required of
                  None \<Rightarrow> False
                | Some q \<Rightarrow> atomic_by_concatenation (trim v) n \<ge> q))
   \<and> (\<not> valid_decimal (trim v) \<longrightarrow>
         \<not> ensureAmountMeetsRequirement en v required (Some (Fin (of_nat n))))
   \<and> (network_guard p r \<and> action_fields p = Some (a, d, t, m)
        \<and> toLowerCase d = toLowerCase (payTo r) \<and> t = asset r
        \<and> maxAmountRequired r = ''1000000''
        \<and> extra r = Some e \<and> get_prop ''decimals'' (JObject e) = JNumber (Fin 6) \<longrightarrow>
          (m = ''0.999999'' \<longrightarrow>
             fst (verify en now w p r) = rejected invalid_exact_hl_payload_amount_mismatch)
        \<and> (m = ''1'' \<or> m = ''1.000001'' \<longrightarrow>
             fst (verify en now w p r) \<noteq> rejected invalid_exact_hl_payload_amount_mismatch))"
proof -
  have req: "BigInt_of_string ''1000000'' = Some 1000000" by code_simp
  have a1: "decimalToAtomic ''1'' (Fin 6) = Some 1000000" by code_simp
  have a2: "decimalToAtomic ''1.000001'' (Fin 6) = Some 1000001" by code_simp
  have a3: "decimalToAtomic ''0.999999'' (Fin 6) = Some 999999" by code_simp
  have e1: "ensureAmountMeetsRequirement en ''1'' ''1000000'' (Some (Fin 6))"
    by (simp add: ensureAmountMeetsRequirement_def req a1)
  have e2: "ensureAmountMeetsRequirement en ''1.000001'' ''1000000'' (Some (Fin 6))"
    by (simp add: ensureAmountMeetsRequirement_def req a2)
  have e3: "\<not> ensureAmountMeetsRequirement en ''0.999999'' ''1000000'' (Some (Fin 6))"
    by (simp add: ensureAmountMeetsRequirement_def req a3)
  have gen: "valid_decimal (trim v) \<longrightarrow>
         decimalToAtomic v (Fin (of_nat n)) = Some (atomic_by_concatenation (trim v) n)
         \<and> ensureAmountMeetsRequirement en v required (Some (Fin (of_nat n)))
             = (case BigInt_of_string required of
                  None \<Rightarrow> False
                | Some q \<Rightarrow> atomic_by_concatenation (trim v) n \<ge> q)"
    by (simp add: ensure_known_decimals decimalToAtomic_concat)
  have inv: "\<not> valid_decimal (trim v) \<longrightarrow>
         \<not> ensureAmountMeetsRequirement en v required (Some (Fin (of_nat n)))"
    by (simp add: ensure_known_decimals decimalToAtomic_invalid)
  have ver: "network_guard p r \<and> action_fields p = Some (a, d, t, m)
        \<and> toLowerCase d = toLowerCase (payTo r) \<and> t = asset r
        \<and> maxAmountRequired r = ''1000000''
        \<and> extra r = Some e \<and> get_prop ''decimals'' (JObject e) = JNumber (Fin 6) \<longrightarrow>
          (m = ''0.999999'' \<longrightarrow>
             fst (verify en now w p r) = rejected invalid_exact_hl_payload_amount_mismatch)
        \<and> (m = ''1'' \<or> m = ''1.000001'' \<longrightarrow>
             fst (verify en now w p r) \<noteq> rejected invalid_exact_hl_payload_amount_mismatch)"
    using e1 e2 e3 by (auto simp: verify_stages resolveDecimals_provided)
  from e1 e2 e3 gen inv ver show ?thesis by blast
qed

text \<open>The witness: the conversion at two decimal strings (one with more digits than
  decimals and white space around it, one with fewer), a string that is no decimal, and
  the answer of verify at the boundary amount \<^verbatim>\<open>"0.999999"\<close>.\<close>

theorem amount_check_decimal_conversion_witness:
  "valid_decimal (trim '' 12.3456789 '')
   \<and> decimalToAtomic '' 12.3456789 '' (Fin 6) = Some 12345678
   \<and> decimalToAtomic ''7.5'' (Fin 6) = Some 7500000
   \<and> \<not> valid_decimal (trim ''1e6'')
   \<and> \<not> ensureAmountMeetsRequirement sample_env ''1e6'' ''1000000'' (Some (Fin 6))
   \<and> fst (verify sample_env 1700000000000 empty_world
            (sample_payload (sample_action ''0xaaaaaaaaaaaaaaaaaaaaaaaaaaaaaaaaaaaaaaaa''
               ''USDC:0xeb62eee3685fc4c43992febcd9e75443'' ''0.999999''
               (JNumber (Fin 1700000000000))))
            sample_requirements)
       = rejected invalid_exact_hl_payload_amount_mismatch"
proof -
  let ?good = "''0xaaaaaaaaaaaaaaaaaaaaaaaaaaaaaaaaaaaaaaaa''"
  let ?usdc = "''USDC:0xeb62eee3685fc4c43992febcd9e75443''"
  let ?tm = "JNumber (Fin 1700000000000)"
  have v1: "valid_decimal (trim '' 12.3456789 '')" by code_simp
  have v2: "valid_decimal (trim ''7.5'')" by code_simp
  have v3: "\<not> valid_decimal (trim ''1e6'')" by code_simp
  have c1: "atomic_by_concatenation (trim '' 12.3456789 '') 6 = 12345678" by code_simp
  have c2: "atomic_by_concatenation (trim ''7.5'') 6 = 7500000" by code_simp
  have sel: "payTo sample_requirements = ?good" "asset sample_requirements = ?usdc"
    "maxAmountRequired sample_requirements = ''1000000''"
    "extra sample_requirements = Some [(''decimals'', JNumber (Fin 6))]"
    by (simp_all add: sample_requirements_def)
  have i1: "decimalToAtomic '' 12.3456789 '' (Fin 6) = Some 12345678"
    using amount_check_decimal_conversion [of sample_env "'' 12.3456789 ''" 6] v1 c1 by simp
  have i2: "decimalToAtomic ''7.5'' (Fin 6) = Some 7500000"
    using amount_check_decimal_conversion [of sample_env "''7.5''" 6] v2 c2 by simp
  have i3: "\<not> ensureAmountMeetsRequirement sample_env ''1e6'' ''1000000'' (Some (Fin 6))"
    using amount_check_decimal_conversion [of sample_env "''1e6''" 6 "''1000000''"] v3 by simp
  have i4: "fst (verify sample_env 1700000000000 empty_world
                  (sample_payload (sample_action ?good ?usdc ''0.999999'' ?tm))
                  sample_requirements)
            = rejected invalid_exact_hl_payload_amount_mismatch"
    using amount_check_decimal_conversion
        [of sample_env _ _ _ "sample_payload (sample_action ?good ?usdc ''0.999999'' ?tm)"
            sample_requirements "sample_action ?good ?usdc ''0.999999'' ?tm" ?good ?usdc
            "''0.999999''" "[(''decimals'', JNumber (Fin 6))]" 1700000000000 empty_world]
    by (simp add: sample_guard sample_fields sel)
  show ?thesis
    by (intro conjI v1 i1 i2 v3 i3 i4)
qed

subsection \<open>Recipient, asset and expiry\<close>

text \<open>
  \<^bold>\<open>C6.\<close> For a payload that passes the network guard and has its action fields, verify
  answers with the recipient mismatch exactly when the destination and \<^verbatim>\<open>payTo\<close> differ
  after lower-casing both, and, when they agree in that sense, with the asset mismatch
  exactly when the token and the asset differ as strings, also when they differ in
  letter case only.
\<close>

theorem verify_recipient_and_asset_comparison:
  "network_guard p r \<and> action_fields p = Some (a, d, t, m) \<longrightarrow>
     (fst (verify en now w p r) = rejected invalid_exact_hl_payload_recipient_mismatch
        \<longleftrightarrow> toLowerCase d \<noteq> toLowerCase (payTo r))
   \<and> (toLowerCase d = toLowerCase (payTo r) \<longrightarrow>
        (fst (verify en now w p r) = rejected invalid_exact_hl_payload_asset_mismatch
           \<longleftrightarrow> t \<noteq> asset r))
   \<and> (toLowerCase d = toLowerCase (payTo r) \<and> t \<noteq> asset r
       \<and> toLowerCase t = toLowerCase (asset r) \<longrightarrow>
        fst (verify en now w p r) = rejected invalid_exact_hl_payload_asset_mismatch)"
  by (simp add: verify_stages)

text \<open>The witness: a destination in upper case passes the recipient check against a
  \<^verbatim>\<open>payTo\<close> in lower case, and a token that differs from the asset in letter case only is
  answered with the asset mismatch.\<close>

theorem verify_recipient_and_asset_comparison_witness:
  "''0xAAAAAAAAAAAAAAAAAAAAAAAAAAAAAAAAAAAAAAAA'' \<noteq> payTo sample_requirements
   \<and> toLowerCase ''0xAAAAAAAAAAAAAAAAAAAAAAAAAAAAAAAAAAAAAAAA''
       = toLowerCase (payTo sample_requirements)
   \<and> ''usdc:0xEB62EEE3685FC4C43992FEBCD9E75443'' \<noteq> asset sample_requirements
   \<and> toLowerCase ''usdc:0xEB62EEE3685FC4C43992FEBCD9E75443''
       = toLowerCase (asset sample_requirements)
   \<and> fst (verify sample_env 1700000000000 empty_world
            (sample_payload (sample_action ''0xAAAAAAAAAAAAAAAAAAAAAAAAAAAAAAAAAAAAAAAA''
               ''usdc:0xEB62EEE3685FC4C43992FEBCD9E75443'' ''1.5''
               (JNumber (Fin 1700000000000))))
            sample_requirements)
       = rejected invalid_exact_hl_payload_asset_mismatch"
proof -
  let ?upper = "''0xAAAAAAAAAAAAAAAAAAAAAAAAAAAAAAAAAAAAAAAA''"
  let ?token = "''usdc:0xEB62EEE3685FC4C43992FEBCD9E75443''"
  let ?tm = "JNumber (Fin 1700000000000)"
  have c1: "?upper \<noteq> payTo sample_requirements" by code_simp
  have c2: "toLowerCase ?upper = toLowerCase (payTo sample_requirements)" by code_simp
  have c3: "?token \<noteq> asset sample_requirements" by code_simp
  have c4: "toLowerCase ?token = toLowerCase (asset sample_requirements)" by code_simp
  have i: "fst (verify sample_env 1700000000000 empty_world
                 (sample_payload (sample_action ?upper ?token ''1.5'' ?tm)) sample_requirements)
           = rejected invalid_exact_hl_payload_asset_mismatch"
    using verify_recipient_and_asset_comparison
        [of "sample_payload (sample_action ?upper ?token ''1.5'' ?tm)" sample_requirements
            "sample_action ?upper ?token ''1.5'' ?tm" ?upper ?token "''1.5''"
            sample_env 1700000000000 empty_world] c2 c3
    by (simp add: sample_guard sample_fields)
  show ?thesis
    by (intro conjI c1 c2 c3 c4 i)
qed

subsection \<open>The time to live\<close>

text \<open>Binary64 arithmetic is exact on the integers below \<open>2^53\<close> in magnitude.\<close>

lemma round_half_even_int: "round_half_even (of_int j) = j"
  by (simp add: round_half_even_def)

lemma bitlen_below:
  assumes "0 < m" "m < 2 ^ N"
  shows "bitlen m \<le> int N"
proof -
  from bitlen_bounds [OF assms(1)] have "(2::int) ^ nat (bitlen m - 1) \<le> m" by simp
  then have "(2::int) ^ nat (bitlen m - 1) < 2 ^ N" using assms(2) by (rule le_less_trans)
  then have "nat (bitlen m - 1) < N" by (rule power_less_imp_less_exp [rotated]) simp
  then show ?thesis by simp
qed

lemma exponent_of_int:
  assumes "0 < m" "m < 2 ^ 53"
  shows "exponent_of (of_int m) \<le> 52"
proof -
  have "bitlen 1 = 1" by (simp add: bitlen_alt_def)
  then have "exponent_of (of_int m) \<le> bitlen m - 1"
    by (simp add: exponent_of_def quotient_of_int Let_def)
  with bitlen_below [OF assms] show ?thesis by simp
qed

lemma round_double_pos:
  assumes "0 < a" "a < 2 ^ 53"
  shows "(let q = power_int 2 (max (exponent_of (of_int a) - 52) (- 1074))
          in of_int (round_half_even (of_int a / q)) * q) = (of_int a :: rat)"
proof -
  define k where "k = max (exponent_of (of_int a) - 52) (- 1074)"
  define n where "n = nat (- k)"
  have "k \<le> 0" using exponent_of_int [OF assms] by (simp add: k_def)
  then have q: "power_int (2::rat) k = 1 / 2 ^ n"
    by (cases "k = 0") (simp_all add: power_int_def n_def inverse_eq_divide power_one_over)
  have "of_int a / (1 / 2 ^ n) = (of_int (a * 2 ^ n) :: rat)" by simp
  then have "round_half_even (of_int a / (1 / 2 ^ n)) = a * 2 ^ n"
    by (simp only: round_half_even_int)
  then show ?thesis
    unfolding Let_def k_def [symmetric] q by simp
qed

lemma round_double_int:
  assumes "\<bar>m\<bar> < 2 ^ 53"
  shows "round_double (of_int m) = Fin (of_int m)"
proof (cases "m = 0")
  case True
  then show ?thesis by (simp add: round_double_def)
next
  case False
  define a where "a = \<bar>m\<bar>"
  have a: "0 < a" "a < 2 ^ 53" using False assms by (simp_all add: a_def)
  have ab: "\<bar>of_int m :: rat\<bar> = of_int a" by (simp add: a_def)
  have small: "\<not> (2 ^ 1024 \<le> (of_int a :: rat))"
  proof -
    have "(of_int a :: rat) < of_int (2 ^ 53)" using a(2) by (simp only: of_int_less_iff)
    also have "\<dots> \<le> 2 ^ 1024" by simp
    finally show ?thesis by simp
  qed
  have y: "of_int (round_half_even (of_int a / power_int 2 (max (exponent_of (of_int a) - 52) (- 1074))))
             * power_int 2 (max (exponent_of (of_int a) - 52) (- 1074)) = (of_int a :: rat)"
    using round_double_pos [OF a] by (simp only: Let_def)
  have nz: "(of_int m :: rat) \<noteq> 0" using False by simp
  have "round_double (of_int m) = Fin (if 0 < (of_int m :: rat) then of_int a else - of_int a)"
    unfolding round_double_def Let_def ab y using nz small by (simp only: if_False)
  also have "(if 0 < (of_int m :: rat) then (of_int a :: rat) else - of_int a) = of_int m"
    using False by (simp add: a_def)
  finally show ?thesis .
qed

lemma round_double_integer:
  assumes "is_integer x" "\<bar>x\<bar> < 2 ^ 53"
  shows "round_double x = Fin x"
proof -
  from assms(1) have x: "x = of_int \<lfloor>x\<rfloor>" by (simp add: is_integer_def)
  have "\<bar>of_int \<lfloor>x\<rfloor> :: rat\<bar> < of_int (2 ^ 53)" using assms(2) x by simp
  then have "\<bar>\<lfloor>x\<rfloor>\<bar> < 2 ^ 53"
    by (simp only: of_int_abs [symmetric] of_int_less_iff)
  from round_double_int [OF this] x show ?thesis by simp
qed

lemma expiresAt_exact:
  assumes "whole_milliseconds tm ttl"
  shows "expiresAt tm ttl = Fin (tm + ttl * 1000)"
proof -
  from assms have i: "is_integer tm" "is_integer (ttl * 1000)"
    and b: "\<bar>ttl * 1000\<bar> < 2 ^ 53" "\<bar>tm + ttl * 1000\<bar> < 2 ^ 53"
    by (simp_all add: whole_milliseconds_def)
  have m: "js_mul (Fin ttl) (Fin 1000) = Fin (ttl * 1000)"
    using round_double_integer [OF i(2) b(1)] by (simp add: js_mul_def)
  have "is_integer (tm + ttl * 1000)"
  proof -
    from i have "tm = of_int \<lfloor>tm\<rfloor>" "ttl * 1000 = of_int \<lfloor>ttl * 1000\<rfloor>"
      by (simp_all add: is_integer_def)
    then have "tm + ttl * 1000 = of_int (\<lfloor>tm\<rfloor> + \<lfloor>ttl * 1000\<rfloor>)"
      by (metis of_int_add)
    then show ?thesis by (simp add: is_integer_def)
  qed
  from round_double_integer [OF this b(2)]
  show ?thesis by (simp add: expiresAt_def m js_add_def)
qed

text \<open>Outside these bounds the sum is rounded, and a sum just below the current time can
  reach it.\<close>

lemma expiresAt_rounded:
  "(10 ^ 12 - 1 / 2 ^ 13) + 700000000 * 1000 < (17 * 10 ^ 11 :: rat)
   \<and> expiresAt (10 ^ 12 - 1 / 2 ^ 13) 700000000 = Fin (17 * 10 ^ 11)
   \<and> withinTtl (17 * 10 ^ 11) (JNumber (Fin (10 ^ 12 - 1 / 2 ^ 13))) 700000000"
  by code_simp

lemma withinTtl_finite:
  "withinTtl now (JNumber (Fin tm)) ttl = js_ge (expiresAt tm ttl) (Fin now)"
  by (simp add: withinTtl_def expiresAt_def)

lemma withinTtl_exact:
  "whole_milliseconds tm ttl \<Longrightarrow> withinTtl now (JNumber (Fin tm)) ttl = (now \<le> tm + ttl * 1000)"
  by (simp add: withinTtl_finite expiresAt_exact)

lemma withinTtl_no_time:
  "(\<And>tm. v \<noteq> JNumber (Fin tm)) \<Longrightarrow> \<not> withinTtl now v ttl"
  by (auto simp: withinTtl_def split: json.splits jsnum.splits)

lemma boundary_milliseconds:
  assumes "is_integer now" "0 \<le> now" "now + 1000 < 2 ^ 53"
  shows "whole_milliseconds (now - 300001) 300" "whole_milliseconds (now - 299000) 300"
proof -
  from assms(1) have n: "now = of_int \<lfloor>now\<rfloor>" by (simp add: is_integer_def)
  have "now - 300001 = of_int (\<lfloor>now\<rfloor> - 300001)" "now - 299000 = of_int (\<lfloor>now\<rfloor> - 299000)"
    using n by simp_all
  then have i: "is_integer (now - 300001)" "is_integer (now - 299000)"
    by (simp_all add: is_integer_def)
  have t: "is_integer (300 * 1000)" by (simp add: is_integer_def)
  show "whole_milliseconds (now - 300001) 300" "whole_milliseconds (now - 299000) 300"
    using assms(2,3) i t by (simp_all add: whole_milliseconds_def abs_if)
qed

text \<open>
  \<^bold>\<open>C5.\<close> For a payload that passes every earlier check (network guard, action fields,
  recipient, asset, amount) and whose action has a finite \<^verbatim>\<open>time\<close>, verify answers
  \<^verbatim>\<open>payment_expired\<close> exactly when the expiry time it computes, the \<^verbatim>\<open>time\<close> plus
  \<^verbatim>\<open>maxTimeoutSeconds\<close> times 1000 in binary64 arithmetic, is strictly before the current
  time, and accepts the payload otherwise. When the \<^verbatim>\<open>time\<close> and the time to live in
  milliseconds are integers and these and their sum are below \<open>2^53\<close>, as timestamps in
  milliseconds are, that is exactly when \<^verbatim>\<open>time\<close> plus \<^verbatim>\<open>maxTimeoutSeconds\<close> times 1000 is
  strictly before the current time. A \<^verbatim>\<open>time\<close> that is missing, not a number or not finite
  is answered \<^verbatim>\<open>payment_expired\<close>. With \<^verbatim>\<open>maxTimeoutSeconds = 300\<close> and a current time in
  whole milliseconds, a \<^verbatim>\<open>time\<close> of 300001 ms before now is rejected and one of 299000 ms
  before now is accepted.
\<close>

theorem verify_expiry:
  "network_guard p r \<and> action_fields p = Some (a, d, t, m)
   \<and> toLowerCase d = toLowerCase (payTo r) \<and> t = asset r
   \<and> ensureAmountMeetsRequirement en m (maxAmountRequired r) (fst (resolveDecimals en w r))
   \<longrightarrow>
     (case get_prop ''time'' a of
        JNumber (Fin tm) \<Rightarrow>
          (fst (verify en now w p r) = rejected payment_expired
             \<longleftrightarrow> \<not> js_ge (expiresAt tm (maxTimeoutSeconds r)) (Fin now))
          \<and> (js_ge (expiresAt tm (maxTimeoutSeconds r)) (Fin now)
               \<longrightarrow> fst (verify en now w p r) = accepted p)
          \<and> (whole_milliseconds tm (maxTimeoutSeconds r) \<longrightarrow>
                (fst (verify en now w p r) = rejected payment_expired
                   \<longleftrightarrow> tm + maxTimeoutSeconds r * 1000 < now)
                \<and> (now \<le> tm + maxTimeoutSeconds r * 1000
                     \<longrightarrow> fst (verify en now w p r) = accepted p))
      | _ \<Rightarrow> fst (verify en now w p r) = rejected payment_expired)
     \<and> (maxTimeoutSeconds r = 300 \<and> is_integer now \<and> 0 \<le> now \<and> now + 1000 < 2 ^ 53
          \<and> get_prop ''time'' a = JNumber (Fin (now - 300001))
          \<longrightarrow> fst (verify en now w p r) = rejected payment_expired)
     \<and> (maxTimeoutSeconds r = 300 \<and> is_integer now \<and> 0 \<le> now \<and> now + 1000 < 2 ^ 53
          \<and> get_prop ''time'' a = JNumber (Fin (now - 299000))
          \<longrightarrow> fst (verify en now w p r) = accepted p)"
proof (intro impI, elim conjE)
  assume g: "network_guard p r" and f: "action_fields p = Some (a, d, t, m)"
    and c: "toLowerCase d = toLowerCase (payTo r)" "t = asset r"
      "ensureAmountMeetsRequirement en m (maxAmountRequired r) (fst (resolveDecimals en w r))"
  have v: "fst (verify en now w p r) =
             (if withinTtl now (get_prop ''time'' a) (maxTimeoutSeconds r)
              then accepted p else rejected payment_expired)"
    using c by (simp add: verify_stages [OF g f])
  have 1: "(case get_prop ''time'' a of
        JNumber (Fin tm) \<Rightarrow>
          (fst (verify en now w p r) = rejected payment_expired
             \<longleftrightarrow> \<not> js_ge (expiresAt tm (maxTimeoutSeconds r)) (Fin now))
          \<and> (js_ge (expiresAt tm (maxTimeoutSeconds r)) (Fin now)
               \<longrightarrow> fst (verify en now w p r) = accepted p)
          \<and> (whole_milliseconds tm (maxTimeoutSeconds r) \<longrightarrow>
                (fst (verify en now w p r) = rejected payment_expired
                   \<longleftrightarrow> tm + maxTimeoutSeconds r * 1000 < now)
                \<and> (now \<le> tm + maxTimeoutSeconds r * 1000
                     \<longrightarrow> fst (verify en now w p r) = accepted p))
      | _ \<Rightarrow> fst (verify en now w p r) = rejected payment_expired)"
  proof (cases "\<exists>tm. get_prop ''time'' a = JNumber (Fin tm)")
    case True
    then obtain tm where tm: "get_prop ''time'' a = JNumber (Fin tm)" by blast
    show ?thesis
      unfolding v tm
      by (auto simp: withinTtl_finite expiresAt_exact)
  next
    case False
    then have "\<not> withinTtl now (get_prop ''time'' a) (maxTimeoutSeconds r)"
      by (intro withinTtl_no_time) simp
    with False show ?thesis
      unfolding v by (auto split: json.splits jsnum.splits)
  qed
  have 2: "maxTimeoutSeconds r = 300 \<and> is_integer now \<and> 0 \<le> now \<and> now + 1000 < 2 ^ 53
          \<and> get_prop ''time'' a = JNumber (Fin (now - 300001))
          \<longrightarrow> fst (verify en now w p r) = rejected payment_expired"
    unfolding v using withinTtl_exact [OF boundary_milliseconds(1), of now now]
    by auto
  have 3: "maxTimeoutSeconds r = 300 \<and> is_integer now \<and> 0 \<le> now \<and> now + 1000 < 2 ^ 53
          \<and> get_prop ''time'' a = JNumber (Fin (now - 299000))
          \<longrightarrow> fst (verify en now w p r) = accepted p"
    unfolding v using withinTtl_exact [OF boundary_milliseconds(2), of now now]
    by auto
  show "(case get_prop ''time'' a of
        JNumber (Fin tm) \<Rightarrow>
          (fst (verify en now w p r) = rejected payment_expired
             \<longleftrightarrow> \<not> js_ge (expiresAt tm (maxTimeoutSeconds r)) (Fin now))
          \<and> (js_ge (expiresAt tm (maxTimeoutSeconds r)) (Fin now)
               \<longrightarrow> fst (verify en now w p r) = accepted p)
          \<and> (whole_milliseconds tm (maxTimeoutSeconds r) \<longrightarrow>
                (fst (verify en now w p r) = rejected payment_expired
                   \<longleftrightarrow> tm + maxTimeoutSeconds r * 1000 < now)
                \<and> (now \<le> tm + maxTimeoutSeconds r * 1000
                     \<longrightarrow> fst (verify en now w p r) = accepted p))
      | _ \<Rightarrow> fst (verify en now w p r) = rejected payment_expired)
     \<and> (maxTimeoutSeconds r = 300 \<and> is_integer now \<and> 0 \<le> now \<and> now + 1000 < 2 ^ 53
          \<and> get_prop ''time'' a = JNumber (Fin (now - 300001))
          \<longrightarrow> fst (verify en now w p r) = rejected payment_expired)
     \<and> (maxTimeoutSeconds r = 300 \<and> is_integer now \<and> 0 \<le> now \<and> now + 1000 < 2 ^ 53
          \<and> get_prop ''time'' a = JNumber (Fin (now - 299000))
          \<longrightarrow> fst (verify en now w p r) = accepted p)"
    by (intro conjI 1 2 3)
qed

text \<open>The witness: the payload of the tests at the two boundary times, without a
  \<^verbatim>\<open>time\<close>, and with a \<^verbatim>\<open>time\<close> that is not finite.\<close>

theorem verify_expiry_witness:
  "whole_milliseconds (1700000000000 - 300001) 300
   \<and> whole_milliseconds (1700000000000 - 299000) 300
   \<and> fst (verify sample_env 1700000000000 empty_world
         (sample_payload (sample_action ''0xaaaaaaaaaaaaaaaaaaaaaaaaaaaaaaaaaaaaaaaa''
            ''USDC:0xeb62eee3685fc4c43992febcd9e75443'' ''1.5''
            (JNumber (Fin (1700000000000 - 300001)))))
         sample_requirements)
     = rejected payment_expired
   \<and> isValid (fst (verify sample_env 1700000000000 empty_world
         (sample_payload (sample_action ''0xaaaaaaaaaaaaaaaaaaaaaaaaaaaaaaaaaaaaaaaa''
            ''USDC:0xeb62eee3685fc4c43992febcd9e75443'' ''1.5''
            (JNumber (Fin (1700000000000 - 299000)))))
         sample_requirements))
   \<and> fst (verify sample_env 1700000000000 empty_world
         (sample_payload (sample_action ''0xaaaaaaaaaaaaaaaaaaaaaaaaaaaaaaaaaaaaaaaa''
            ''USDC:0xeb62eee3685fc4c43992febcd9e75443'' ''1.5'' JUndefined))
         sample_requirements)
     = rejected payment_expired
   \<and> fst (verify sample_env 1700000000000 empty_world
         (sample_payload (sample_action ''0xaaaaaaaaaaaaaaaaaaaaaaaaaaaaaaaaaaaaaaaa''
            ''USDC:0xeb62eee3685fc4c43992febcd9e75443'' ''1.5'' (JNumber PosInf)))
         sample_requirements)
     = rejected payment_expired"
proof -
  let ?good = "''0xaaaaaaaaaaaaaaaaaaaaaaaaaaaaaaaaaaaaaaaa''"
  let ?usdc = "''USDC:0xeb62eee3685fc4c43992febcd9e75443''"
  have sel: "payTo sample_requirements = ?good" "asset sample_requirements = ?usdc"
    "maxAmountRequired sample_requirements = ''1000000''"
    "maxTimeoutSeconds sample_requirements = 300"
    by (simp_all add: sample_requirements_def)
  have wm: "whole_milliseconds 1699999699999 300" "whole_milliseconds 1699999701000 300"
    "is_integer 1700000000000"
    by code_simp+
  have w1: "whole_milliseconds (1700000000000 - 300001) 300" using wm(1) by simp
  have w2: "whole_milliseconds (1700000000000 - 299000) 300" using wm(2) by simp
  have am: "ensureAmountMeetsRequirement sample_env ''1.5'' ''1000000''
              (fst (resolveDecimals sample_env empty_world sample_requirements))"
    by code_simp
  have i1: "fst (verify sample_env 1700000000000 empty_world
                  (sample_payload (sample_action ?good ?usdc ''1.5''
                     (JNumber (Fin (1700000000000 - 300001))))) sample_requirements)
            = rejected payment_expired"
    using verify_expiry
        [of "sample_payload (sample_action ?good ?usdc ''1.5'' (JNumber (Fin (1700000000000 - 300001))))" sample_requirements
            "sample_action ?good ?usdc ''1.5'' (JNumber (Fin (1700000000000 - 300001)))" ?good ?usdc "''1.5''"
            sample_env empty_world 1700000000000] am
    by (simp add: sample_guard sample_fields sample_time sel wm)
  have i2: "isValid (fst (verify sample_env 1700000000000 empty_world
                  (sample_payload (sample_action ?good ?usdc ''1.5''
                     (JNumber (Fin (1700000000000 - 299000))))) sample_requirements))"
    using verify_expiry
        [of "sample_payload (sample_action ?good ?usdc ''1.5'' (JNumber (Fin (1700000000000 - 299000))))" sample_requirements
            "sample_action ?good ?usdc ''1.5'' (JNumber (Fin (1700000000000 - 299000)))" ?good ?usdc "''1.5''"
            sample_env empty_world 1700000000000] am
    by (simp add: sample_guard sample_fields sample_time sel wm)
  have i3: "fst (verify sample_env 1700000000000 empty_world
                  (sample_payload (sample_action ?good ?usdc ''1.5'' JUndefined))
                  sample_requirements)
            = rejected payment_expired"
    using verify_expiry
        [of "sample_payload (sample_action ?good ?usdc ''1.5'' (JUndefined))" sample_requirements
            "sample_action ?good ?usdc ''1.5'' (JUndefined)" ?good ?usdc "''1.5''"
            sample_env empty_world 1700000000000] am
    by (simp add: sample_guard sample_fields sample_time sel wm)
  have i4: "fst (verify sample_env 1700000000000 empty_world
                  (sample_payload (sample_action ?good ?usdc ''1.5'' (JNumber PosInf)))
                  sample_requirements)
            = rejected payment_expired"
    using verify_expiry
        [of "sample_payload (sample_action ?good ?usdc ''1.5'' (JNumber PosInf))" sample_requirements
            "sample_action ?good ?usdc ''1.5'' (JNumber PosInf)" ?good ?usdc "''1.5''"
            sample_env empty_world 1700000000000] am
    by (simp add: sample_guard sample_fields sample_time sel wm)
  show ?thesis
    by (intro conjI w1 w2 i1 i2 i3 i4)
qed

subsection \<open>Resolving the decimals\<close>

lemma split_str_nonempty: "split_str sep s \<noteq> []"
  by (induction s) (auto split: list.splits)

lemma extract_token_id:
  "(case extractHyperliquidTokenId a of None \<Rightarrow> [] | Some t \<Rightarrow> t) = asset_token_id a"
proof (cases "a = []")
  case True
  then show ?thesis
    by (simp add: extractHyperliquidTokenId_def asset_token_id_def)
next
  case False
  obtain p0 ps where sp: "split_str CHR '':'' a = p0 # ps"
    using split_str_nonempty [of "CHR '':''" a] by (cases "split_str CHR '':'' a") auto
  show ?thesis
  proof (cases "length ps = 1")
    case True
    then obtain q where "ps = [q]" by (cases ps) auto
    then show ?thesis
      using False sp by (simp add: extractHyperliquidTokenId_def asset_token_id_def)
  next
    case False
    then show ?thesis
      using \<open>a \<noteq> []\<close> sp by (simp add: extractHyperliquidTokenId_def asset_token_id_def)
  qed
qed

lemma token_id_empty_iff:
  "asset_token_id a = [] \<longleftrightarrow>
     extractHyperliquidTokenId a = None \<or> extractHyperliquidTokenId a = Some []"
  using extract_token_id [of a] by (cases "extractHyperliquidTokenId a") auto

lemma token_id_some:
  "asset_token_id a \<noteq> [] \<Longrightarrow> extractHyperliquidTokenId a = Some (asset_token_id a)"
  using extract_token_id [of a] by (cases "extractHyperliquidTokenId a") auto

lemma resolveDecimals_not_provided:
  assumes "extra r = None \<or> (extra r = Some e \<and> (\<forall>n. get_prop ''decimals'' (JObject e) \<noteq> JNumber n))"
  shows "resolveDecimals en w r =
     (if asset_token_id (asset r) = [] then (None, w)
      else (case fetchHyperliquidTokenInfo en w (pr_network r) (asset_token_id (asset r)) of
              (Inl x, w') \<Rightarrow> (None, w')
            | (Inr info, w') \<Rightarrow> (Some (ti_decimals info), w')))"
proof -
  define provided where
    "provided = (case extra r of None \<Rightarrow> JUndefined | Some e \<Rightarrow> get_prop ''decimals'' (JObject e))"
  have np: "\<forall>n. provided \<noteq> JNumber n"
    using assms by (auto simp: provided_def simp del: get_prop.simps)
  have sel: "(case provided of JNumber n \<Rightarrow> f n | _ \<Rightarrow> g) = g" for f :: "jsnum \<Rightarrow> 'a" and g
    using np by (cases provided) auto
  have "resolveDecimals en w r =
          (case extractHyperliquidTokenId (asset r) of
             None \<Rightarrow> (None, w)
           | Some tokenId \<Rightarrow>
               if tokenId = [] then (None, w)
               else (case fetchHyperliquidTokenInfo en w (pr_network r) tokenId of
                       (Inl x, w') \<Rightarrow> (None, w')
                     | (Inr info, w') \<Rightarrow> (Some (ti_decimals info), w')))"
    unfolding resolveDecimals_def Let_def provided_def [symmetric] by (simp only: sel)
  then have main: "resolveDecimals en w r =
          (case extractHyperliquidTokenId (asset r) of
             None \<Rightarrow> (None, w)
           | Some tokenId \<Rightarrow>
               if tokenId = [] then (None, w)
               else (case fetchHyperliquidTokenInfo en w (pr_network r) tokenId of
                       (Inl x, w') \<Rightarrow> (None, w')
                     | (Inr info, w') \<Rightarrow> (Some (ti_decimals info), w')))" .
  show ?thesis
  proof (cases "extractHyperliquidTokenId (asset r)")
    case None
    then have "asset_token_id (asset r) = []"
      using extract_token_id [of "asset r"] by simp
    then show ?thesis by (simp add: main None)
  next
    case (Some tokenId)
    then have "asset_token_id (asset r) = tokenId"
      using extract_token_id [of "asset r"] by simp
    then show ?thesis by (simp add: main Some)
  qed
qed

lemma lookups_append [simp]:
  "token_info_lookups (xs @ ys) = token_info_lookups xs @ token_info_lookups ys"
  by (simp add: token_info_lookups_def)

lemma fetch_lookups:
  "token_info_lookups (effects (snd (fetchHyperliquidTokenInfo en w net tid)))
     = token_info_lookups (effects w) @ [(net, tid)]"
  by (simp add: fetchHyperliquidTokenInfo_def emit_def Let_def token_info_lookups_def
           split: sum.splits option.splits)

lemma fetch_result:
  "net \<in> set SupportedHLNetworks \<Longrightarrow>
   fst (fetchHyperliquidTokenInfo en w net tid) =
     (case tokenInfoCache w (net @ '':'' @ toLowerCase tid) of
        Some cached \<Rightarrow> Inr cached
      | None \<Rightarrow>
          (case tokenDetails en (net = ''hyperliquid-testnet'') tid of
             None \<Rightarrow> Inl (Error ''tokenDetails'')
           | Some response \<Rightarrow>
               Inr \<lparr>ti_decimals = weiDecimals response, ti_symbol = td_name response,
                    ti_name = td_name response, ti_tokenId = tid\<rparr>))"
  by (simp add: fetchHyperliquidTokenInfo_def emit_def Let_def createInfoClient_def
        assertHyperliquidNetwork_def split: sum.splits option.splits)

lemma token_id_compound:
  "CHR '':'' \<notin> set smb \<Longrightarrow> CHR '':'' \<notin> set hex
     \<Longrightarrow> asset_token_id (smb @ CHR '':'' # hex) = hex"
  by (simp add: asset_token_id_def split_at_sep split_no_sep)

lemma token_id_bare:
  "CHR '':'' \<notin> set a \<Longrightarrow> asset_token_id a = (if prefix ''0x'' a then a else [])"
  by (simp add: asset_token_id_def split_no_sep)

text \<open>
  \<^bold>\<open>C4\<close>, as the code has it. If \<^verbatim>\<open>requirements.extra.decimals\<close> is a number it is used and
  nothing is looked up. Otherwise a token id is taken from the asset string: the part
  after the colon when the asset splits on \<^verbatim>\<open>:\<close> into exactly two parts, so that a compound
  \<^verbatim>\<open>SYMBOL:0xHEX\<close> id gives \<^verbatim>\<open>0xHEX\<close>, else the first part when it starts with \<^verbatim>\<open>0x\<close>, so
  that an asset without a colon gives itself when it starts with \<^verbatim>\<open>0x\<close> and nothing
  otherwise. If that token id is empty the decimals are left undefined and nothing is
  looked up; if not, exactly one token-info lookup is made, for that token id, and on a
  Hyperliquid network its decimals are used: those of the cached entry, else those that
  the token-details request answers, and undefined when the request fails.
\<close>

theorem resolveDecimals_token_lookup:
  "(extra r = Some e \<and> get_prop ''decimals'' (JObject e) = JNumber n
      \<longrightarrow> resolveDecimals en w r = (Some n, w))
   \<and> ((extra r = None
        \<or> (extra r = Some e \<and> (\<forall>k. get_prop ''decimals'' (JObject e) \<noteq> JNumber k))) \<longrightarrow>
        (asset_token_id (asset r) = [] \<longrightarrow> resolveDecimals en w r = (None, w))
      \<and> (asset_token_id (asset r) \<noteq> [] \<longrightarrow>
           token_info_lookups (effects (snd (resolveDecimals en w r)))
             = token_info_lookups (effects w) @ [(pr_network r, asset_token_id (asset r))]
         \<and> (pr_network r \<in> set SupportedHLNetworks \<longrightarrow>
              fst (resolveDecimals en w r)
                = (case tokenInfoCache w
                          (pr_network r @ '':'' @ toLowerCase (asset_token_id (asset r))) of
                     Some cached \<Rightarrow> Some (ti_decimals cached)
                   | None \<Rightarrow>
                       map_option weiDecimals
                         (tokenDetails en (pr_network r = ''hyperliquid-testnet'')
                            (asset_token_id (asset r)))))))
   \<and> (CHR '':'' \<notin> set smb \<and> CHR '':'' \<notin> set hex
        \<longrightarrow> asset_token_id (smb @ CHR '':'' # hex) = hex)
   \<and> (CHR '':'' \<notin> set b \<longrightarrow> asset_token_id b = (if prefix ''0x'' b then b else []))"
proof -
  have A: "extra r = Some e \<and> get_prop ''decimals'' (JObject e) = JNumber n
      \<longrightarrow> resolveDecimals en w r = (Some n, w)"
    by (simp add: resolveDecimals_provided)
  have B: "(extra r = None
        \<or> (extra r = Some e \<and> (\<forall>k. get_prop ''decimals'' (JObject e) \<noteq> JNumber k))) \<longrightarrow>
        (asset_token_id (asset r) = [] \<longrightarrow> resolveDecimals en w r = (None, w))
      \<and> (asset_token_id (asset r) \<noteq> [] \<longrightarrow>
           token_info_lookups (effects (snd (resolveDecimals en w r)))
             = token_info_lookups (effects w) @ [(pr_network r, asset_token_id (asset r))]
         \<and> (pr_network r \<in> set SupportedHLNetworks \<longrightarrow>
              fst (resolveDecimals en w r)
                = (case tokenInfoCache w
                          (pr_network r @ '':'' @ toLowerCase (asset_token_id (asset r))) of
                     Some cached \<Rightarrow> Some (ti_decimals cached)
                   | None \<Rightarrow>
                       map_option weiDecimals
                         (tokenDetails en (pr_network r = ''hyperliquid-testnet'')
                            (asset_token_id (asset r))))))"
  proof (intro impI)
    assume np: "extra r = None
        \<or> (extra r = Some e \<and> (\<forall>k. get_prop ''decimals'' (JObject e) \<noteq> JNumber k))"
    let ?tid = "asset_token_id (asset r)"
    let ?f = "fetchHyperliquidTokenInfo en w (pr_network r) ?tid"
    note rd = resolveDecimals_not_provided [OF np, of en w]
    have e: "?tid \<noteq> [] \<Longrightarrow> snd (resolveDecimals en w r) = snd ?f"
      by (simp add: rd split: prod.splits sum.splits)
    have v: "?tid \<noteq> [] \<Longrightarrow> fst (resolveDecimals en w r)
               = (case fst ?f of Inl x \<Rightarrow> None | Inr info \<Rightarrow> Some (ti_decimals info))"
      by (simp add: rd split: prod.splits sum.splits)
    show "(?tid = [] \<longrightarrow> resolveDecimals en w r = (None, w))
      \<and> (?tid \<noteq> [] \<longrightarrow>
           token_info_lookups (effects (snd (resolveDecimals en w r)))
             = token_info_lookups (effects w) @ [(pr_network r, ?tid)]
         \<and> (pr_network r \<in> set SupportedHLNetworks \<longrightarrow>
              fst (resolveDecimals en w r)
                = (case tokenInfoCache w (pr_network r @ '':'' @ toLowerCase ?tid) of
                     Some cached \<Rightarrow> Some (ti_decimals cached)
                   | None \<Rightarrow>
                       map_option weiDecimals
                         (tokenDetails en (pr_network r = ''hyperliquid-testnet'') ?tid))))"
    proof (intro conjI impI)
      assume "?tid = []"
      then show "resolveDecimals en w r = (None, w)" by (simp add: rd)
    next
      assume "?tid \<noteq> []"
      then show "token_info_lookups (effects (snd (resolveDecimals en w r)))
             = token_info_lookups (effects w) @ [(pr_network r, ?tid)]"
        by (simp add: e fetch_lookups)
    next
      assume "?tid \<noteq> []" "pr_network r \<in> set SupportedHLNetworks"
      then show "fst (resolveDecimals en w r)
                = (case tokenInfoCache w (pr_network r @ '':'' @ toLowerCase ?tid) of
                     Some cached \<Rightarrow> Some (ti_decimals cached)
                   | None \<Rightarrow>
                       map_option weiDecimals
                         (tokenDetails en (pr_network r = ''hyperliquid-testnet'') ?tid))"
        by (simp add: v fetch_result split: option.splits)
    qed
  qed
  have C: "CHR '':'' \<notin> set smb \<and> CHR '':'' \<notin> set hex
        \<longrightarrow> asset_token_id (smb @ CHR '':'' # hex) = hex"
    by (simp add: token_id_compound)
  have D: "CHR '':'' \<notin> set b \<longrightarrow> asset_token_id b = (if prefix ''0x'' b then b else [])"
    by (simp add: token_id_bare)
  show ?thesis by (intro conjI A B C D)
qed

text \<open>The witness: the requirements of the tests, which provide the decimals; the same
  without them, whose compound asset is looked up under its hex part; a bare hex asset;
  and an asset that is neither, for which nothing is looked up.\<close>

theorem resolveDecimals_token_lookup_witness:
  "resolveDecimals sample_env empty_world sample_requirements = (Some (Fin 6), empty_world)
   \<and> asset_token_id ''USDC:0xeb62eee3685fc4c43992febcd9e75443''
       = ''0xeb62eee3685fc4c43992febcd9e75443''
   \<and> token_info_lookups (effects (snd
        (resolveDecimals sample_env empty_world (sample_requirements\<lparr>extra := None\<rparr>))))
       = [(''hyperliquid'', ''0xeb62eee3685fc4c43992febcd9e75443'')]
   \<and> fst (resolveDecimals sample_env empty_world (sample_requirements\<lparr>extra := None\<rparr>))
       = Some (Fin 6)
   \<and> asset_token_id ''0xc4bf3f870c0e9465323c0b6ed28096c2'' = ''0xc4bf3f870c0e9465323c0b6ed28096c2''
   \<and> resolveDecimals sample_env empty_world
        (sample_requirements\<lparr>extra := None, asset := ''BTC''\<rparr>) = (None, empty_world)"
proof -
  let ?hex = "''0xeb62eee3685fc4c43992febcd9e75443''"
  let ?bare = "''0xc4bf3f870c0e9465323c0b6ed28096c2''"
  have n1: "CHR '':'' \<notin> set ''USDC''" "CHR '':'' \<notin> set ?hex" "CHR '':'' \<notin> set ?bare"
    "CHR '':'' \<notin> set ''BTC''"
    by simp_all
  have p1: "prefix ''0x'' ?bare" "\<not> prefix ''0x'' ''BTC''" by simp_all
  have i1: "resolveDecimals sample_env empty_world sample_requirements
              = (Some (Fin 6), empty_world)"
    using resolveDecimals_token_lookup
        [of sample_requirements "[(''decimals'', JNumber (Fin 6))]" "Fin 6" sample_env empty_world]
    by (simp add: sample_requirements_def)
  have i2: "asset_token_id ''USDC:0xeb62eee3685fc4c43992febcd9e75443'' = ?hex"
    using resolveDecimals_token_lookup [of _ _ _ _ _ "''USDC''" ?hex] n1 by simp
  have i5: "asset_token_id ?bare = ?bare"
    using resolveDecimals_token_lookup [of _ _ _ _ _ _ _ ?bare] n1 p1 by simp
  have t6: "asset_token_id ''BTC'' = []"
    using resolveDecimals_token_lookup [of _ _ _ _ _ _ _ "''BTC''"] n1 p1 by simp
  have i34: "token_info_lookups (effects (snd
               (resolveDecimals sample_env empty_world (sample_requirements\<lparr>extra := None\<rparr>))))
              = [(''hyperliquid'', ?hex)]
             \<and> fst (resolveDecimals sample_env empty_world (sample_requirements\<lparr>extra := None\<rparr>))
              = Some (Fin 6)"
    using resolveDecimals_token_lookup
        [of "sample_requirements\<lparr>extra := None\<rparr>" _ _ sample_env empty_world] i2
    by (simp add: sample_requirements_def sample_env_def empty_world_def
          token_info_lookups_def SupportedHLNetworks_def)
  have i6: "resolveDecimals sample_env empty_world
              (sample_requirements\<lparr>extra := None, asset := ''BTC''\<rparr>) = (None, empty_world)"
    using resolveDecimals_token_lookup
        [of "sample_requirements\<lparr>extra := None, asset := ''BTC''\<rparr>" _ _ sample_env empty_world]
      t6
    by (simp add: sample_requirements_def)
  show ?thesis by (intro conjI i1 i2 i34 [THEN conjunct1] i34 [THEN conjunct2] i5 i6)
qed

text \<open>
  \<^bold>\<open>C4\<close>, as the specification words it, fails: it leaves the decimals undefined, with no
  lookup, for every asset string that is not a bare hex token id, compound ids included.
  For the compound asset of the tests, and requirements without \<^verbatim>\<open>extra\<close>, the code looks
  the hex part up and uses the decimals it is answered.
\<close>

theorem compound_asset_is_looked_up:
  "extra (sample_requirements\<lparr>extra := None\<rparr>) = None
   \<and> asset (sample_requirements\<lparr>extra := None\<rparr>) = ''USDC:0xeb62eee3685fc4c43992febcd9e75443''
   \<and> fst (resolveDecimals sample_env empty_world (sample_requirements\<lparr>extra := None\<rparr>))
       = Some (Fin 6)
   \<and> token_info_lookups (effects (snd
        (resolveDecimals sample_env empty_world (sample_requirements\<lparr>extra := None\<rparr>))))
       = [(''hyperliquid'', ''0xeb62eee3685fc4c43992febcd9e75443'')]"
proof -
  have a: "extra (sample_requirements\<lparr>extra := None\<rparr>) = None"
    "asset (sample_requirements\<lparr>extra := None\<rparr>) = ''USDC:0xeb62eee3685fc4c43992febcd9e75443''"
    by (simp_all add: sample_requirements_def)
  have b: "fst (resolveDecimals sample_env empty_world (sample_requirements\<lparr>extra := None\<rparr>))
             = Some (Fin 6)"
    by code_simp
  have c: "token_info_lookups (effects (snd
             (resolveDecimals sample_env empty_world (sample_requirements\<lparr>extra := None\<rparr>))))
           = [(''hyperliquid'', ''0xeb62eee3685fc4c43992febcd9e75443'')]"
    by code_simp
  show ?thesis by (intro conjI a b c)
qed

section \<open>Properties of settle\<close>

subsection \<open>The course of settle\<close>

lemma guard_network: "network_guard p r \<Longrightarrow> pr_network r \<in> set SupportedHLNetworks"
  by (simp add: network_guard_def)

lemma guard_endpoint:
  "network_guard p r \<Longrightarrow> getExchangeBaseUrl (pr_network r) = Inr (exchange_url r)"
  by (simp add: network_guard_def getExchangeBaseUrl_def assertHyperliquidNetwork_def
        exchange_url_def)

lemma guard_client:
  "network_guard p r \<Longrightarrow> createInfoClient (pr_network r) = Inr (is_testnet r)"
  by (simp add: network_guard_def createInfoClient_def assertHyperliquidNetwork_def
        is_testnet_def)

lemma truthy_not_nullish: "truthy v \<Longrightarrow> \<not> nullish v"
  by (cases v) auto

lemma shape_payer:
  "settle_shape p \<Longrightarrow> extractPayer_settle (pp_payload p) = Inr (payer_of p)"
  by (auto simp: settle_shape_def payer_of_def extractPayer_settle_def Let_def
           truthy_not_nullish split: json.splits simp del: get_prop.simps)

lemma failure_known:
  "failureResponse reason r p tx (Some u) = Inr (failed reason r tx (Some u))"
  by (simp add: failureResponse_def failed_def extractFallbackTransaction_def Let_def
        split: option.splits)

lemma failure_payer:
  "extractPayer_settle (pp_payload p) = Inr (payer_of p)
     \<Longrightarrow> failureResponse reason r p tx (payer_of p) = Inr (failed reason r tx (payer_of p))"
  by (cases "payer_of p")
     (simp_all add: failureResponse_def failed_def extractFallbackTransaction_def Let_def
        split: option.splits)

lemma failure_none:
  "extractPayer_settle (pp_payload p) = Inr (payer_of p)
     \<Longrightarrow> failureResponse reason r p tx None = Inr (failed reason r tx (payer_of p))"
  by (simp add: failureResponse_def failed_def extractFallbackTransaction_def Let_def
        split: option.splits)

lemma settle_guard_fails:
  "\<not> network_guard p r \<Longrightarrow>
   settle en p r = (failureResponse invalid_exact_hl_network r p None None, [])"
  by (auto simp: settle_def network_guard_def)

lemma settle_shape_fails:
  "network_guard p r \<Longrightarrow> \<not> settle_shape p \<Longrightarrow>
   settle en p r = (failureResponse invalid_exact_hl_payload r p None None, [])"
  by (auto simp: settle_def network_guard_def settle_shape_def Let_def)

lemma settle_runs_try:
  assumes "network_guard p r" "settle_shape p"
  shows "settle en p r =
     (case settle_try en (exchange_url r) (is_testnet r) (payer_of p) p r of
        (Inl e, tr) \<Rightarrow> (Inr (failed hl_exchange_error r None (payer_of p)), tr)
      | (Inr response, tr) \<Rightarrow> (Inr response, tr))"
proof -
  from assms(1) have g: "pp_scheme p = SCHEME" "pr_scheme r = SCHEME"
      "pp_network p = pr_network r" "pr_network r \<in> set SupportedHLNetworks"
    by (auto simp: network_guard_def)
  from assms(2) have s: "truthy (get_prop ''action'' (JObject (pp_payload p)))"
      "typeof_object (get_prop ''action'' (JObject (pp_payload p)))"
    by (auto simp: settle_shape_def Let_def)
  show ?thesis
    unfolding settle_def
    by (simp add: g s Let_def shape_payer [OF assms(2)] guard_endpoint [OF assms(1)]
          guard_client [OF assms(1)] failure_none [OF shape_payer [OF assms(2)]]
          del: get_prop.simps split: prod.splits sum.splits)
qed

lemma submit_failed:
  "submission_failed (submission en p r) \<Longrightarrow>
   \<exists>e. submitExchange en (exchange_url r) (pp_payload p) = (Inl e, [post_effect p r])"
  by (auto simp: submission_failed_def submission_def submitExchange_def post_effect_def Let_def
           split: fetch_result.splits option.splits simp del: get_prop.simps)

lemma submit_acked:
  "submission en p r = FetchResponse True (Some ack) \<Longrightarrow> hs_status ack = Some ''ok'' \<Longrightarrow>
   submitExchange en (exchange_url r) (pp_payload p) = (Inr ack, [post_effect p r])"
  by (simp add: submission_def submitExchange_def post_effect_def Let_def del: get_prop.simps)

lemma settle_try_failed:
  "submission_failed (submission en p r) \<Longrightarrow>
   \<exists>e. settle_try en (exchange_url r) c payer p r = (Inl e, [post_effect p r])"
  using submit_failed [of en p r] by (auto simp: settle_try_def)

lemma find_Some_holds: "List.find P xs = Some x \<Longrightarrow> P x"
  by (induction xs) (auto split: if_splits)

lemma find_hex:
  "fst (findMatchingTransactionHash en c u pl r) = Some h \<Longrightarrow> isHexHash h"
  by (auto simp: findMatchingTransactionHash_def Let_def
           split: option.splits sum.splits json.splits dest!: find_Some_holds)

lemma find_effects:
  "snd (findMatchingTransactionHash en c u pl r) = [UserDetailsRequest c u]"
  by (auto simp: findMatchingTransactionHash_def Let_def
           split: option.splits sum.splits json.splits)

lemma hex_nonempty: "isHexHash h \<Longrightarrow> h \<noteq> []"
  by (auto simp: isHexHash_def)

lemma settle_try_acked:
  assumes sub: "submission en p r = FetchResponse True (Some ack)" "hs_status ack = Some ''ok''"
    and pay: "extractPayer_settle (pp_payload p) = Inr (payer_of p)"
  shows "settle_try en (exchange_url r) (is_testnet r) (payer_of p) p r =
     (if payer_known p \<and> matched_hash en p r = None
      then (Inr (failed hl_tx_not_found r (extractExchangeTxHash ack) (payer_of p)),
            post_effect p r # history_effects p r)
      else
        (case resolved_hash en p r ack of
           None \<Rightarrow> (Inr (failed hl_tx_not_found r (extractExchangeTxHash ack) (payer_of p)),
                    post_effect p r # history_effects p r)
         | Some h \<Rightarrow>
             if \<not> isHexHash h
             then (Inr (failed hl_tx_not_found r (extractExchangeTxHash ack) (payer_of p)),
                   post_effect p r # history_effects p r)
             else (Inr (outcome r h (payer_of p) (fst (confirmTransaction en (is_testnet r) h))),
                   post_effect p r # history_effects p r
                     @ snd (confirmTransaction en (is_testnet r) h))))"
proof -
  note fr = failure_payer [OF pay] failure_none [OF pay] failure_known settled_def
  note sa = submit_acked [OF sub]
  show ?thesis
  proof (cases "payer_known p")
    case False
    then have m: "matched_hash en p r = None" and h: "history_effects p r = []"
      by (auto simp: payer_known_def matched_hash_def history_effects_def split: option.splits)
    show ?thesis
      using False
      by (auto simp: settle_try_def sa Let_def m h resolved_hash_def fr outcome_def
            payer_known_def hex_nonempty
            split: option.splits prod.splits ConfirmationResult.splits)
  next
    case True
    then obtain u where u: "payer_of p = Some u" "u \<noteq> []"
      by (auto simp: payer_known_def split: option.splits)
    obtain mh where fm: "findMatchingTransactionHash en (is_testnet r) u (pp_payload p) r
                           = (mh, [UserDetailsRequest (is_testnet r) u])"
      using find_effects [of en "is_testnet r" u "pp_payload p" r]
      by (cases "findMatchingTransactionHash en (is_testnet r) u (pp_payload p) r") auto
    have m: "matched_hash en p r = mh" and h: "history_effects p r = [UserDetailsRequest (is_testnet r) u]"
      using u fm by (auto simp: matched_hash_def history_effects_def)
    have hx: "mh = Some x \<Longrightarrow> isHexHash x" for x
      using find_hex [of en "is_testnet r" u "pp_payload p" r x] fm by simp
    show ?thesis
    proof (cases mh)
      case None
      then show ?thesis
        using True u fr
        by (simp add: settle_try_def sa Let_def m h fm)
    next
      case (Some x)
      then have "isHexHash x" using hx by simp
      then show ?thesis
        using True u fr Some
        by (auto simp: settle_try_def sa Let_def m h fm resolved_hash_def outcome_def
              hex_nonempty split: prod.splits ConfirmationResult.splits)
    qed
  qed
qed

lemma settle_failed_submission:
  assumes "network_guard p r" "settle_shape p" "submission_failed (submission en p r)"
  shows "settle en p r = (Inr (failed hl_exchange_error r None (payer_of p)), [post_effect p r])"
  using settle_try_failed [OF assms(3), of "is_testnet r" "payer_of p"]
  by (auto simp: settle_runs_try [OF assms(1,2)])

lemma settle_acked:
  assumes "network_guard p r" "settle_shape p"
    and "submission en p r = FetchResponse True (Some ack)" "hs_status ack = Some ''ok''"
  shows "settle en p r =
     (if payer_known p \<and> matched_hash en p r = None
      then (Inr (failed hl_tx_not_found r (extractExchangeTxHash ack) (payer_of p)),
            post_effect p r # history_effects p r)
      else
        (case resolved_hash en p r ack of
           None \<Rightarrow> (Inr (failed hl_tx_not_found r (extractExchangeTxHash ack) (payer_of p)),
                    post_effect p r # history_effects p r)
         | Some h \<Rightarrow>
             if \<not> isHexHash h
             then (Inr (failed hl_tx_not_found r (extractExchangeTxHash ack) (payer_of p)),
                   post_effect p r # history_effects p r)
             else (Inr (outcome r h (payer_of p) (fst (confirmTransaction en (is_testnet r) h))),
                   post_effect p r # history_effects p r
                     @ snd (confirmTransaction en (is_testnet r) h))))"
  by (simp add: settle_runs_try [OF assms(1,2)]
        settle_try_acked [OF assms(3,4) shape_payer [OF assms(2)]] split: option.splits)

subsection \<open>The confirmation poll\<close>


lemma tx_lookups_append [simp]: "tx_lookups (xs @ ys) = tx_lookups xs @ tx_lookups ys"
  by (simp add: tx_lookups_def)

lemma delays_append [simp]: "delays (xs @ ys) = delays xs @ delays ys"
  by (simp add: delays_def)

lemma tx_lookups_simps [simp]:
  "tx_lookups [] = []"
  "tx_lookups (TxDetailsRequest c h # es) = h # tx_lookups es"
  "tx_lookups (Delay ms # es) = tx_lookups es"
  "tx_lookups (UserDetailsRequest c u # es) = tx_lookups es"
  "tx_lookups (ExchangePost url a s n # es) = tx_lookups es"
  by (simp_all add: tx_lookups_def)

lemma delays_simps [simp]:
  "delays [] = []"
  "delays (TxDetailsRequest c h # es) = delays es"
  "delays (Delay ms # es) = ms # delays es"
  "delays (UserDetailsRequest c u # es) = delays es"
  "delays (ExchangePost url a s n # es) = delays es"
  by (simp_all add: delays_def)

lemma history_no_lookups [simp]:
  "tx_lookups (history_effects p r) = []" "delays (history_effects p r) = []"
  by (auto simp: history_effects_def split: option.splits)

lemma post_no_lookups [simp]:
  "tx_lookups (post_effect p r # es) = tx_lookups es" "delays (post_effect p r # es) = delays es"
  by (simp_all add: post_effect_def)

text \<open>One round of the poll that ends in an error other than "not found".\<close>

lemma confirm_step_other:
  "attempt < CONFIRMATION_RETRIES \<Longrightarrow> lookup_other_error en c h attempt \<Longrightarrow>
   confirmTransaction_from en c h attempt =
     (fst (confirmTransaction_from en c h (Suc attempt)),
      TxDetailsRequest c h # Delay CONFIRMATION_DELAY_MS
        # snd (confirmTransaction_from en c h (Suc attempt)))"
  by (subst confirmTransaction_from.simps)
     (auto simp: lookup_other_error_def split: option.splits prod.splits)

lemma confirm_step_not_found:
  "attempt < CONFIRMATION_RETRIES \<Longrightarrow> lookup_not_found en c h attempt \<Longrightarrow>
   confirmTransaction_from en c h attempt = (conf_not_found, [TxDetailsRequest c h])"
  by (subst confirmTransaction_from.simps)
     (auto simp: lookup_not_found_def split: option.splits)

lemma confirm_step_resolved:
  "attempt < CONFIRMATION_RETRIES \<Longrightarrow> txDetails en c h attempt = None \<Longrightarrow>
   confirmTransaction_from en c h attempt = (conf_confirmed, [TxDetailsRequest c h])"
  by (subst confirmTransaction_from.simps) simp

lemma confirm_exhausted:
  "\<not> attempt < CONFIRMATION_RETRIES \<Longrightarrow> confirmTransaction_from en c h attempt = (conf_timeout, [])"
  by (subst confirmTransaction_from.simps) simp

lemma confirm_skip:
  "k + i \<le> CONFIRMATION_RETRIES \<Longrightarrow> (\<forall>j<i. lookup_other_error en c h (k + j)) \<Longrightarrow>
   confirmTransaction_from en c h k =
     (fst (confirmTransaction_from en c h (k + i)),
      concat (replicate i [TxDetailsRequest c h, Delay CONFIRMATION_DELAY_MS])
        @ snd (confirmTransaction_from en c h (k + i)))"
proof (induction i arbitrary: k)
  case 0
  then show ?case by simp
next
  case (Suc i)
  have first: "lookup_other_error en c h k" using Suc.prems(2) [rule_format, of 0] by simp
  have lt: "k < CONFIRMATION_RETRIES" using Suc.prems(1) by simp
  have rest: "\<forall>j<i. lookup_other_error en c h (Suc k + j)"
    using Suc.prems(2) by (auto dest: spec [of _ "Suc _"])
  have ih: "confirmTransaction_from en c h (Suc k) =
     (fst (confirmTransaction_from en c h (Suc k + i)),
      concat (replicate i [TxDetailsRequest c h, Delay CONFIRMATION_DELAY_MS])
        @ snd (confirmTransaction_from en c h (Suc k + i)))"
    using Suc.IH [of "Suc k"] Suc.prems(1) rest by simp
  show ?case
    by (subst confirm_step_other [OF lt first]) (simp add: ih)
qed

lemma confirm_not_found:
  assumes "i < CONFIRMATION_RETRIES" "\<forall>j<i. lookup_other_error en c h j" "lookup_not_found en c h i"
  shows "confirmTransaction en c h =
     (conf_not_found,
      concat (replicate i [TxDetailsRequest c h, Delay CONFIRMATION_DELAY_MS])
        @ [TxDetailsRequest c h])"
  using confirm_skip [of 0 i en c h] assms
  by (simp add: confirmTransaction_def confirm_step_not_found)

lemma confirm_timeout:
  assumes "\<forall>j<CONFIRMATION_RETRIES. lookup_other_error en c h j"
  shows "confirmTransaction en c h =
     (conf_timeout, concat (replicate CONFIRMATION_RETRIES
                              [TxDetailsRequest c h, Delay CONFIRMATION_DELAY_MS]))"
  using confirm_skip [of 0 CONFIRMATION_RETRIES en c h] assms
  by (simp add: confirmTransaction_def confirm_exhausted)

lemma confirm_confirmed:
  assumes "i < CONFIRMATION_RETRIES" "\<forall>j<i. lookup_other_error en c h j" "txDetails en c h i = None"
  shows "confirmTransaction en c h =
     (conf_confirmed,
      concat (replicate i [TxDetailsRequest c h, Delay CONFIRMATION_DELAY_MS])
        @ [TxDetailsRequest c h])"
  using confirm_skip [of 0 i en c h] assms
  by (simp add: confirmTransaction_def confirm_step_resolved)

lemma rounds_lookups [simp]:
  "tx_lookups (concat (replicate i [TxDetailsRequest c h, Delay ms])) = replicate i h"
  "delays (concat (replicate i [TxDetailsRequest c h, Delay ms])) = replicate i ms"
  by (induction i) simp_all

lemma confirm_from_lookups:
  "set (tx_lookups (snd (confirmTransaction_from en c h attempt))) \<subseteq> {h}"
proof (induction en c h attempt rule: confirmTransaction_from.induct)
  case (1 en infoClient hash attempt)
  show ?case
    by (subst confirmTransaction_from.simps)
       (use 1 in \<open>auto split: option.splits prod.splits\<close>)
qed

lemma not_failed_submission:
  "\<not> submission_failed f \<Longrightarrow> \<exists>ack. f = FetchResponse True (Some ack) \<and> hs_status ack = Some ''ok''"
  by (auto simp: submission_failed_def split: fetch_result.splits option.splits)

lemma outcome_success: "success (outcome r h payer c) \<longleftrightarrow> c = conf_confirmed"
  by (cases c) (simp_all add: outcome_def failed_def settled_def)

lemma outcome_transaction: "transaction (outcome r h payer c) = h"
  by (cases c) (simp_all add: outcome_def failed_def settled_def)

lemma confirm_lookups:
  "x \<in> set (tx_lookups (snd (confirmTransaction en c h))) \<Longrightarrow> x = h"
  using confirm_from_lookups [of en c h 0] by (auto simp: confirmTransaction_def)

text \<open>
  \<^bold>\<open>C8.\<close> The poll makes at most three attempts, 250 ms apart. When the detail lookup of an
  attempt fails with an error whose text contains "not found", all lookups before it
  having failed otherwise, the poll ends at once with \<^verbatim>\<open>not_found\<close>: it has looked up once
  per attempt so far and waited once per earlier attempt, and no further attempt is
  made. Every other error costs one attempt and one delay, and three of them end the poll
  with \<^verbatim>\<open>timeout\<close>. In \<^verbatim>\<open>settle\<close>, for an acknowledged submission whose resolved
  transaction id is a hash, the first gives \<^verbatim>\<open>hl_tx_not_found\<close> and the second
  \<^verbatim>\<open>hl_tx_unconfirmed\<close>, with exactly these lookups and delays.
\<close>

theorem confirmation_poll:
  "CONFIRMATION_RETRIES = 3 \<and> CONFIRMATION_DELAY_MS = 250
   \<and> (i < CONFIRMATION_RETRIES \<and> (\<forall>j<i. lookup_other_error en c h j)
       \<and> lookup_not_found en c h i \<longrightarrow>
        confirmTransaction en c h
          = (conf_not_found,
             concat (replicate i [TxDetailsRequest c h, Delay CONFIRMATION_DELAY_MS])
               @ [TxDetailsRequest c h]))
   \<and> ((\<forall>j<CONFIRMATION_RETRIES. lookup_other_error en c h j) \<longrightarrow>
        confirmTransaction en c h
          = (conf_timeout,
             concat (replicate CONFIRMATION_RETRIES
                       [TxDetailsRequest c h, Delay CONFIRMATION_DELAY_MS])))
   \<and> (network_guard p r \<and> settle_shape p
       \<and> submission en p r = FetchResponse True (Some ack) \<and> hs_status ack = Some ''ok''
       \<and> (payer_known p \<longrightarrow> matched_hash en p r \<noteq> None)
       \<and> resolved_hash en p r ack = Some h \<and> isHexHash h \<and> c = is_testnet r \<longrightarrow>
        (i < CONFIRMATION_RETRIES \<and> (\<forall>j<i. lookup_other_error en c h j)
         \<and> lookup_not_found en c h i \<longrightarrow>
           fst (settle en p r) = Inr (failed hl_tx_not_found r (Some h) (payer_of p))
           \<and> tx_lookups (snd (settle en p r)) = replicate (Suc i) h
           \<and> delays (snd (settle en p r)) = replicate i CONFIRMATION_DELAY_MS)
      \<and> ((\<forall>j<CONFIRMATION_RETRIES. lookup_other_error en c h j) \<longrightarrow>
           fst (settle en p r) = Inr (failed hl_tx_unconfirmed r (Some h) (payer_of p))
           \<and> tx_lookups (snd (settle en p r)) = replicate CONFIRMATION_RETRIES h
           \<and> delays (snd (settle en p r))
               = replicate CONFIRMATION_RETRIES CONFIRMATION_DELAY_MS))"
proof -
  have A: "CONFIRMATION_RETRIES = 3" by (simp add: CONFIRMATION_RETRIES_def)
  have B: "CONFIRMATION_DELAY_MS = 250" by (simp add: CONFIRMATION_DELAY_MS_def)
  have C: "i < CONFIRMATION_RETRIES \<and> (\<forall>j<i. lookup_other_error en c h j)
       \<and> lookup_not_found en c h i \<longrightarrow>
        confirmTransaction en c h
          = (conf_not_found,
             concat (replicate i [TxDetailsRequest c h, Delay CONFIRMATION_DELAY_MS])
               @ [TxDetailsRequest c h])"
    using confirm_not_found [of i en c h] by blast
  have D: "(\<forall>j<CONFIRMATION_RETRIES. lookup_other_error en c h j) \<longrightarrow>
        confirmTransaction en c h
          = (conf_timeout,
             concat (replicate CONFIRMATION_RETRIES
                       [TxDetailsRequest c h, Delay CONFIRMATION_DELAY_MS]))"
    using confirm_timeout [of en c h] by blast
  have E: "network_guard p r \<and> settle_shape p
       \<and> submission en p r = FetchResponse True (Some ack) \<and> hs_status ack = Some ''ok''
       \<and> (payer_known p \<longrightarrow> matched_hash en p r \<noteq> None)
       \<and> resolved_hash en p r ack = Some h \<and> isHexHash h \<and> c = is_testnet r \<longrightarrow>
        (i < CONFIRMATION_RETRIES \<and> (\<forall>j<i. lookup_other_error en c h j)
         \<and> lookup_not_found en c h i \<longrightarrow>
           fst (settle en p r) = Inr (failed hl_tx_not_found r (Some h) (payer_of p))
           \<and> tx_lookups (snd (settle en p r)) = replicate (Suc i) h
           \<and> delays (snd (settle en p r)) = replicate i CONFIRMATION_DELAY_MS)
      \<and> ((\<forall>j<CONFIRMATION_RETRIES. lookup_other_error en c h j) \<longrightarrow>
           fst (settle en p r) = Inr (failed hl_tx_unconfirmed r (Some h) (payer_of p))
           \<and> tx_lookups (snd (settle en p r)) = replicate CONFIRMATION_RETRIES h
           \<and> delays (snd (settle en p r))
               = replicate CONFIRMATION_RETRIES CONFIRMATION_DELAY_MS)"
  proof (intro impI, elim conjE)
    assume g: "network_guard p r" "settle_shape p"
      and s: "submission en p r = FetchResponse True (Some ack)" "hs_status ack = Some ''ok''"
      and m: "payer_known p \<longrightarrow> matched_hash en p r \<noteq> None"
      and rh: "resolved_hash en p r ack = Some h" "isHexHash h"
      and c: "c = is_testnet r"
    have run: "settle en p r =
        (Inr (outcome r h (payer_of p) (fst (confirmTransaction en c h))),
         post_effect p r # history_effects p r @ snd (confirmTransaction en c h))"
      using m rh c by (auto simp: settle_acked [OF g s])
    show "(i < CONFIRMATION_RETRIES \<and> (\<forall>j<i. lookup_other_error en c h j)
         \<and> lookup_not_found en c h i \<longrightarrow>
           fst (settle en p r) = Inr (failed hl_tx_not_found r (Some h) (payer_of p))
           \<and> tx_lookups (snd (settle en p r)) = replicate (Suc i) h
           \<and> delays (snd (settle en p r)) = replicate i CONFIRMATION_DELAY_MS)
      \<and> ((\<forall>j<CONFIRMATION_RETRIES. lookup_other_error en c h j) \<longrightarrow>
           fst (settle en p r) = Inr (failed hl_tx_unconfirmed r (Some h) (payer_of p))
           \<and> tx_lookups (snd (settle en p r)) = replicate CONFIRMATION_RETRIES h
           \<and> delays (snd (settle en p r))
               = replicate CONFIRMATION_RETRIES CONFIRMATION_DELAY_MS)"
    proof (intro conjI impI)
      assume "i < CONFIRMATION_RETRIES \<and> (\<forall>j<i. lookup_other_error en c h j)
                \<and> lookup_not_found en c h i"
      then have cf: "confirmTransaction en c h
          = (conf_not_found,
             concat (replicate i [TxDetailsRequest c h, Delay CONFIRMATION_DELAY_MS])
               @ [TxDetailsRequest c h])"
        using C by blast
      show "fst (settle en p r) = Inr (failed hl_tx_not_found r (Some h) (payer_of p))"
        by (simp add: run cf outcome_def)
      show "tx_lookups (snd (settle en p r)) = replicate (Suc i) h"
        by (simp add: run cf replicate_append_same)
      show "delays (snd (settle en p r)) = replicate i CONFIRMATION_DELAY_MS"
        by (simp add: run cf)
    next
      assume "\<forall>j<CONFIRMATION_RETRIES. lookup_other_error en c h j"
      then have cf: "confirmTransaction en c h
          = (conf_timeout,
             concat (replicate CONFIRMATION_RETRIES
                       [TxDetailsRequest c h, Delay CONFIRMATION_DELAY_MS]))"
        using D by blast
      show "fst (settle en p r) = Inr (failed hl_tx_unconfirmed r (Some h) (payer_of p))"
        by (simp add: run cf outcome_def)
      show "tx_lookups (snd (settle en p r)) = replicate CONFIRMATION_RETRIES h"
        by (simp add: run cf)
      show "delays (snd (settle en p r)) = replicate CONFIRMATION_RETRIES CONFIRMATION_DELAY_MS"
        by (simp add: run cf)
    qed
  qed
  show ?thesis by (intro conjI A B C D E)
qed

text \<open>
  \<^bold>\<open>C9.\<close> For a payload whose action is a record, as the envelope's schema has it,
  \<^verbatim>\<open>settle\<close> returns a response and throws nothing, whatever the requirements and the
  network answer. When the submission fails (the request is rejected, the status is not
  a success, the body is no JSON, or the body's status is not \<^verbatim>\<open>"ok"\<close>, a 2xx status
  alone being no success), and when anything else is thrown inside the \<^verbatim>\<open>try\<close> block, the
  response carries \<^verbatim>\<open>hl_exchange_error\<close>, and the submission is not repeated.
\<close>

theorem settle_never_throws:
  "(get_prop ''action'' (JObject (pp_payload p)) = JObject a
      \<longrightarrow> (\<exists>response. fst (settle en p r) = Inr response))
   \<and> (network_guard p r \<and> settle_shape p \<and> submission_failed (submission en p r) \<longrightarrow>
        settle en p r
          = (Inr (failed hl_exchange_error r None (payer_of p)), [post_effect p r]))
   \<and> (network_guard p r \<and> settle_shape p
       \<and> fst (settle_try en (exchange_url r) (is_testnet r) (payer_of p) p r) = Inl x \<longrightarrow>
        fst (settle en p r) = Inr (failed hl_exchange_error r None (payer_of p)))
   \<and> submission_failed FetchRejects
   \<and> submission_failed (FetchResponse False body)
   \<and> submission_failed (FetchResponse True None)
   \<and> (hs_status b \<noteq> Some ''ok'' \<longrightarrow> submission_failed (FetchResponse True (Some b)))"
proof -
  have A: "get_prop ''action'' (JObject (pp_payload p)) = JObject a
      \<longrightarrow> (\<exists>response. fst (settle en p r) = Inr response)"
  proof
    assume act: "get_prop ''action'' (JObject (pp_payload p)) = JObject a"
    then have shape: "settle_shape p" by (simp add: settle_shape_def del: get_prop.simps)
    note fail = failure_none [OF shape_payer [OF shape]]
    show "\<exists>response. fst (settle en p r) = Inr response"
    proof (cases "network_guard p r")
      case False
      then show ?thesis by (simp add: settle_guard_fails fail)
    next
      case True
      then show ?thesis
        by (simp add: settle_runs_try [OF True shape] split: prod.splits sum.splits)
    qed
  qed
  have B: "network_guard p r \<and> settle_shape p \<and> submission_failed (submission en p r) \<longrightarrow>
        settle en p r
          = (Inr (failed hl_exchange_error r None (payer_of p)), [post_effect p r])"
    by (simp add: settle_failed_submission)
  have C: "network_guard p r \<and> settle_shape p
       \<and> fst (settle_try en (exchange_url r) (is_testnet r) (payer_of p) p r) = Inl x \<longrightarrow>
        fst (settle en p r) = Inr (failed hl_exchange_error r None (payer_of p))"
    by (auto simp: settle_runs_try split: prod.splits sum.splits)
  have D: "submission_failed FetchRejects" "submission_failed (FetchResponse False body)"
    "submission_failed (FetchResponse True None)"
    "hs_status b \<noteq> Some ''ok'' \<longrightarrow> submission_failed (FetchResponse True (Some b))"
    by (simp_all add: submission_failed_def)
  show ?thesis by (intro conjI A B C D)
qed

text \<open>
  \<^bold>\<open>C10.\<close> Whatever \<^verbatim>\<open>settle\<close> is given, a response that reports success carries a
  transaction id of the form \<^verbatim>\<open>0x\<close> and 64 hex digits, and every lookup of transaction
  details is for an id of that form. When the submission is acknowledged and the resolved
  id (the one matched in the history, else the one of the acknowledgment) is present and
  not of that form, \<^verbatim>\<open>settle\<close> answers \<^verbatim>\<open>hl_tx_not_found\<close> and looks nothing up.
\<close>

theorem settle_transaction_is_hex_hash:
  "(fst (settle en p r) = Inr response \<and> success response \<longrightarrow> isHexHash (transaction response))
   \<and> (x \<in> set (tx_lookups (snd (settle en p r))) \<longrightarrow> isHexHash x)
   \<and> (network_guard p r \<and> settle_shape p
       \<and> submission en p r = FetchResponse True (Some ack) \<and> hs_status ack = Some ''ok''
       \<and> resolved_hash en p r ack = Some h \<and> \<not> isHexHash h \<longrightarrow>
        fst (settle en p r)
          = Inr (failed hl_tx_not_found r (extractExchangeTxHash ack) (payer_of p))
        \<and> tx_lookups (snd (settle en p r)) = [])"
proof -
  have fr: "failureResponse reason r p None None = Inr response \<Longrightarrow> \<not> success response"
    for reason response
    by (auto simp: failureResponse_def Let_def split: sum.splits)
  have AB: "(fst (settle en p r) = Inr response \<and> success response
               \<longrightarrow> isHexHash (transaction response))
            \<and> (x \<in> set (tx_lookups (snd (settle en p r))) \<longrightarrow> isHexHash x)"
  proof (cases "network_guard p r \<and> settle_shape p")
    case False
    then have "settle en p r = (failureResponse invalid_exact_hl_network r p None None, [])
               \<or> settle en p r = (failureResponse invalid_exact_hl_payload r p None None, [])"
      using settle_guard_fails [of p r en] settle_shape_fails [of p r en] by blast
    then show ?thesis by (auto dest: fr)
  next
    case True
    then have g: "network_guard p r" "settle_shape p" by simp_all
    show ?thesis
    proof (cases "submission_failed (submission en p r)")
      case True
      then show ?thesis
        by (auto simp: settle_failed_submission [OF g] failed_def)
    next
      case False
      then obtain ack where s: "submission en p r = FetchResponse True (Some ack)"
          "hs_status ack = Some ''ok''"
        using not_failed_submission by blast
      show ?thesis
        by (auto simp: settle_acked [OF g s] failed_def outcome_success outcome_transaction
              split: option.splits if_splits dest: confirm_lookups)
    qed
  qed
  have C: "network_guard p r \<and> settle_shape p
       \<and> submission en p r = FetchResponse True (Some ack) \<and> hs_status ack = Some ''ok''
       \<and> resolved_hash en p r ack = Some h \<and> \<not> isHexHash h \<longrightarrow>
        fst (settle en p r)
          = Inr (failed hl_tx_not_found r (extractExchangeTxHash ack) (payer_of p))
        \<and> tx_lookups (snd (settle en p r)) = []"
    by (auto simp: settle_acked)
  show ?thesis by (intro conjI AB [THEN conjunct1] AB [THEN conjunct2] C)
qed

subsection \<open>Matching the history\<close>

lemma matches_no_throw:
  "\<not> nullish tx \<Longrightarrow> \<exists>b. transactionMatchesPayment en tx pl r = Inr b"
  by (simp add: transactionMatchesPayment_def Let_def)

lemma filter_matches_total:
  "\<forall>tx\<in>set txs. \<exists>b. transactionMatchesPayment en tx pl r = Inr b \<Longrightarrow>
   filter_matches en pl r txs
     = Inr (filter (\<lambda>tx. transactionMatchesPayment en tx pl r = Inr True) txs)"
  by (induction txs) auto

lemma find_map: "List.find P (map f xs) = map_option f (List.find (P \<circ> f) xs)"
  by (induction xs) auto

lemma find_exists: "\<exists>x\<in>set xs. Q x \<Longrightarrow> \<exists>x. List.find Q xs = Some x"
  by (cases "List.find Q xs") (auto simp: find_None_iff)

lemma find_in_set: "List.find Q xs = Some x \<Longrightarrow> x \<in> set xs"
  by (induction xs) (auto split: if_splits)

lemma find_sorted_least:
  assumes "List.find Q (sort_key k xs) = Some x"
  shows "x \<in> set xs \<and> Q x \<and> (\<forall>y\<in>set xs. Q y \<longrightarrow> k x \<le> k y)"
proof -
  let ?s = "sort_key k xs"
  from assms obtain i where i: "i < length ?s" "Q (?s ! i)" "x = ?s ! i"
      "\<forall>j<i. \<not> Q (?s ! j)"
    by (auto simp: find_Some_iff)
  have srt: "sorted (map k ?s)" by simp
  have "x \<in> set xs" using find_in_set [OF assms] by simp
  moreover have "Q x" using i by simp
  moreover have "k x \<le> k y" if y: "y \<in> set xs" "Q y" for y
  proof -
    from y(1) have "y \<in> set ?s" by simp
    then obtain m where m: "m < length ?s" "?s ! m = y" by (metis in_set_conv_nth)
    with y(2) i(4) have "i \<le> m" by (metis not_le_imp_less)
    then have "map k ?s ! i \<le> map k ?s ! m"
      using srt m(1) by (simp add: sorted_iff_nth_mono del: sorted_sort_key)
    then show ?thesis using i m by simp
  qed
  ultimately show ?thesis by blast
qed

lemma no_match_found:
  assumes "userDetails en c u = Some details"
    and "\<forall>tx\<in>set (extractUserTransactions details).
            transactionMatchesPayment en tx pl r = Inr False"
  shows "fst (findMatchingTransactionHash en c u pl r) = None"
proof -
  have "filter_matches en pl r (extractUserTransactions details) = Inr []"
    using assms(2) by (subst filter_matches_total) auto
  then show ?thesis
    by (simp add: findMatchingTransactionHash_def assms(1) Let_def)
qed

lemma match_found:
  assumes ud: "userDetails en c u = Some details"
    and txs: "txs = extractUserTransactions details"
    and nn: "\<forall>tx\<in>set txs. \<not> nullish tx"
    and ex: "\<exists>tx\<in>set txs. usable_match en p r tx"
  shows "\<exists>tx h. tx \<in> set txs \<and> usable_match en p r tx \<and> get_prop ''hash'' tx = JString h
           \<and> (\<forall>tx'\<in>set txs. usable_match en p r tx' \<longrightarrow> getTxTimestamp tx' \<le> getTxTimestamp tx)
           \<and> fst (findMatchingTransactionHash en c u (pp_payload p) r) = Some h"
proof -
  let ?m = "\<lambda>tx. transactionMatchesPayment en tx (pp_payload p) r = Inr True"
  let ?P = "\<lambda>h. case h of JString s \<Rightarrow> isHexHash s | _ \<Rightarrow> False"
  let ?k = "\<lambda>tx. - getTxTimestamp tx"
  let ?ms = "filter ?m txs"
  have fm: "filter_matches en (pp_payload p) r (extractUserTransactions details) = Inr ?ms"
    using nn unfolding txs by (intro filter_matches_total ballI matches_no_throw) auto
  from ex obtain t0 where "t0 \<in> set (sort_key ?k ?ms)" "(?P \<circ> get_prop ''hash'') t0"
    by (auto simp: usable_match_def)
  then obtain tx where f: "List.find (?P \<circ> get_prop ''hash'') (sort_key ?k ?ms) = Some tx"
    using find_exists [of "sort_key ?k ?ms" "?P \<circ> get_prop ''hash''"] by blast
  from find_sorted_least [OF f]
  have tx: "tx \<in> set ?ms" "?P (get_prop ''hash'' tx)"
    and least: "\<forall>y\<in>set ?ms. ?P (get_prop ''hash'' y) \<longrightarrow> ?k tx \<le> ?k y"
    by auto
  from tx(2) obtain h where h: "get_prop ''hash'' tx = JString h" "isHexHash h"
    by (cases "get_prop ''hash'' tx") auto
  have res: "fst (findMatchingTransactionHash en c u (pp_payload p) r) = Some h"
    by (simp add: findMatchingTransactionHash_def ud fm Let_def find_map f h
          del: get_prop.simps)
  have "tx \<in> set txs" "usable_match en p r tx"
    using tx h by (auto simp: usable_match_def)
  moreover have "\<forall>tx'\<in>set txs. usable_match en p r tx' \<longrightarrow> getTxTimestamp tx' \<le> getTxTimestamp tx"
    using least by (auto simp: usable_match_def)
  ultimately show ?thesis using h(1) res by blast
qed


subsection \<open>The claims about settle at concrete inputs\<close>

lemma settle_payload_guard: "network_guard settle_payload sample_requirements"
  by (simp add: settle_payload_def sample_guard)

lemma settle_payload_shape: "settle_shape settle_payload"
  by (simp add: settle_shape_def settle_payload_def sample_payload_def sample_action_def)

lemma settle_payload_payer: "payer_of settle_payload = sample_payer"
  by code_simp

lemma settle_payload_known: "payer_known settle_payload"
  by code_simp

lemma poll_env_submission:
  "submission (poll_env details) settle_payload sample_requirements
     = FetchResponse True (Some sample_ack)"
  by (simp add: submission_def poll_env_def settle_env_def)

lemma sample_ack_ok: "hs_status sample_ack = Some ''ok''"
  by (simp add: sample_ack_def)

lemma TX_HASH_hex: "isHexHash TX_HASH"
  by code_simp

lemma temporary_error_is_other:
  "\<not> str_includes (toLowerCase ''temporary confirmation error'') ''not found''"
  by code_simp

lemma not_found_error:
  "str_includes (toLowerCase ''Error: Transaction Not Found'') ''not found''"
  by code_simp

theorem confirmation_poll_witness:
  "fst (settle (poll_env (\<lambda>i. Some ''temporary confirmation error''))
          settle_payload sample_requirements)
     = Inr (failed hl_tx_unconfirmed sample_requirements (Some TX_HASH) sample_payer)
   \<and> tx_lookups (snd (settle (poll_env (\<lambda>i. Some ''temporary confirmation error''))
                         settle_payload sample_requirements))
       = [TX_HASH, TX_HASH, TX_HASH]
   \<and> delays (snd (settle (poll_env (\<lambda>i. Some ''temporary confirmation error''))
                     settle_payload sample_requirements))
       = [250, 250, 250]
   \<and> fst (settle (poll_env (\<lambda>i. if i = 0 then Some ''temporary confirmation error''
                                  else Some ''Error: Transaction Not Found''))
            settle_payload sample_requirements)
       = Inr (failed hl_tx_not_found sample_requirements (Some TX_HASH) sample_payer)
   \<and> tx_lookups (snd (settle (poll_env (\<lambda>i. if i = 0 then Some ''temporary confirmation error''
                                               else Some ''Error: Transaction Not Found''))
                         settle_payload sample_requirements))
       = [TX_HASH, TX_HASH]
   \<and> delays (snd (settle (poll_env (\<lambda>i. if i = 0 then Some ''temporary confirmation error''
                                           else Some ''Error: Transaction Not Found''))
                     settle_payload sample_requirements))
       = [250]"
proof -
  let ?t = "\<lambda>i::nat. Some ''temporary confirmation error''"
  let ?n = "\<lambda>i::nat. if i = 0 then Some ''temporary confirmation error''
                      else Some ''Error: Transaction Not Found''"
  have m_t: "matched_hash (poll_env ?t) settle_payload sample_requirements = Some TX_HASH"
    by code_simp
  have m_n: "matched_hash (poll_env ?n) settle_payload sample_requirements = Some TX_HASH"
    by code_simp
  have res: "resolved_hash (poll_env ?t) settle_payload sample_requirements sample_ack
               = Some TX_HASH"
    "resolved_hash (poll_env ?n) settle_payload sample_requirements sample_ack = Some TX_HASH"
    by (simp_all add: resolved_hash_def m_t m_n)
  have c: "is_testnet sample_requirements = False"
    by (simp add: is_testnet_def sample_requirements_def)
  have t_all: "\<forall>j<CONFIRMATION_RETRIES. lookup_other_error (poll_env ?t) False TX_HASH j"
    by (simp add: lookup_other_error_def poll_env_def settle_env_def temporary_error_is_other)
  have n_first: "\<forall>j<1. lookup_other_error (poll_env ?n) False TX_HASH j"
    by (simp add: lookup_other_error_def poll_env_def settle_env_def temporary_error_is_other)
  have n_second: "lookup_not_found (poll_env ?n) False TX_HASH 1"
    by (simp add: lookup_not_found_def poll_env_def settle_env_def not_found_error)
  have one: "(1::nat) < CONFIRMATION_RETRIES" by (simp add: CONFIRMATION_RETRIES_def)
  have T: "fst (settle (poll_env ?t) settle_payload sample_requirements)
             = Inr (failed hl_tx_unconfirmed sample_requirements (Some TX_HASH) sample_payer)
           \<and> tx_lookups (snd (settle (poll_env ?t) settle_payload sample_requirements))
             = replicate CONFIRMATION_RETRIES TX_HASH
           \<and> delays (snd (settle (poll_env ?t) settle_payload sample_requirements))
             = replicate CONFIRMATION_RETRIES CONFIRMATION_DELAY_MS"
    using confirmation_poll
        [of 0 "poll_env ?t" False TX_HASH settle_payload sample_requirements sample_ack]
      t_all
    by (simp add: settle_payload_guard settle_payload_shape poll_env_submission sample_ack_ok
          m_t m_n res TX_HASH_hex c settle_payload_payer)
  have N: "fst (settle (poll_env ?n) settle_payload sample_requirements)
             = Inr (failed hl_tx_not_found sample_requirements (Some TX_HASH) sample_payer)
           \<and> tx_lookups (snd (settle (poll_env ?n) settle_payload sample_requirements))
             = replicate (Suc 1) TX_HASH
           \<and> delays (snd (settle (poll_env ?n) settle_payload sample_requirements))
             = replicate 1 CONFIRMATION_DELAY_MS"
    using confirmation_poll
        [of 1 "poll_env ?n" False TX_HASH settle_payload sample_requirements sample_ack]
      n_first n_second one
    by (simp add: settle_payload_guard settle_payload_shape poll_env_submission sample_ack_ok
          m_t m_n res TX_HASH_hex c settle_payload_payer)
  have three: "replicate CONFIRMATION_RETRIES x = [x, x, x]" for x :: 'a
    by (simp add: CONFIRMATION_RETRIES_def numeral_3_eq_3)
  have two: "replicate (Suc 1) x = [x, x]" for x :: 'a by simp
  show ?thesis
    using T N by (simp add: three two CONFIRMATION_DELAY_MS_def)
qed

text \<open>The witness of C9: the payload of the tests is answered whatever the exchange does; an
  answer with status 200 whose body lacks the \<^verbatim>\<open>"ok"\<close> marker, an answer with a failure
  status and a rejected request all give \<^verbatim>\<open>hl_exchange_error\<close> after one submission.\<close>

theorem settle_never_throws_witness:
  "(\<exists>response. fst (settle sample_env settle_payload sample_requirements) = Inr response)
   \<and> settle (settle_env (FetchResponse True (Some (sample_ack\<lparr>hs_status := None\<rparr>))) None
               (\<lambda>i. None))
        settle_payload sample_requirements
       = (Inr (failed hl_exchange_error sample_requirements None sample_payer),
          [post_effect settle_payload sample_requirements])
   \<and> settle (settle_env (FetchResponse False None) None (\<lambda>i. None))
        settle_payload sample_requirements
       = (Inr (failed hl_exchange_error sample_requirements None sample_payer),
          [post_effect settle_payload sample_requirements])
   \<and> fst (settle (settle_env FetchRejects None (\<lambda>i. None)) settle_payload sample_requirements)
       = Inr (failed hl_exchange_error sample_requirements None sample_payer)"
proof -
  let ?e1 = "settle_env (FetchResponse True (Some (sample_ack\<lparr>hs_status := None\<rparr>))) None
               (\<lambda>i. None)"
  let ?e2 = "settle_env (FetchResponse False None) None (\<lambda>i. None)"
  let ?e3 = "settle_env FetchRejects None (\<lambda>i. None)"
  have act: "get_prop ''action'' (JObject (pp_payload settle_payload))
               = JObject [(''type'', JString ''spotSend''),
                          (''destination'', JString ''0xaaaaaaaaaaaaaaaaaaaaaaaaaaaaaaaaaaaaaaaa''),
                          (''token'', JString ''USDC:0xeb62eee3685fc4c43992febcd9e75443''),
                          (''amount'', JString ''1''),
                          (''time'', JNumber (Fin 1700000000000))]"
    by (simp add: settle_payload_def sample_payload_def sample_action_def)
  have s1: "submission_failed (submission ?e1 settle_payload sample_requirements)"
    by (simp add: submission_def settle_env_def submission_failed_def)
  have s2: "submission_failed (submission ?e2 settle_payload sample_requirements)"
    by (simp add: submission_def settle_env_def submission_failed_def)
  have s3: "fst (settle_try ?e3 (exchange_url sample_requirements)
                   (is_testnet sample_requirements) (payer_of settle_payload)
                   settle_payload sample_requirements) = Inl (Error ''fetch'')"
    by code_simp
  have i0: "\<exists>response. fst (settle sample_env settle_payload sample_requirements) = Inr response"
    using settle_never_throws [of settle_payload _ sample_env sample_requirements] act by simp
  have i1: "settle ?e1 settle_payload sample_requirements
              = (Inr (failed hl_exchange_error sample_requirements None sample_payer),
                 [post_effect settle_payload sample_requirements])"
    using settle_never_throws [of settle_payload _ ?e1 sample_requirements] s1
    by (simp add: settle_payload_guard settle_payload_shape settle_payload_payer)
  have i2: "settle ?e2 settle_payload sample_requirements
              = (Inr (failed hl_exchange_error sample_requirements None sample_payer),
                 [post_effect settle_payload sample_requirements])"
    using settle_never_throws [of settle_payload _ ?e2 sample_requirements] s2
    by (simp add: settle_payload_guard settle_payload_shape settle_payload_payer)
  have i3: "fst (settle ?e3 settle_payload sample_requirements)
              = Inr (failed hl_exchange_error sample_requirements None sample_payer)"
    using settle_never_throws [of settle_payload _ ?e3 sample_requirements "Error ''fetch''"] s3
    by (simp add: settle_payload_guard settle_payload_shape settle_payload_payer)
  show ?thesis by (intro conjI i0 i1 i2 i3)
qed

text \<open>The witness of C10: the settlement of the tests succeeds with \<open>TX_HASH\<close>, which is
  the id its one detail lookup asks for; and a payload without payer whose acknowledgment
  carries the id \<^verbatim>\<open>0xabc\<close> is answered \<^verbatim>\<open>hl_tx_not_found\<close> without any lookup.\<close>

theorem settle_transaction_is_hex_hash_witness:
  "fst (settle (poll_env (\<lambda>i. None)) settle_payload sample_requirements)
     = Inr (settled sample_requirements TX_HASH sample_payer)
   \<and> isHexHash (transaction (settled sample_requirements TX_HASH sample_payer))
   \<and> tx_lookups (snd (settle (poll_env (\<lambda>i. None)) settle_payload sample_requirements))
       = [TX_HASH]
   \<and> isHexHash TX_HASH
   \<and> \<not> isHexHash ''0xabc''
   \<and> fst (settle (settle_env (FetchResponse True (Some (sample_ack\<lparr>hs_txHash := Some ''0xabc''\<rparr>)))
                    None (\<lambda>i. None))
            anonymous_payload sample_requirements)
       = Inr (failed hl_tx_not_found sample_requirements (Some ''0xabc'') None)
   \<and> tx_lookups (snd (settle
          (settle_env (FetchResponse True (Some (sample_ack\<lparr>hs_txHash := Some ''0xabc''\<rparr>)))
             None (\<lambda>i. None))
          anonymous_payload sample_requirements)) = []"
proof -
  let ?e = "poll_env (\<lambda>i. None)"
  let ?bad = "sample_ack\<lparr>hs_txHash := Some ''0xabc''\<rparr>"
  let ?b = "settle_env (FetchResponse True (Some ?bad)) None (\<lambda>i. None)"
  have r1: "fst (settle ?e settle_payload sample_requirements)
              = Inr (settled sample_requirements TX_HASH sample_payer)"
    by code_simp
  have sc: "success (settled sample_requirements TX_HASH sample_payer)"
    by (simp add: settled_def)
  have l1: "tx_lookups (snd (settle ?e settle_payload sample_requirements)) = [TX_HASH]"
    by code_simp
  have i1: "isHexHash (transaction (settled sample_requirements TX_HASH sample_payer))"
    using settle_transaction_is_hex_hash
        [of ?e settle_payload sample_requirements
            "settled sample_requirements TX_HASH sample_payer"] r1 sc
    by simp
  have i2: "isHexHash TX_HASH"
    using settle_transaction_is_hex_hash [of ?e settle_payload sample_requirements _ TX_HASH] l1
    by simp
  have g: "network_guard anonymous_payload sample_requirements"
    by (simp add: network_guard_def anonymous_payload_def sample_requirements_def SCHEME_def
          SupportedHLNetworks_def)
  have sh: "settle_shape anonymous_payload"
    by (simp add: settle_shape_def anonymous_payload_def sample_action_def)
  have pa: "payer_of anonymous_payload = None" by code_simp
  have sub: "submission ?b anonymous_payload sample_requirements = FetchResponse True (Some ?bad)"
    by (simp add: submission_def settle_env_def)
  have ok: "hs_status ?bad = Some ''ok''" by (simp add: sample_ack_def)
  have ex: "extractExchangeTxHash ?bad = Some ''0xabc''"
    by (simp add: extractExchangeTxHash_def sample_ack_def)
  have rh: "resolved_hash ?b anonymous_payload sample_requirements ?bad = Some ''0xabc''"
    by (simp add: resolved_hash_def matched_hash_def pa ex)
  have nh: "\<not> isHexHash ''0xabc''" by (simp add: isHexHash_def)
  have i3: "fst (settle ?b anonymous_payload sample_requirements)
              = Inr (failed hl_tx_not_found sample_requirements (Some ''0xabc'') None)
            \<and> tx_lookups (snd (settle ?b anonymous_payload sample_requirements)) = []"
    using settle_transaction_is_hex_hash
        [of ?b anonymous_payload sample_requirements _ _ ?bad "''0xabc''"] g sh sub ok rh nh
    by (simp add: pa ex)
  show ?thesis
    by (intro conjI r1 i1 l1 i2 nh i3 [THEN conjunct1] i3 [THEN conjunct2])
qed

subsection \<open>The history of the payer\<close>

text \<open>
  \<^bold>\<open>C7\<close>, as the code has it. Let a payer be known and the submission be acknowledged, and
  let the request for the payer's history be answered. If no transaction of the history
  matches the payment, \<^verbatim>\<open>settle\<close> answers \<^verbatim>\<open>hl_tx_not_found\<close> and looks nothing up, whatever
  id the acknowledgment carries. If the entries of the history are not null and one of
  them matches the payment and has an id of the form \<^verbatim>\<open>0x\<close> and 64 hex digits, \<^verbatim>\<open>settle\<close>
  resolves the id of such a transaction, the most recent of them, whatever id the
  acknowledgment carries; its answer is the one that the confirmation of that id gives,
  and it is a success with that id when the first detail lookup resolves. When the
  request for the history fails, the answer is \<^verbatim>\<open>hl_tx_not_found\<close> as well.
\<close>

theorem settle_history_matching:
  "network_guard p r \<and> settle_shape p \<and> payer_known p
   \<and> submission en p r = FetchResponse True (Some ack) \<and> hs_status ack = Some ''ok'' \<longrightarrow>
     (history_of en p r = None \<longrightarrow>
        fst (settle en p r)
          = Inr (failed hl_tx_not_found r (extractExchangeTxHash ack) (payer_of p)))
   \<and> (history_of en p r = Some txs \<longrightarrow>
        ((\<forall>tx\<in>set txs. transactionMatchesPayment en tx (pp_payload p) r = Inr False) \<longrightarrow>
           fst (settle en p r)
             = Inr (failed hl_tx_not_found r (extractExchangeTxHash ack) (payer_of p))
           \<and> tx_lookups (snd (settle en p r)) = [])
      \<and> ((\<forall>tx\<in>set txs. \<not> nullish tx) \<and> (\<exists>tx\<in>set txs. usable_match en p r tx) \<longrightarrow>
           (\<exists>tx h. tx \<in> set txs \<and> usable_match en p r tx \<and> get_prop ''hash'' tx = JString h
              \<and> (\<forall>tx'\<in>set txs. usable_match en p r tx'
                    \<longrightarrow> getTxTimestamp tx' \<le> getTxTimestamp tx)
              \<and> resolved_hash en p r ack = Some h
              \<and> fst (settle en p r)
                  = Inr (outcome r h (payer_of p)
                           (fst (confirmTransaction en (is_testnet r) h)))
              \<and> (txDetails en (is_testnet r) h 0 = None
                    \<longrightarrow> fst (settle en p r) = Inr (settled r h (payer_of p))))))"
proof (intro impI, elim conjE)
  assume g: "network_guard p r" "settle_shape p"
    and pk: "payer_known p"
    and s: "submission en p r = FetchResponse True (Some ack)" "hs_status ack = Some ''ok''"
  from pk obtain u where u: "payer_of p = Some u" "u \<noteq> []"
    by (auto simp: payer_known_def split: option.splits)
  have mh: "matched_hash en p r = fst (findMatchingTransactionHash en (is_testnet r) u (pp_payload p) r)"
    using u by (simp add: matched_hash_def)
  note run = settle_acked [OF g s]
  have none: "matched_hash en p r = None \<Longrightarrow>
        fst (settle en p r)
          = Inr (failed hl_tx_not_found r (extractExchangeTxHash ack) (payer_of p))
        \<and> tx_lookups (snd (settle en p r)) = []"
    using pk by (simp add: run)
  have A: "history_of en p r = None \<longrightarrow>
        fst (settle en p r)
          = Inr (failed hl_tx_not_found r (extractExchangeTxHash ack) (payer_of p))"
  proof
    assume "history_of en p r = None"
    then have "userDetails en (is_testnet r) u = None"
      using u by (simp add: history_of_def)
    then have "matched_hash en p r = None"
      by (simp add: mh findMatchingTransactionHash_def)
    then show "fst (settle en p r)
          = Inr (failed hl_tx_not_found r (extractExchangeTxHash ack) (payer_of p))"
      using none by simp
  qed
  have B: "history_of en p r = Some txs \<longrightarrow>
        ((\<forall>tx\<in>set txs. transactionMatchesPayment en tx (pp_payload p) r = Inr False) \<longrightarrow>
           fst (settle en p r)
             = Inr (failed hl_tx_not_found r (extractExchangeTxHash ack) (payer_of p))
           \<and> tx_lookups (snd (settle en p r)) = [])
      \<and> ((\<forall>tx\<in>set txs. \<not> nullish tx) \<and> (\<exists>tx\<in>set txs. usable_match en p r tx) \<longrightarrow>
           (\<exists>tx h. tx \<in> set txs \<and> usable_match en p r tx \<and> get_prop ''hash'' tx = JString h
              \<and> (\<forall>tx'\<in>set txs. usable_match en p r tx'
                    \<longrightarrow> getTxTimestamp tx' \<le> getTxTimestamp tx)
              \<and> resolved_hash en p r ack = Some h
              \<and> fst (settle en p r)
                  = Inr (outcome r h (payer_of p)
                           (fst (confirmTransaction en (is_testnet r) h)))
              \<and> (txDetails en (is_testnet r) h 0 = None
                    \<longrightarrow> fst (settle en p r) = Inr (settled r h (payer_of p)))))"
  proof
    assume "history_of en p r = Some txs"
    then obtain details where ud: "userDetails en (is_testnet r) u = Some details"
      and txs: "txs = extractUserTransactions details"
      using u by (auto simp: history_of_def)
    have B1: "(\<forall>tx\<in>set txs. transactionMatchesPayment en tx (pp_payload p) r = Inr False) \<longrightarrow>
           fst (settle en p r)
             = Inr (failed hl_tx_not_found r (extractExchangeTxHash ack) (payer_of p))
           \<and> tx_lookups (snd (settle en p r)) = []"
    proof
      assume "\<forall>tx\<in>set txs. transactionMatchesPayment en tx (pp_payload p) r = Inr False"
      then have "matched_hash en p r = None"
        unfolding mh txs by (intro no_match_found [OF ud])
      then show "fst (settle en p r)
             = Inr (failed hl_tx_not_found r (extractExchangeTxHash ack) (payer_of p))
           \<and> tx_lookups (snd (settle en p r)) = []"
        by (rule none)
    qed
    have B2: "(\<forall>tx\<in>set txs. \<not> nullish tx) \<and> (\<exists>tx\<in>set txs. usable_match en p r tx) \<longrightarrow>
           (\<exists>tx h. tx \<in> set txs \<and> usable_match en p r tx \<and> get_prop ''hash'' tx = JString h
              \<and> (\<forall>tx'\<in>set txs. usable_match en p r tx'
                    \<longrightarrow> getTxTimestamp tx' \<le> getTxTimestamp tx)
              \<and> resolved_hash en p r ack = Some h
              \<and> fst (settle en p r)
                  = Inr (outcome r h (payer_of p)
                           (fst (confirmTransaction en (is_testnet r) h)))
              \<and> (txDetails en (is_testnet r) h 0 = None
                    \<longrightarrow> fst (settle en p r) = Inr (settled r h (payer_of p))))"
    proof (intro impI, elim conjE)
      assume nn: "\<forall>tx\<in>set txs. \<not> nullish tx" and ex: "\<exists>tx\<in>set txs. usable_match en p r tx"
      from match_found [OF ud txs nn ex]
      obtain tx h where tx: "tx \<in> set txs" "usable_match en p r tx"
          "get_prop ''hash'' tx = JString h"
          "\<forall>tx'\<in>set txs. usable_match en p r tx' \<longrightarrow> getTxTimestamp tx' \<le> getTxTimestamp tx"
          "fst (findMatchingTransactionHash en (is_testnet r) u (pp_payload p) r) = Some h"
        by blast
      have m: "matched_hash en p r = Some h" using tx(5) by (simp add: mh)
      have hx: "isHexHash h" using tx(2,3) by (simp add: usable_match_def)
      have rh: "resolved_hash en p r ack = Some h" by (simp add: resolved_hash_def m)
      have out: "fst (settle en p r)
                  = Inr (outcome r h (payer_of p)
                           (fst (confirmTransaction en (is_testnet r) h)))"
        using hx by (simp add: run m rh)
      have ok: "txDetails en (is_testnet r) h 0 = None
                    \<longrightarrow> fst (settle en p r) = Inr (settled r h (payer_of p))"
        by (simp add: out confirmTransaction_def confirm_step_resolved CONFIRMATION_RETRIES_def
              outcome_def)
      show "\<exists>tx h. tx \<in> set txs \<and> usable_match en p r tx
              \<and> get_prop ''hash'' tx = JString h
              \<and> (\<forall>tx'\<in>set txs. usable_match en p r tx'
                    \<longrightarrow> getTxTimestamp tx' \<le> getTxTimestamp tx)
              \<and> resolved_hash en p r ack = Some h
              \<and> fst (settle en p r)
                  = Inr (outcome r h (payer_of p)
                           (fst (confirmTransaction en (is_testnet r) h)))
              \<and> (txDetails en (is_testnet r) h 0 = None
                    \<longrightarrow> fst (settle en p r) = Inr (settled r h (payer_of p)))"
        by (intro exI [of _ tx] exI [of _ h] conjI tx(1-4) rh out ok)
    qed
    show "((\<forall>tx\<in>set txs. transactionMatchesPayment en tx (pp_payload p) r = Inr False) \<longrightarrow>
           fst (settle en p r)
             = Inr (failed hl_tx_not_found r (extractExchangeTxHash ack) (payer_of p))
           \<and> tx_lookups (snd (settle en p r)) = [])
      \<and> ((\<forall>tx\<in>set txs. \<not> nullish tx) \<and> (\<exists>tx\<in>set txs. usable_match en p r tx) \<longrightarrow>
           (\<exists>tx h. tx \<in> set txs \<and> usable_match en p r tx \<and> get_prop ''hash'' tx = JString h
              \<and> (\<forall>tx'\<in>set txs. usable_match en p r tx'
                    \<longrightarrow> getTxTimestamp tx' \<le> getTxTimestamp tx)
              \<and> resolved_hash en p r ack = Some h
              \<and> fst (settle en p r)
                  = Inr (outcome r h (payer_of p)
                           (fst (confirmTransaction en (is_testnet r) h)))
              \<and> (txDetails en (is_testnet r) h 0 = None
                    \<longrightarrow> fst (settle en p r) = Inr (settled r h (payer_of p)))))"
      by (intro conjI B1 B2)
  qed
  show "(history_of en p r = None \<longrightarrow>
        fst (settle en p r)
          = Inr (failed hl_tx_not_found r (extractExchangeTxHash ack) (payer_of p)))
   \<and> (history_of en p r = Some txs \<longrightarrow>
        ((\<forall>tx\<in>set txs. transactionMatchesPayment en tx (pp_payload p) r = Inr False) \<longrightarrow>
           fst (settle en p r)
             = Inr (failed hl_tx_not_found r (extractExchangeTxHash ack) (payer_of p))
           \<and> tx_lookups (snd (settle en p r)) = [])
      \<and> ((\<forall>tx\<in>set txs. \<not> nullish tx) \<and> (\<exists>tx\<in>set txs. usable_match en p r tx) \<longrightarrow>
           (\<exists>tx h. tx \<in> set txs \<and> usable_match en p r tx \<and> get_prop ''hash'' tx = JString h
              \<and> (\<forall>tx'\<in>set txs. usable_match en p r tx'
                    \<longrightarrow> getTxTimestamp tx' \<le> getTxTimestamp tx)
              \<and> resolved_hash en p r ack = Some h
              \<and> fst (settle en p r)
                  = Inr (outcome r h (payer_of p)
                           (fst (confirmTransaction en (is_testnet r) h)))
              \<and> (txDetails en (is_testnet r) h 0 = None
                    \<longrightarrow> fst (settle en p r) = Inr (settled r h (payer_of p))))))"
    by (intro conjI A B)
qed

text \<open>The witness: with the history of the tests, \<^verbatim>\<open>settle\<close> succeeds with the id of the
  history, not with the one of the acknowledgment; with a history whose one entry has
  another destination, it answers \<^verbatim>\<open>hl_tx_not_found\<close> although the acknowledgment carries
  a well-formed id of its own.\<close>

theorem settle_history_matching_witness:
  "fst (settle (poll_env (\<lambda>i. None)) settle_payload sample_requirements)
     = Inr (settled sample_requirements TX_HASH sample_payer)
   \<and> extractExchangeTxHash sample_ack = Some (''0x'' @ replicate 64 CHR ''3'')
   \<and> isHexHash (''0x'' @ replicate 64 CHR ''3'')
   \<and> fst (settle
            (settle_env (FetchResponse True (Some sample_ack))
               (history [sample_tx (JString TX_HASH)
                           ''0xcccccccccccccccccccccccccccccccccccccccc'' 1700000000000])
               (\<lambda>i. None))
            settle_payload sample_requirements)
       = Inr (failed hl_tx_not_found sample_requirements
                (Some (''0x'' @ replicate 64 CHR ''3'')) sample_payer)"
proof -
  let ?good = "sample_tx (JString TX_HASH) ''0xaaaaaaaaaaaaaaaaaaaaaaaaaaaaaaaaaaaaaaaa''
                 1700000000000"
  let ?other = "sample_tx (JString TX_HASH) ''0xcccccccccccccccccccccccccccccccccccccccc''
                  1700000000000"
  let ?e = "poll_env (\<lambda>i. None)"
  let ?f = "settle_env (FetchResponse True (Some sample_ack)) (history [?other]) (\<lambda>i. None)"
  have ex: "extractExchangeTxHash sample_ack = Some (''0x'' @ replicate 64 CHR ''3'')"
    by (simp add: extractExchangeTxHash_def sample_ack_def)
  have hx: "isHexHash (''0x'' @ replicate 64 CHR ''3'')" by code_simp
  have he: "history_of ?e settle_payload sample_requirements = Some [?good]" by code_simp
  have hf: "history_of ?f settle_payload sample_requirements = Some [?other]" by code_simp
  have um: "usable_match ?e settle_payload sample_requirements ?good" by code_simp
  have nm: "transactionMatchesPayment ?f ?other (pp_payload settle_payload) sample_requirements
              = Inr False"
    by code_simp
  have nn: "\<not> nullish ?good" by (simp add: sample_tx_def)
  have hg: "get_prop ''hash'' ?good = JString TX_HASH" by (simp add: sample_tx_def)
  have td: "txDetails ?e c h 0 = None" for c h
    by (simp add: poll_env_def settle_env_def)
  have sf: "submission ?f settle_payload sample_requirements
              = FetchResponse True (Some sample_ack)"
    by (simp add: submission_def settle_env_def)
  have i1: "fst (settle ?e settle_payload sample_requirements)
              = Inr (settled sample_requirements TX_HASH sample_payer)"
    using settle_history_matching
        [of settle_payload sample_requirements ?e sample_ack "[?good]"] he um nn hg td
    by (auto simp: settle_payload_guard settle_payload_shape settle_payload_known
          poll_env_submission sample_ack_ok settle_payload_payer simp del: get_prop.simps)
  have i2: "fst (settle ?f settle_payload sample_requirements)
              = Inr (failed hl_tx_not_found sample_requirements
                       (Some (''0x'' @ replicate 64 CHR ''3'')) sample_payer)"
    using settle_history_matching
        [of settle_payload sample_requirements ?f sample_ack "[?other]"] hf nm sf
    by (simp add: settle_payload_guard settle_payload_shape settle_payload_known
          sample_ack_ok settle_payload_payer ex del: replicate.simps replicate_Suc)
  show ?thesis by (intro conjI i1 ex hx i2)
qed

text \<open>
  \<^bold>\<open>C7\<close>, as the specification words it, fails: a transaction of the history that matches
  the payment is not used when its id is not of the form of a hash. With a history whose
  one entry matches and carries the id \<^verbatim>\<open>0xabc\<close>, \<^verbatim>\<open>settle\<close> answers \<^verbatim>\<open>hl_tx_not_found\<close>
  and looks nothing up, although every detail lookup would resolve.
\<close>

theorem malformed_history_id_is_not_used:
  "payer_known settle_payload
   \<and> history_of
        (settle_env (FetchResponse True (Some sample_ack))
           (history [sample_tx (JString ''0xabc'')
                       ''0xaaaaaaaaaaaaaaaaaaaaaaaaaaaaaaaaaaaaaaaa'' 1700000000000])
           (\<lambda>i. None))
        settle_payload sample_requirements
       = Some [sample_tx (JString ''0xabc'')
                 ''0xaaaaaaaaaaaaaaaaaaaaaaaaaaaaaaaaaaaaaaaa'' 1700000000000]
   \<and> transactionMatchesPayment
        (settle_env (FetchResponse True (Some sample_ack))
           (history [sample_tx (JString ''0xabc'')
                       ''0xaaaaaaaaaaaaaaaaaaaaaaaaaaaaaaaaaaaaaaaa'' 1700000000000])
           (\<lambda>i. None))
        (sample_tx (JString ''0xabc'') ''0xaaaaaaaaaaaaaaaaaaaaaaaaaaaaaaaaaaaaaaaa''
           1700000000000)
        (pp_payload settle_payload) sample_requirements
       = Inr True
   \<and> fst (settle
            (settle_env (FetchResponse True (Some sample_ack))
               (history [sample_tx (JString ''0xabc'')
                           ''0xaaaaaaaaaaaaaaaaaaaaaaaaaaaaaaaaaaaaaaaa'' 1700000000000])
               (\<lambda>i. None))
            settle_payload sample_requirements)
       = Inr (failed hl_tx_not_found sample_requirements
                (Some (''0x'' @ replicate 64 CHR ''3'')) sample_payer)
   \<and> tx_lookups (snd (settle
          (settle_env (FetchResponse True (Some sample_ack))
             (history [sample_tx (JString ''0xabc'')
                         ''0xaaaaaaaaaaaaaaaaaaaaaaaaaaaaaaaaaaaaaaaa'' 1700000000000])
             (\<lambda>i. None))
          settle_payload sample_requirements)) = []"
proof -
  let ?tx = "sample_tx (JString ''0xabc'') ''0xaaaaaaaaaaaaaaaaaaaaaaaaaaaaaaaaaaaaaaaa''
               1700000000000"
  let ?e = "settle_env (FetchResponse True (Some sample_ack)) (history [?tx]) (\<lambda>i. None)"
  have a: "history_of ?e settle_payload sample_requirements = Some [?tx]" by code_simp
  have b: "transactionMatchesPayment ?e ?tx (pp_payload settle_payload) sample_requirements
             = Inr True"
    by code_simp
  have c: "fst (settle ?e settle_payload sample_requirements)
             = Inr (failed hl_tx_not_found sample_requirements
                      (Some (''0x'' @ replicate 64 CHR ''3'')) sample_payer)"
    by code_simp
  have d: "tx_lookups (snd (settle ?e settle_payload sample_requirements)) = []"
    by code_simp
  show ?thesis by (intro conjI settle_payload_known a b c d)
qed

section \<open>The payload codec\<close>

subsection \<open>BigInt fields\<close>

text \<open>The decimal string that \<^verbatim>\<open>encodePayment\<close> writes for a BigInt is read by \<^verbatim>\<open>BigInt\<close> as
  the same integer: nothing of the amount is lost, whatever its size.\<close>

lemma digit_char_digit:
  assumes "0 \<le> d" "d < 10"
  shows "is_digit (digit_char d)" and "digit_val (digit_char d) = d"
proof -
  have "(of_char (char_of (48 + d)) :: int) = (48 + d) mod 256"
    by (rule of_char_of)
  then have "(of_char (char_of (48 + d)) :: int) = 48 + d"
    using assms by simp
  then show "is_digit (digit_char d)" and "digit_val (digit_char d) = d"
    using assms by (simp_all add: is_digit_def digit_val_def digit_char_def Let_def)
qed

lemma digits10_digits:
  "0 \<le> n \<Longrightarrow> list_all is_digit (digits10 n) \<and> digits10 n \<noteq> []
                \<and> radix_value 10 (digits10 n) = n"
proof (induction n rule: digits10.induct)
  case (1 n)
  show ?case
  proof (cases "n < 10")
    case True
    then show ?thesis
      using 1(2) digit_char_digit [of n]
      by (subst (1 2 3) digits10.simps) (simp add: radix_value_def)
  next
    case False
    then have q: "0 \<le> n div 10" using 1(2) by simp
    have r: "0 \<le> n mod 10" "n mod 10 < 10" by simp_all
    note ih = 1(1) [OF False q]
    have d: "digits10 n = digits10 (n div 10) @ [digit_char (n mod 10)]"
      using False by (subst digits10.simps) simp
    have "radix_value 10 (digits10 n) = radix_value 10 (digits10 (n div 10)) * 10
            + digit_val (digit_char (n mod 10))"
      by (simp add: d radix_value_def)
    also have "\<dots> = (n div 10) * 10 + n mod 10"
      using ih digit_char_digit(2) [OF r] by simp
    also have "\<dots> = n" by simp
    finally have v: "radix_value 10 (digits10 n) = n" .
    show ?thesis
      using ih digit_char_digit(1) [OF r] v by (simp add: d)
  qed
qed

lemma bigint_toString_exact:
  "BigInt_of_string (bigint_toString n) = Some n"
proof (cases "n < 0")
  case False
  then have "0 \<le> n" by simp
  from digits10_digits [OF this] show ?thesis
    using False by (simp add: bigint_toString_def BigInt_digits)
next
  case True
  then have "0 \<le> - n" by simp
  from digits10_digits [OF this]
  have a: "list_all is_digit (digits10 (- n))" and ne: "digits10 (- n) \<noteq> []"
    and v: "radix_value 10 (digits10 (- n)) = - n"
    by simp_all
  have m: "\<not> is_space CHR ''-''" "\<not> is_digit CHR ''-''"
    by (simp_all add: is_space_def is_digit_def)
  have l: "\<not> is_space (last (digits10 (- n)))"
    using a ne by (metis digit_not_space last_in_set list_all_iff)
  have 1: "dropWhile is_space (CHR ''-'' # digits10 (- n)) = CHR ''-'' # digits10 (- n)"
    using m by simp
  have "hd (rev (CHR ''-'' # digits10 (- n))) = last (digits10 (- n))"
    using ne by (simp add: hd_rev)
  then have 2: "dropWhile is_space (rev (CHR ''-'' # digits10 (- n)))
                  = rev (CHR ''-'' # digits10 (- n))"
    using l ne by (simp add: dropWhile_eq_self_iff)
  have t: "trim (CHR ''-'' # digits10 (- n)) = CHR ''-'' # digits10 (- n)"
    unfolding trim_def 1 2 by simp
  show ?thesis
    using True a ne v m
    by (simp add: bigint_toString_def BigInt_of_string_def t)
qed

lemma stringified_field:
  "map_of au k = Some (JBigInt n)
     \<Longrightarrow> map_of (stringify_bigints au) k = Some (JString (bigint_toString n))"
  by (induction au) (auto simp: stringify_bigints_def split: if_splits)

lemma map_of_set_prop: "map_of (set_prop k v kvs) k = Some v"
  by (induction kvs) auto

lemma has_bigint_object:
  "has_bigint (JObject kvs) = (\<exists>kv \<in> set kvs. has_bigint (snd kv))"
  by (induction kvs) auto

lemma stringify_no_bigint:
  assumes "\<not> has_bigint (JObject a)"
  shows "stringify_bigints a = a"
proof -
  have "\<And>kv. kv \<in> set a \<Longrightarrow>
          (case kv of (k, v) \<Rightarrow> (k, case v of JBigInt n \<Rightarrow> JString (bigint_toString n) | _ \<Rightarrow> v)) = kv"
  proof -
    fix kv assume "kv \<in> set a"
    with assms have "\<not> has_bigint (snd kv)"
      by (simp add: has_bigint_object del: has_bigint.simps)
    then show "(case kv of (k, v) \<Rightarrow>
                 (k, case v of JBigInt n \<Rightarrow> JString (bigint_toString n) | _ \<Rightarrow> v)) = kv"
      by (cases kv) (auto split: json.splits)
  qed
  then show ?thesis
    unfolding stringify_bigints_def by (simp add: map_idI)
qed

lemma set_prop_same:
  "map_of kvs k = Some v \<Longrightarrow> set_prop k v kvs = kvs"
  by (induction kvs) (auto split: if_splits)

lemma serialized_json_value:
  assumes "json_value (JObject (pp_payload p))"
  shows "serialized_payload ce p = pp_payload p"
proof (cases "get_prop ''authorization'' (JObject (pp_payload p))")
  case (JObject a)
  then have m: "map_of (pp_payload p) ''authorization'' = Some (JObject a)"
    by (simp split: option.splits)
  then have "(''authorization'', JObject a) \<in> set (pp_payload p)"
    by (rule map_of_SomeD)
  moreover have "\<not> has_bigint (JObject (pp_payload p))"
    using assms by (simp add: json_value_def)
  ultimately have "\<not> has_bigint (JObject a)"
    unfolding has_bigint_object [of "pp_payload p"] by force
  then have "stringify_bigints a = a" by (rule stringify_no_bigint)
  then show ?thesis
    using JObject set_prop_same [OF m]
    by (simp add: serialized_payload_def del: get_prop.simps)
qed (simp_all add: serialized_payload_def del: get_prop.simps)

subsection \<open>The header and its decoding\<close>

lemma envelope_no_bigint:
  "has_bigint (envelope p pl) = has_bigint (JObject pl)"
  by (simp add: envelope_def)

lemma json_norm_object: "json_norm (JObject pl) = JObject (json_payload pl)"
  by (simp add: json_payload_def)

lemma envelope_norm:
  "json_norm (envelope p pl) = envelope p (json_payload pl)"
  unfolding envelope_def
  by (subst json_norm.simps(8)) (simp add: json_norm_object del: json_norm.simps(8))

lemma json_value_payload:
  "json_value (JObject pl) \<Longrightarrow> json_payload pl = pl"
  unfolding json_value_def json_norm_object by simp

lemma to_header_envelope:
  "to_header (envelope p pl) =
     (if has_bigint (JObject pl) then Inl (Error ''TypeError'')
      else Inr (Header (envelope p (json_payload pl))))"
  by (simp add: to_header_def JSON_parse_stringify_def envelope_no_bigint envelope_norm
      del: has_bigint.simps json_norm.simps)

lemma schema_parse_envelope:
  assumes "pp_network p \<in> set NetworkSchema" "x402Version p \<in> set (x402Versions ce)"
    "pp_scheme p \<in> set (schemes ce)"
  shows "PaymentPayloadSchema_parse ce (envelope p pl) =
           (case payloadSchema ce pl of
              None \<Rightarrow> Inl (Error ''ZodError'')
            | Some parsed \<Rightarrow> Inr (p\<lparr>pp_payload := parsed\<rparr>))"
  using assms by (simp add: PaymentPayloadSchema_parse_def envelope_def split: option.splits)

lemma decode_envelope:
  assumes "family_known ce (pp_network p)" "pp_network p \<in> set NetworkSchema"
    "x402Version p \<in> set (x402Versions ce)" "pp_scheme p \<in> set (schemes ce)"
  shows "decodePayment ce (Header (envelope p pl)) =
           (case payloadSchema ce pl of
              None \<Rightarrow> Inl (Error ''ZodError'')
            | Some parsed \<Rightarrow> Inr (p\<lparr>pp_payload := parsed\<rparr>))"
proof -
  have n: "get_prop ''network'' (envelope p pl) = JString (pp_network p)"
    by (simp add: envelope_def)
  have s: "(case envelope p pl of
              JObject kvs \<Rightarrow> JObject (set_prop ''payload'' (get_prop ''payload'' (envelope p pl)) kvs)
            | _ \<Rightarrow> JObject [(''payload'', JUndefined)]) = envelope p pl"
    by (simp add: envelope_def)
  have u: "\<not> nullish (envelope p pl)"
    by (simp add: envelope_def)
  show ?thesis
    using assms(1) schema_parse_envelope [OF assms(2-4), of pl]
    by (auto simp add: decodePayment_def n s u family_known_def Let_def)
qed

lemma encode_serialized:
  assumes ok: "envelope_ok ce p"
  shows "encodePayment ce p = to_header (envelope p (serialized_payload ce p))"
proof (cases "pp_network p \<in> set (SupportedEVMNetworks ce)")
  case True
  with ok obtain a where a: "get_prop ''authorization'' (JObject (pp_payload p)) = JObject a"
    by (auto simp: envelope_ok_def is_object_def split: json.splits)
  have sp: "serialized_payload ce p
              = set_prop ''authorization'' (JObject (stringify_bigints a)) (pp_payload p)"
    using True a by (simp add: serialized_payload_def del: get_prop.simps)
  show ?thesis
    using True a by (simp add: encodePayment_def sp del: get_prop.simps)
next
  case False
  have sp: "serialized_payload ce p = pp_payload p"
    using False by (simp add: serialized_payload_def)
  have "family_known ce (pp_network p)" using ok by (simp add: envelope_ok_def)
  then show ?thesis
    using False by (auto simp add: encodePayment_def sp family_known_def)
qed

lemma round_trip_formula:
  assumes ok: "envelope_ok ce p"
    and nb: "\<not> has_bigint (JObject (serialized_payload ce p))"
  shows "round_trip ce p =
           (case payloadSchema ce (wire_payload ce p) of
              None \<Rightarrow> Inl (Error ''ZodError'')
            | Some parsed \<Rightarrow> Inr (p\<lparr>pp_payload := parsed\<rparr>))"
proof -
  from ok have f: "family_known ce (pp_network p)" and n: "pp_network p \<in> set NetworkSchema"
    and v: "x402Version p \<in> set (x402Versions ce)" and s: "pp_scheme p \<in> set (schemes ce)"
    by (simp_all add: envelope_ok_def)
  have e: "encodePayment ce p = Inr (Header (envelope p (wire_payload ce p)))"
    using nb by (simp only: encode_serialized [OF ok] to_header_envelope wire_payload_def if_False)
  show ?thesis
    unfolding round_trip_def e using decode_envelope [OF f n v s, of "wire_payload ce p"]
    by simp
qed

lemma encode_bigint_throws:
  assumes ok: "envelope_ok ce p"
    and b: "has_bigint (JObject (serialized_payload ce p))"
  shows "encodePayment ce p = Inl (Error ''TypeError'')"
  using b by (simp only: encode_serialized [OF ok] to_header_envelope if_True)

lemma round_trip_identity:
  assumes ok: "envelope_ok ce p"
    and jv: "json_value (JObject (pp_payload p))"
    and sc: "payloadSchema ce (pp_payload p) = Some (pp_payload p)"
  shows "round_trip ce p = Inr p"
proof -
  have sp: "serialized_payload ce p = pp_payload p"
    using jv by (rule serialized_json_value)
  have nb: "\<not> has_bigint (JObject (serialized_payload ce p))"
    using jv unfolding sp json_value_def by (rule conjunct1)
  have w: "wire_payload ce p = pp_payload p"
    by (simp only: wire_payload_def sp json_value_payload [OF jv])
  show ?thesis
    by (simp add: round_trip_formula [OF ok nb] w sc)
qed

lemma serialized_bigint_field:
  assumes evm: "pp_network p \<in> set (SupportedEVMNetworks ce)"
    and f: "get_prop k (get_prop ''authorization'' (JObject (pp_payload p))) = JBigInt n"
  shows "get_prop k (serialized_authorization ce p) = JString (bigint_toString n)"
proof (cases "get_prop ''authorization'' (JObject (pp_payload p))")
  case (JObject au)
  with f have m: "map_of au k = Some (JBigInt n)"
    by (simp split: option.splits)
  have "serialized_authorization ce p = JObject (stringify_bigints au)"
    using evm JObject
    by (simp add: serialized_authorization_def serialized_payload_def map_of_set_prop
        del: get_prop.simps(1) cong: json.case_cong)
       (simp add: map_of_set_prop)
  then show ?thesis
    using stringified_field [OF m] by simp
qed (use f in simp_all)

subsection \<open>Decoding what was encoded\<close>

text \<open>A payment whose authorization holds BigInt fields does not come back as it was: the
  fields come back as decimal strings.\<close>

theorem bigint_fields_do_not_round_trip:
  "envelope_ok sample_codec_env sample_bigint_payment
   \<and> round_trip sample_codec_env sample_bigint_payment = Inr sample_evm_payment
   \<and> sample_evm_payment \<noteq> sample_bigint_payment"
  by code_simp

text \<open>
  \<^bold>\<open>C1.\<close> Let the network of a payment belong to one of the three families and to the
  networks of the schema, its version and scheme be admitted by the schema, and its
  authorization be an object when the family is EVM. \<^verbatim>\<open>encodePayment\<close> writes each BigInt
  field of an EVM authorization as its decimal string, which \<^verbatim>\<open>BigInt\<close> reads back as the
  same integer whatever its size, and throws when a BigInt is left anywhere else in the
  payload. Otherwise \<^verbatim>\<open>decodePayment\<close> of the header is the payment with its payload
  replaced by what the payload schema answers for the JSON image of the serialised
  payload, and an error when the schema rejects it. So a payment whose payload is made of
  JSON values, amounts being decimal strings of any size, and is answered unchanged by the
  schema, comes back as it was.
\<close>

theorem decode_after_encode:
  assumes "envelope_ok ce p"
  shows "(has_bigint (JObject (serialized_payload ce p))
            \<longrightarrow> encodePayment ce p = Inl (Error ''TypeError''))
       \<and> (\<not> has_bigint (JObject (serialized_payload ce p))
            \<longrightarrow> round_trip ce p =
                  (case payloadSchema ce (wire_payload ce p) of
                     None \<Rightarrow> Inl (Error ''ZodError'')
                   | Some parsed \<Rightarrow> Inr (p\<lparr>pp_payload := parsed\<rparr>)))
       \<and> (json_value (JObject (pp_payload p))
            \<and> payloadSchema ce (pp_payload p) = Some (pp_payload p)
            \<longrightarrow> round_trip ce p = Inr p)
       \<and> (pp_network p \<in> set (SupportedEVMNetworks ce)
            \<and> get_prop k (get_prop ''authorization'' (JObject (pp_payload p))) = JBigInt n
            \<longrightarrow> get_prop k (serialized_authorization ce p) = JString (bigint_toString n)
                \<and> BigInt_of_string (bigint_toString n) = Some n)"
proof (intro conjI impI)
  assume "has_bigint (JObject (serialized_payload ce p))"
  with assms show "encodePayment ce p = Inl (Error ''TypeError'')"
    by (rule encode_bigint_throws)
next
  assume "\<not> has_bigint (JObject (serialized_payload ce p))"
  with assms show "round_trip ce p =
                  (case payloadSchema ce (wire_payload ce p) of
                     None \<Rightarrow> Inl (Error ''ZodError'')
                   | Some parsed \<Rightarrow> Inr (p\<lparr>pp_payload := parsed\<rparr>))"
    by (rule round_trip_formula)
next
  assume "json_value (JObject (pp_payload p))
            \<and> payloadSchema ce (pp_payload p) = Some (pp_payload p)"
  with assms show "round_trip ce p = Inr p"
    by (intro round_trip_identity) simp_all
next
  assume "pp_network p \<in> set (SupportedEVMNetworks ce)
            \<and> get_prop k (get_prop ''authorization'' (JObject (pp_payload p))) = JBigInt n"
  then show "get_prop k (serialized_authorization ce p) = JString (bigint_toString n)"
    by (intro serialized_bigint_field) simp_all
next
  show "BigInt_of_string (bigint_toString n) = Some n"
    by (rule bigint_toString_exact)
qed

text \<open>The witness: the EVM payment with BigInt fields, whose amount of \<open>10^30\<close> is written
  as its decimal string and read back as such; the same payment with decimal strings, an
  SVM payment and a Hyperliquid payment, which come back as they were; and a Hyperliquid
  payment with a BigInt in its action, which is not encoded.\<close>

theorem decode_after_encode_witness:
  "envelope_ok sample_codec_env sample_bigint_payment
   \<and> get_prop ''value'' (serialized_authorization sample_codec_env sample_bigint_payment)
       = JString ''1000000000000000000000000000000''
   \<and> BigInt_of_string ''1000000000000000000000000000000''
       = Some 1000000000000000000000000000000
   \<and> round_trip sample_codec_env sample_bigint_payment = Inr sample_evm_payment
   \<and> round_trip sample_codec_env sample_evm_payment = Inr sample_evm_payment
   \<and> round_trip sample_codec_env sample_svm_payment = Inr sample_svm_payment
   \<and> round_trip sample_codec_env sample_hl_payment = Inr sample_hl_payment
   \<and> encodePayment sample_codec_env
        (sample_hl_payment\<lparr>pp_payload := [(''action'', JObject [(''amount'', JBigInt 5)])]\<rparr>)
       = Inl (Error ''TypeError'')"
proof -
  let ?ce = sample_codec_env
  let ?big = "sample_hl_payment\<lparr>pp_payload := [(''action'', JObject [(''amount'', JBigInt 5)])]\<rparr>"
  have ok: "envelope_ok ?ce sample_bigint_payment" "envelope_ok ?ce sample_evm_payment"
    "envelope_ok ?ce sample_svm_payment" "envelope_ok ?ce sample_hl_payment"
    "envelope_ok ?ce ?big"
    by code_simp+
  have evm: "pp_network sample_bigint_payment \<in> set (SupportedEVMNetworks ?ce)"
    by code_simp
  have fld: "get_prop ''value'' (get_prop ''authorization'' (JObject (pp_payload sample_bigint_payment)))
               = JBigInt 1000000000000000000000000000000"
    by code_simp
  have str: "bigint_toString 1000000000000000000000000000000
               = ''1000000000000000000000000000000''"
    by code_simp
  have nb: "\<not> has_bigint (JObject (serialized_payload ?ce sample_bigint_payment))"
    by code_simp
  have sc: "payloadSchema ?ce (wire_payload ?ce sample_bigint_payment)
              = Some (pp_payload sample_evm_payment)"
    by code_simp
  have upd: "sample_bigint_payment\<lparr>pp_payload := pp_payload sample_evm_payment\<rparr>
               = sample_evm_payment"
    by (simp add: sample_bigint_payment_def sample_evm_payment_def)
  have jv: "json_value (JObject (pp_payload sample_evm_payment))"
    "json_value (JObject (pp_payload sample_svm_payment))"
    "json_value (JObject (pp_payload sample_hl_payment))"
    by code_simp+
  have st: "payloadSchema ?ce (pp_payload sample_evm_payment) = Some (pp_payload sample_evm_payment)"
    "payloadSchema ?ce (pp_payload sample_svm_payment) = Some (pp_payload sample_svm_payment)"
    "payloadSchema ?ce (pp_payload sample_hl_payment) = Some (pp_payload sample_hl_payment)"
    by code_simp+
  have hb: "has_bigint (JObject (serialized_payload ?ce ?big))"
    by code_simp
  have 1: "get_prop ''value'' (serialized_authorization ?ce sample_bigint_payment)
             = JString ''1000000000000000000000000000000''"
    and 2: "BigInt_of_string ''1000000000000000000000000000000''
              = Some 1000000000000000000000000000000"
    using decode_after_encode [OF ok(1), of "''value''" 1000000000000000000000000000000] evm fld
    by (simp_all only: str simp_thms)
  have 3: "round_trip ?ce sample_bigint_payment = Inr sample_evm_payment"
    using decode_after_encode [OF ok(1), of "''value''" 0] nb
    by (simp only: sc upd option.case simp_thms)
  have 4: "round_trip ?ce sample_evm_payment = Inr sample_evm_payment"
    using decode_after_encode [OF ok(2), of "''value''" 0] jv(1) st(1) by (simp only: simp_thms)
  have 5: "round_trip ?ce sample_svm_payment = Inr sample_svm_payment"
    using decode_after_encode [OF ok(3), of "''value''" 0] jv(2) st(2) by (simp only: simp_thms)
  have 6: "round_trip ?ce sample_hl_payment = Inr sample_hl_payment"
    using decode_after_encode [OF ok(4), of "''value''" 0] jv(3) st(3) by (simp only: simp_thms)
  have 7: "encodePayment ?ce ?big = Inl (Error ''TypeError'')"
    using decode_after_encode [OF ok(5), of "''value''" 0] hb by (simp only: simp_thms)
  show ?thesis
    by (intro conjI ok(1) 1 2 3 4 5 6 7)
qed

text \<open>The schema of the Hyperliquid payload declares an action, a signature and a nonce:
  the \<^verbatim>\<open>user\<close> that the client adds to its payload is not among the keys it answers.\<close>

lemma hl_schema_keys:
  "ExactHlPayloadSchema pl = Some parsed \<Longrightarrow> map fst parsed = [''action'', ''signature'', ''nonce'']"
  by (auto simp: ExactHlPayloadSchema_def split: json.splits option.splits)

text \<open>Whatever the families and the schemas are, the payment with BigInt fields and the
  payment with decimal strings have the same header when their network is an EVM one, and
  so are decoded alike: at most one of the two comes back as it was.\<close>

lemma bigint_payment_header:
  assumes "''base'' \<in> set (SupportedEVMNetworks ce)"
  shows "encodePayment ce sample_bigint_payment = encodePayment ce sample_evm_payment"
    and "round_trip ce sample_bigint_payment = round_trip ce sample_evm_payment"
proof -
  have s: "bigint_toString 1000000000000000000000000000000 = ''1000000000000000000000000000000''"
    "bigint_toString 0 = ''0''" "bigint_toString 1700000300 = ''1700000300''"
    by code_simp+
  have n: "pp_network sample_bigint_payment = ''base''" "pp_network sample_evm_payment = ''base''"
    by (simp_all add: sample_bigint_payment_def sample_evm_payment_def)
  have a: "serialized_payload ce sample_bigint_payment = pp_payload sample_evm_payment"
    "serialized_payload ce sample_evm_payment = pp_payload sample_evm_payment"
    using assms
    by (simp_all add: serialized_payload_def sample_bigint_payment_def sample_evm_payment_def
        stringify_bigints_def s)
  have e: "envelope sample_bigint_payment = envelope sample_evm_payment"
    by (rule ext) (simp add: envelope_def sample_bigint_payment_def sample_evm_payment_def)
  have g: "is_object (get_prop ''authorization'' (JObject (pp_payload sample_bigint_payment)))"
    "is_object (get_prop ''authorization'' (JObject (pp_payload sample_evm_payment)))"
    by code_simp+
  have "encodePayment ce sample_bigint_payment
          = to_header (envelope sample_bigint_payment (pp_payload sample_evm_payment))"
    using assms g(1) a(1)
    by (auto simp add: encodePayment_def n serialized_payload_def is_object_def
        simp del: get_prop.simps split: json.splits)
  moreover have "encodePayment ce sample_evm_payment
          = to_header (envelope sample_evm_payment (pp_payload sample_evm_payment))"
    using assms g(2) a(2)
    by (auto simp add: encodePayment_def n serialized_payload_def is_object_def
        simp del: get_prop.simps split: json.splits)
  ultimately show "encodePayment ce sample_bigint_payment = encodePayment ce sample_evm_payment"
    by (simp only: e)
  then show "round_trip ce sample_bigint_payment = round_trip ce sample_evm_payment"
    by (simp only: round_trip_def)
qed

end
